(* ===== verification/Prelude.thy ===== *)
theory Prelude
  imports Main
begin

text \<open>
  Shared vocabulary of the development. The program is an AWS CDK application: a
  TypeScript constructor that instantiates library constructs and calls their methods,
  each of which either mutates the construct tree and the constructs' state or throws.
  This theory holds what every component uses:
  \<^item> \<open>path\<close>: a construct's position in the construct tree, its list of ids;
  \<^item> \<open>cdk_error\<close>: one constructor per exception the modelled library code throws, and the
    result type \<open>'a result = cdk_error + 'a\<close> with its bind \<open>rbind\<close> and the loop
    \<open>for_each\<close> that stops at the first exception, as a thrown error does;
  \<^item> the JavaScript built-ins the library code relies on: the decimal rendering of a
    number in a template literal (\<open>show_nat\<close>), \<open>parseInt\<close> on a decimal string
    (\<open>read_nat\<close>, \<open>js_parse_int\<close>), \<open>String.prototype.split\<close> (\<open>split_on\<close>) and
    \<open>Array.prototype.join\<close> (\<open>join_with\<close>), with their round trips;
  \<^item> \<open>insert_new\<close>: appending to a list unless an equivalent element is already there,
    the pattern of the library's duplicate-skipping rule lists.
\<close>

section \<open>Paths, errors and results\<close>

type_synonym path = "string list"

datatype cdk_error =
    EmptyId
  | DuplicateConstruct string path
  | LockedScope path
  | InvalidStackName string
  | InvalidIp string
  | MaskNotAllowed nat
  | MaskNotAllowedInf
  | ExceedsRemainingSpace nat nat
  | IncompleteSubnetAllocation
  | NatGatewaysWithoutPublic
  | PrivateSubnetsWithoutNat
  | NonPublicNatSubnet path
  | EmptyPrefSet
  | NoSubnetGroups string
  | HostPortMismatch nat nat
  | NoPortsDefined string
  | NoContainerNamed string
  | NoPortMapping string nat
  | NotFargateCompatible
  | UnknownDefaultProtocol nat
  | PortOrProtocolRequired
  | NoVpcForTargets
  | NoDefaultContainer
  | NoDefaultPort

type_synonym 'a result = "cdk_error + 'a"

named_theorems result_simps "rewriting of chained results"

fun rbind :: "'a result \<Rightarrow> ('a \<Rightarrow> 'b result) \<Rightarrow> 'b result" where
  "rbind (Inl e) f = Inl e"
| "rbind (Inr a) f = f a"

text \<open>\<open>for_each f xs s\<close>: \<open>xs.forEach(x => ...)\<close> over a state, stopping at the first throw.\<close>

fun for_each :: "('s \<Rightarrow> 'a \<Rightarrow> 's result) \<Rightarrow> 'a list \<Rightarrow> 's \<Rightarrow> 's result" where
  "for_each f [] s = Inr s"
| "for_each f (x # xs) s = rbind (f s x) (for_each f xs)"

lemma rbind_eq_Inr [result_simps]:
  "rbind m f = Inr b \<longleftrightarrow> (\<exists>a. m = Inr a \<and> f a = Inr b)"
  by (cases m) auto

lemma rbind_eq_Inl [result_simps]:
  "rbind m f = Inl e \<longleftrightarrow> m = Inl e \<or> (\<exists>a. m = Inr a \<and> f a = Inl e)"
  by (cases m) auto

lemma rbind_assoc [result_simps]:
  "rbind (rbind m f) g = rbind m (\<lambda>a. rbind (f a) g)"
  by (cases m) auto

lemma rbind_case: "rbind m f = (case m of Inl e \<Rightarrow> Inl e | Inr a \<Rightarrow> f a)"
  by (cases m) simp_all

lemma rbind_case_prod: "rbind (case p of (a, b) \<Rightarrow> f a b) g = (case p of (a, b) \<Rightarrow> rbind (f a b) g)"
  by (cases p) simp

lemma for_each_append [result_simps]:
  "for_each f (xs @ ys) s = rbind (for_each f xs s) (for_each f ys)"
proof (induction xs arbitrary: s)
  case (Cons x xs)
  show ?case by (cases "f s x") (simp_all add: Cons.IH)
qed simp

text \<open>Elimination rules for a successful bind: a chain of statements that did not throw
  is taken apart one statement at a time, each naming the value it produced.\<close>

lemma rbind_InrE:
  assumes "rbind m f = Inr c" obtains a where "m = Inr a" "f a = Inr c"
  using assms by (cases m) auto

lemma rbind_Inr_pairE:
  assumes "rbind m (\<lambda>(a, b). f a b) = Inr c" obtains a b where "m = Inr (a, b)" "f a b = Inr c"
  using assms by (cases m) auto

lemma rbind_Inr_retE:
  assumes "rbind m (\<lambda>a. Inr (g a)) = Inr c" obtains a where "m = Inr a" "g a = c"
  using assms by (cases m) auto

lemma pair_eqD:
  assumes "(a, b) = (c, d)" shows "c = a" "d = b"
  using assms by simp_all

text \<open>An invariant kept by every successful step is kept by the whole loop.\<close>

lemma for_each_invariant:
  assumes step: "\<And>s x s'. P s \<Longrightarrow> x \<in> set xs \<Longrightarrow> f s x = Inr s' \<Longrightarrow> P s'"
    and run: "for_each f xs s = Inr s'" and start: "P s"
  shows "P s'"
  using assms
proof (induction xs arbitrary: s)
  case Nil
  then show ?case by simp
next
  case (Cons x xs)
  from Cons.prems(2) obtain s1 where s1: "f s x = Inr s1" and rest: "for_each f xs s1 = Inr s'"
    by (auto simp: rbind_eq_Inr)
  have "P s1" using Cons.prems(1) [OF Cons.prems(3) _ s1] by simp
  moreover have "\<And>s x s'. P s \<Longrightarrow> x \<in> set xs \<Longrightarrow> f s x = Inr s' \<Longrightarrow> P s'"
    using Cons.prems(1) by (metis list.set_intros(2))
  ultimately show ?case using Cons.IH rest by blast
qed

section \<open>Skipping duplicates\<close>

definition insert_new :: "('a \<Rightarrow> 'a \<Rightarrow> bool) \<Rightarrow> 'a \<Rightarrow> 'a list \<Rightarrow> 'a list" where
  "insert_new eq x xs = (if list_ex (eq x) xs then xs else xs @ [x])"

lemma set_insert_new:
  "set (insert_new eq x xs) = (if \<exists>y\<in>set xs. eq x y then set xs else insert x (set xs))"
  by (auto simp: insert_new_def list_ex_iff)

lemma insert_new_idem:
  assumes "eq x x"
  shows "insert_new eq x (insert_new eq x xs) = insert_new eq x xs"
  using assms by (auto simp: insert_new_def list_ex_iff)

lemma insert_new_covers:
  "\<exists>y\<in>set (insert_new eq x xs). eq x y \<or> y = x"
  by (auto simp: insert_new_def list_ex_iff)

lemma insert_new_prefix: "\<exists>zs. insert_new eq x xs = xs @ zs"
  by (auto simp: insert_new_def)

section \<open>JavaScript numbers and strings\<close>

definition digit_char :: "nat \<Rightarrow> char" where
  "digit_char d = char_of (48 + d)"

definition is_digit :: "char \<Rightarrow> bool" where
  "is_digit c \<longleftrightarrow> 48 \<le> (of_char c :: nat) \<and> (of_char c :: nat) \<le> 57"

definition digit_val :: "char \<Rightarrow> nat" where
  "digit_val c = of_char c - 48"

text \<open>\<open>`${n}`\<close> for a non-negative integer \<open>n\<close>: its decimal digits.\<close>

fun show_nat :: "nat \<Rightarrow> string" where
  "show_nat n = (if n < 10 then [digit_char n] else show_nat (n div 10) @ [digit_char (n mod 10)])"

declare show_nat.simps [simp del]

text \<open>\<open>parseInt\<close> on a string of decimal digits.\<close>

definition read_nat :: "string \<Rightarrow> nat" where
  "read_nat s = foldl (\<lambda>a c. 10 * a + digit_val c) 0 s"

definition js_whitespace :: "char \<Rightarrow> bool" where
  "js_whitespace c \<longleftrightarrow> c \<in> {CHR '' '', CHR 0x09, CHR 0x0A, CHR 0x0B, CHR 0x0C, CHR 0x0D}"

text \<open>
  \<open>parseInt(s, 10)\<close>: leading white space is skipped, an optional sign is read, then the
  longest run of digits; no digit at all is \<open>NaN\<close>, here \<open>None\<close>.
\<close>

definition js_parse_int :: "string \<Rightarrow> int option" where
  "js_parse_int s =
     (let s1 = dropWhile js_whitespace s;
          (sg, s2) = (case s1 of c # r \<Rightarrow> if c = CHR ''-'' then (-1, r)
                                         else if c = CHR ''+'' then (1, r) else (1, s1)
                               | [] \<Rightarrow> (1, []));
          ds = takeWhile is_digit s2
      in if ds = [] then None else Some (sg * int (read_nat ds)))"

text \<open>\<open>s.split(c)\<close> for a one-character separator.\<close>

fun split_on :: "char \<Rightarrow> string \<Rightarrow> string list" where
  "split_on c [] = [[]]"
| "split_on c (x # xs) =
     (if x = c then [] # split_on c xs
      else (let r = split_on c xs in (x # hd r) # tl r))"

text \<open>\<open>ws.join(c)\<close>.\<close>

fun join_with :: "char \<Rightarrow> string list \<Rightarrow> string" where
  "join_with c [] = []"
| "join_with c [w] = w"
| "join_with c (w # ws) = w @ c # join_with c ws"

subsection \<open>Their laws\<close>

lemma digit_char_is_digit: "d < 10 \<Longrightarrow> is_digit (digit_char d)"
  by (simp add: digit_char_def is_digit_def)

text \<open>The digits as character literals, so that a printed number evaluates by \<open>simp\<close>.\<close>

lemma digit_char_simps [simp]:
  "digit_char 0 = CHR ''0''" "digit_char 1 = CHR ''1''" "digit_char 2 = CHR ''2''" "digit_char 3 = CHR ''3''"
  "digit_char 4 = CHR ''4''" "digit_char 5 = CHR ''5''" "digit_char 6 = CHR ''6''" "digit_char 7 = CHR ''7''"
  "digit_char 8 = CHR ''8''" "digit_char 9 = CHR ''9''" "digit_char (Suc 0) = CHR ''1''"
  by (simp_all add: digit_char_def char_of_def bit_0)

lemma digit_val_digit_char [simp]: "d < 10 \<Longrightarrow> digit_val (digit_char d) = d"
  by (simp add: digit_char_def digit_val_def)

lemma read_nat_snoc [simp]: "read_nat (s @ [c]) = 10 * read_nat s + digit_val c"
  by (simp add: read_nat_def)

lemma show_nat_digits: "\<forall>c\<in>set (show_nat n). is_digit c"
proof (induction n rule: show_nat.induct)
  case (1 n)
  then show ?case
    by (subst show_nat.simps) (auto simp: digit_char_is_digit)
qed

lemma show_nat_nonempty: "show_nat n \<noteq> []"
  by (subst show_nat.simps) simp

lemma read_show_nat: "read_nat (show_nat n) = n"
proof (induction n rule: show_nat.induct)
  case (1 n)
  show ?case
  proof (cases "n < 10")
    case True
    then show ?thesis by (subst show_nat.simps) (simp add: read_nat_def)
  next
    case False
    then have "read_nat (show_nat (n div 10)) = n div 10" using "1.IH" by simp
    with False show ?thesis by (subst show_nat.simps) simp
  qed
qed

lemma is_digit_not_ws: "is_digit c \<Longrightarrow> \<not> js_whitespace c"
  by (auto simp: is_digit_def js_whitespace_def)

lemma is_digit_not_sign: "is_digit c \<Longrightarrow> c \<noteq> CHR ''-'' \<and> c \<noteq> CHR ''+''"
  by (auto simp: is_digit_def)

lemma js_parse_int_digits:
  assumes "s \<noteq> []" and "\<forall>c\<in>set s. is_digit c"
  shows "js_parse_int s = Some (int (read_nat s))"
proof -
  obtain c r where s: "s = c # r" using assms(1) by (cases s) auto
  have dw: "dropWhile js_whitespace (c # r) = c # r" using assms(2) s by (simp add: is_digit_not_ws)
  have tw: "takeWhile is_digit (c # r) = c # r"
    using assms(2) s by (simp add: takeWhile_eq_all_conv)
  show ?thesis using s is_digit_not_sign [of c] assms(2)
    by (simp add: js_parse_int_def Let_def dw tw del: takeWhile.simps dropWhile.simps)
qed

lemma js_parse_int_show_nat: "js_parse_int (show_nat n) = Some (int n)"
  by (simp add: js_parse_int_digits show_nat_nonempty show_nat_digits read_show_nat)

lemma split_on_nonempty [simp]: "split_on c s \<noteq> []"
  by (cases s) (auto simp: Let_def)

lemma split_on_no_sep [simp]: "c \<notin> set w \<Longrightarrow> split_on c w = [w]"
  by (induction w) (auto simp: Let_def)

lemma split_on_append_sep:
  "c \<notin> set w \<Longrightarrow> split_on c (w @ c # s) = w # split_on c s"
  by (induction w) (auto simp: Let_def)

lemma split_join:
  "\<forall>w\<in>set ws. c \<notin> set w \<Longrightarrow> ws \<noteq> [] \<Longrightarrow> split_on c (join_with c ws) = ws"
  by (induction c ws rule: join_with.induct) (auto simp: split_on_append_sep)

end
