(* ===== verification/Constructs.thy ===== *)
theory Constructs
  imports Prelude
begin

text \<open>
  The construct tree of the \<open>constructs\<close> library (v10, class \<open>Node\<close>), which every
  \<open>new X(scope, id, props)\<close> of the stack goes through. A tree is the list of the
  paths of its constructs in creation order (the root is the empty path) and the list of
  locked nodes. \<open>add_child\<close> is the \<open>Node\<close> constructor together with
  \<open>addChild\<close>: the id is sanitised (\<open>/\<close> becomes \<open>--\<close>), an empty id below a scope,
  a sibling with the same name and a locked scope are the three exceptions, checked in
  that order. \<open>node_path\<close> is \<open>node.path\<close>, the ids joined by \<open>/\<close>.

  The lemmas: the functional behaviour of \<open>add_child\<close> on each branch; the
  well-formedness invariant of trees (distinct paths, the parent of every node present,
  every id non-empty and free of \<open>/\<close>), kept by \<open>add_child\<close> and \<open>lock_node\<close> and
  hence true of every reachable tree (rule induction over \<open>ctree_reach\<close>); and that in
  a well-formed tree \<open>node_path\<close> is injective, so the path string identifies a
  construct (the round trip \<open>split_on (node_path p) = p\<close>).
\<close>

section \<open>Trees and the operations on them\<close>

record ctree =
  nodes :: "path list"
  locked_paths :: "path list"

definition empty_tree :: ctree where
  "empty_tree = \<lparr>nodes = [[]], locked_paths = []\<rparr>"

definition sanitize_id :: "string \<Rightarrow> string" where
  "sanitize_id i = concat (map (\<lambda>c. if c = CHR ''/'' then ''--'' else [c]) i)"

text \<open>\<open>node.locked\<close>: the node or one of its ancestors has been locked.\<close>

definition is_locked :: "'a ctree_scheme \<Rightarrow> path \<Rightarrow> bool" where
  "is_locked t p \<longleftrightarrow> list_ex (\<lambda>q. take (length q) p = q) (locked_paths t)"

definition add_child :: "'a ctree_scheme \<Rightarrow> path \<Rightarrow> string \<Rightarrow> ('a ctree_scheme \<times> path) result" where
  "add_child t scope i =
     (let n = sanitize_id i; p = scope @ [n] in
      if n = [] then Inl EmptyId
      else if is_locked t scope then Inl (LockedScope scope)
      else if p \<in> set (nodes t) then Inl (DuplicateConstruct n scope)
      else Inr (t\<lparr>nodes := nodes t @ [p]\<rparr>, p))"

definition lock_node :: "'a ctree_scheme \<Rightarrow> path \<Rightarrow> 'a ctree_scheme" where
  "lock_node t p = t\<lparr>locked_paths := locked_paths t @ [p]\<rparr>"

text \<open>\<open>scope.node.tryFindChild(id) !== undefined\<close>.\<close>

definition has_child :: "'a ctree_scheme \<Rightarrow> path \<Rightarrow> string \<Rightarrow> bool" where
  "has_child t scope i \<longleftrightarrow> scope @ [i] \<in> set (nodes t)"

definition node_path :: "path \<Rightarrow> string" where
  "node_path p = join_with CHR ''/'' p"

section \<open>Well-formed trees\<close>

definition good_id :: "string \<Rightarrow> bool" where
  "good_id n \<longleftrightarrow> n \<noteq> [] \<and> CHR ''/'' \<notin> set n"

definition wf_ctree :: "'a ctree_scheme \<Rightarrow> bool" where
  "wf_ctree t \<longleftrightarrow> distinct (nodes t) \<and> [] \<in> set (nodes t) \<and>
     list_all (\<lambda>p. p = [] \<or> (butlast p \<in> set (nodes t) \<and> good_id (last p))) (nodes t)"

inductive ctree_reach :: "ctree \<Rightarrow> bool" where
  init: "ctree_reach empty_tree"
| add: "ctree_reach t \<Longrightarrow> scope \<in> set (nodes t) \<Longrightarrow> add_child t scope i = Inr (t', p) \<Longrightarrow>
          ctree_reach t'"
| lock: "ctree_reach t \<Longrightarrow> ctree_reach (lock_node t p)"

section \<open>Lemmas\<close>

lemma sanitize_id_no_slash: "CHR ''/'' \<notin> set (sanitize_id i)"
  by (induction i) (auto simp: sanitize_id_def)

lemma sanitize_id_ident: "CHR ''/'' \<notin> set i \<Longrightarrow> sanitize_id i = i"
  by (induction i) (auto simp: sanitize_id_def)

lemma sanitize_id_empty [simp]: "sanitize_id i = [] \<longleftrightarrow> i = []"
  by (cases i) (auto simp: sanitize_id_def)

lemmas add_child_unfold = add_child_def Let_def

text \<open>The successful branch, and each exception with the guard that raises it.\<close>

lemma add_child_Inr:
  "add_child t scope i = Inr (t', p) \<longleftrightarrow>
     i \<noteq> [] \<and> p = scope @ [sanitize_id i] \<and> p \<notin> set (nodes t) \<and> \<not> is_locked t scope \<and>
     t' = t\<lparr>nodes := nodes t @ [p]\<rparr>"
  by (auto simp: add_child_unfold)

lemma add_child_empty: "add_child t scope [] = Inl EmptyId"
  by (simp add: add_child_unfold)

lemma add_child_locked:
  "i \<noteq> [] \<Longrightarrow> is_locked t scope \<Longrightarrow> add_child t scope i = Inl (LockedScope scope)"
  by (simp add: add_child_unfold)

lemma add_child_duplicate:
  "i \<noteq> [] \<Longrightarrow> \<not> is_locked t scope \<Longrightarrow> scope @ [sanitize_id i] \<in> set (nodes t) \<Longrightarrow>
   add_child t scope i = Inl (DuplicateConstruct (sanitize_id i) scope)"
  by (simp add: add_child_unfold)

lemma add_child_nodes:
  "add_child t scope i = Inr (t', p) \<Longrightarrow> nodes t' = nodes t @ [p]"
  by (simp add: add_child_Inr)

lemma add_child_more:
  "add_child t scope i = Inr (t', p) \<Longrightarrow> ctree.more t' = ctree.more t \<and> locked_paths t' = locked_paths t"
  by (auto simp: add_child_Inr)

lemma add_child_wf:
  assumes wf: "wf_ctree t" and scope: "scope \<in> set (nodes t)"
    and ok: "add_child t scope i = Inr (t', p)"
  shows "wf_ctree t'"
proof -
  from ok have p: "p = scope @ [sanitize_id i]" and fresh: "p \<notin> set (nodes t)"
    and ne: "i \<noteq> []" and t': "nodes t' = nodes t @ [p]"
    by (auto simp: add_child_Inr)
  have "good_id (last p)"
    using ne p sanitize_id_no_slash by (simp add: good_id_def)
  moreover have "butlast p \<in> set (nodes t)" using p scope by simp
  ultimately show ?thesis
    using wf fresh t' by (auto simp: wf_ctree_def list_all_iff)
qed

lemma lock_node_wf: "wf_ctree t \<Longrightarrow> wf_ctree (lock_node t p)"
  by (simp add: wf_ctree_def lock_node_def)

lemma empty_tree_wf: "wf_ctree empty_tree"
  by (simp add: wf_ctree_def empty_tree_def)

lemma ctree_reach_wf: "ctree_reach t \<Longrightarrow> wf_ctree t"
proof (induction rule: ctree_reach.induct)
  case init
  then show ?case by (rule empty_tree_wf)
next
  case (add t scope i t' p)
  then show ?case by (blast intro: add_child_wf)
next
  case (lock t p)
  then show ?case by (simp add: lock_node_wf)
qed

lemma wf_ctree_good_ids:
  assumes "wf_ctree t" and "p \<in> set (nodes t)"
  shows "\<forall>n\<in>set p. good_id n"
  using assms
proof (induction p rule: rev_induct)
  case Nil
  then show ?case by simp
next
  case (snoc n q)
  then have "q \<in> set (nodes t)" and "good_id n"
    by (auto simp: wf_ctree_def list_all_iff)
  with snoc.IH snoc.prems(1) show ?case by simp
qed

lemma split_node_path:
  "\<forall>n\<in>set p. good_id n \<Longrightarrow> p \<noteq> [] \<Longrightarrow> split_on CHR ''/'' (node_path p) = p"
  unfolding node_path_def by (rule split_join) (auto simp: good_id_def)

lemma node_path_empty_iff:
  "\<forall>n\<in>set p. good_id n \<Longrightarrow> node_path p = [] \<longleftrightarrow> p = []"
  by (induction "CHR ''/''" p rule: join_with.induct) (auto simp: node_path_def good_id_def)

text \<open>The success branch in the form the evaluation of the stack uses: a fresh, well-formed
  id below an unlocked tree.\<close>

lemma add_child_fresh:
  assumes "CHR ''/'' \<notin> set i" "i \<noteq> []" "scope @ [i] \<notin> set (nodes t)" "locked_paths t = []"
  shows "add_child t scope i = Inr (t\<lparr>nodes := nodes t @ [scope @ [i]]\<rparr>, scope @ [i])"
  using assms by (simp add: add_child_unfold sanitize_id_ident is_locked_def)

lemma add_child_fresh_sanitized:
  assumes "i \<noteq> []" "scope @ [sanitize_id i] \<notin> set (nodes t)" "locked_paths t = []"
  shows "add_child t scope i =
         Inr (t\<lparr>nodes := nodes t @ [scope @ [sanitize_id i]]\<rparr>, scope @ [sanitize_id i])"
  using assms by (simp add: add_child_unfold is_locked_def)

text \<open>\<open>sanitize_id\<close> character by character, for ids computed from other ids.\<close>

lemma sanitize_id_Nil [simp]: "sanitize_id [] = []"
  by (simp add: sanitize_id_def)

lemma sanitize_id_Cons [simp]:
  "sanitize_id (c # cs) = (if c = CHR ''/'' then ''--'' else [c]) @ sanitize_id cs"
  by (simp add: sanitize_id_def)

lemma sanitize_id_append [simp]: "sanitize_id (a @ b) = sanitize_id a @ sanitize_id b"
  by (simp add: sanitize_id_def)

end
