(* ===== verification/Cidr.thy ===== *)
theory Cidr
  imports Prelude "HOL-Library.Log_Nat"
begin

text \<open>
  IPv4 address arithmetic of aws-ec2 (\<open>network-util.ts\<close>): \<open>NetworkUtils.validIp\<close>,
  \<open>ipToNum\<close> and \<open>numToIp\<close> on dotted strings, \<open>CidrBlock\<close> and \<open>NetworkBuilder\<close>,
  which the \<open>Vpc\<close> of the stack uses to carve its \<open>/24\<close> subnets out of
  \<open>10.0.0.0/16\<close>. Addresses are JavaScript numbers, modelled as \<open>int\<close> (no
  wrap-around); \<open>/\<close> followed by \<open>Math.floor\<close> is \<open>div\<close>, and \<open>%\<close> is the
  truncating remainder \<open>js_rem\<close>.

  The lemmas: \<open>numToIp\<close> agrees with plain base-256 digits on non-negative numbers
  (its \<open>remaining !== 0\<close> shortcut changes nothing), and \<open>ipToNum (numToIp n) = n\<close>
  for every address \<open>0 \<le> n < 2^32\<close>; a \<open>CidrBlock\<close> built from a number has that
  number as its first address and \<open>2^(32-mask)\<close> addresses.
\<close>

section \<open>Dotted addresses\<close>

definition js_rem :: "int \<Rightarrow> int \<Rightarrow> int" where
  "js_rem a b = sgn a * (\<bar>a\<bar> mod \<bar>b\<bar>)"

definition show_int :: "int \<Rightarrow> string" where
  "show_int i = (if i < 0 then CHR ''-'' # show_nat (nat (- i)) else show_nat (nat i))"

definition octet_ok :: "string \<Rightarrow> bool" where
  "octet_ok w \<longleftrightarrow> (case js_parse_int w of Some v \<Rightarrow> 0 \<le> v \<and> v \<le> 255 | None \<Rightarrow> False)"

text \<open>\<open>NetworkUtils.validIp\<close>.\<close>

definition valid_ip :: "string \<Rightarrow> bool" where
  "valid_ip s \<longleftrightarrow> (let octets = split_on CHR ''.'' s in
                    length octets = 4 \<and> length (filter octet_ok octets) = 4)"

definition octet_val :: "string \<Rightarrow> int" where
  "octet_val w = (case js_parse_int w of Some v \<Rightarrow> v | None \<Rightarrow> 0)"

text \<open>The \<open>reduce\<close> of \<open>ipToNum\<close>: \<open>p + parseInt(c) * 256 ** (3 - i)\<close>.\<close>

fun ip_sum :: "int \<Rightarrow> nat \<Rightarrow> string list \<Rightarrow> int" where
  "ip_sum p i [] = p"
| "ip_sum p i (c # cs) = ip_sum (p + octet_val c * 256 ^ (3 - i)) (Suc i) cs"

definition ip_to_num :: "string \<Rightarrow> int result" where
  "ip_to_num s = (if \<not> valid_ip s then Inl (InvalidIp s)
                  else Inr (ip_sum 0 0 (split_on CHR ''.'' s)))"

text \<open>The loop of \<open>numToIp\<close>, over the exponents \<open>3 - i\<close> for \<open>i = 0 .. 3\<close>.\<close>

fun ip_octets :: "int \<Rightarrow> nat list \<Rightarrow> int list" where
  "ip_octets r [] = []"
| "ip_octets r (e # es) =
     (if r \<noteq> 0 then r div 256 ^ e # ip_octets (js_rem r (256 ^ e)) es
      else 0 # ip_octets r es)"

definition num_to_ip :: "int \<Rightarrow> string result" where
  "num_to_ip n =
     (let s = join_with CHR ''.'' (map show_int (ip_octets n [3, 2, 1, 0]))
      in if valid_ip s then Inr s else Inl (InvalidIp s))"

section \<open>CIDR blocks\<close>

record cidr_block =
  cb_cidr :: string
  cb_mask :: nat
  cb_network_size :: int
  cb_network_address :: int

definition calculate_netsize :: "nat \<Rightarrow> int" where
  "calculate_netsize msk = 2 ^ (32 - msk)"

definition max_address :: "cidr_block \<Rightarrow> int" where
  "max_address b = cb_network_address b"

definition min_address :: "cidr_block \<Rightarrow> int" where
  "min_address b = max_address b - cb_network_size b + 1"

text \<open>\<open>new CidrBlock(ipAddress: number, mask)\<close>; the \<open>cidr\<close> field renders the first
  address, which throws when it is not an IPv4 address.\<close>

definition cidr_block_of_num :: "int \<Rightarrow> nat \<Rightarrow> cidr_block result" where
  "cidr_block_of_num ip msk =
     (let size = calculate_netsize msk; na = ip + size - 1
      in rbind (num_to_ip (na - size + 1))
           (\<lambda>s. Inr \<lparr>cb_cidr = s @ CHR ''/'' # show_nat msk, cb_mask = msk,
                      cb_network_size = size, cb_network_address = na\<rparr>))"

text \<open>
  \<open>new CidrBlock(cidr: string)\<close>: the mask is \<open>parseInt\<close> of the part after the slash,
  the last address is \<open>ipToNum\<close> of the part before it plus the size minus one. Where
  JavaScript would carry on with \<open>NaN\<close> (no slash, no digits, a negative mask) the model
  stops with \<open>InvalidIp\<close>.
\<close>

definition cidr_block_of_string :: "string \<Rightarrow> cidr_block result" where
  "cidr_block_of_string c =
     (case split_on CHR ''/'' c of
        a # m # _ \<Rightarrow>
          (case js_parse_int m of
             Some k \<Rightarrow>
               if k < 0 then Inl (InvalidIp c)
               else rbind (ip_to_num a) (\<lambda>ip.
                      let msk = nat k; size = calculate_netsize msk; na = ip + size - 1
                      in rbind (num_to_ip (na - size + 1))
                           (\<lambda>s. Inr \<lparr>cb_cidr = s @ CHR ''/'' # show_nat msk, cb_mask = msk,
                                      cb_network_size = size, cb_network_address = na\<rparr>))
           | None \<Rightarrow> Inl (InvalidIp c))
      | _ \<Rightarrow> Inl (InvalidIp c))"

definition next_block :: "cidr_block \<Rightarrow> cidr_block result" where
  "next_block b = cidr_block_of_num (max_address b + 1) (cb_mask b)"

definition contains_cidr :: "cidr_block \<Rightarrow> cidr_block \<Rightarrow> bool" where
  "contains_cidr a b \<longleftrightarrow> max_address b \<le> max_address a \<and> min_address a \<le> min_address b"

definition cidr_range :: "cidr_block \<Rightarrow> int set" where
  "cidr_range b = {min_address b .. max_address b}"

section \<open>The network builder\<close>

record network_builder =
  nb_network :: cidr_block
  nb_subnets :: "cidr_block list"
  nb_next :: int

definition new_network_builder :: "string \<Rightarrow> network_builder result" where
  "new_network_builder c =
     rbind (cidr_block_of_string c)
       (\<lambda>b. Inr \<lparr>nb_network = b, nb_subnets = [], nb_next = min_address b\<rparr>)"

text \<open>The \<open>for\<close> loop of \<open>addSubnets\<close>: one block at \<open>nextAvailableIp\<close>, which then
  moves to the first address of the block after it.\<close>

fun add_subnets_loop ::
  "nat \<Rightarrow> nat \<Rightarrow> network_builder \<Rightarrow> (network_builder \<times> cidr_block list) result" where
  "add_subnets_loop msk 0 nb = Inr (nb, [])"
| "add_subnets_loop msk (Suc k) nb =
     rbind (cidr_block_of_num (nb_next nb) msk) (\<lambda>subnet.
     rbind (next_block subnet) (\<lambda>nxt.
     rbind (add_subnets_loop msk k
              (nb\<lparr>nb_next := min_address nxt, nb_subnets := nb_subnets nb @ [subnet]\<rparr>))
       (\<lambda>(nb', rest). Inr (nb', subnet # rest))))"

definition add_subnets :: "network_builder \<Rightarrow> nat \<Rightarrow> nat \<Rightarrow> (network_builder \<times> string list) result" where
  "add_subnets nb msk count =
     (if msk < 16 \<or> 28 < msk then Inl (MaskNotAllowed msk)
      else let max_ip = nb_next nb + calculate_netsize msk * int count in
        if max_address (nb_network nb) < max_ip - 1 then Inl (ExceedsRemainingSpace count msk)
        else rbind (add_subnets_loop msk count nb) (\<lambda>(nb', subs). Inr (nb', map cb_cidr subs)))"

definition add_subnet :: "network_builder \<Rightarrow> nat \<Rightarrow> (network_builder \<times> string) result" where
  "add_subnet nb msk = rbind (add_subnets nb msk 1) (\<lambda>(nb', cs). Inr (nb', hd cs))"

text \<open>
  \<open>maskForRemainingSubnets(n)\<close>: \<open>32 - floor(log2(floor(remaining / n)))\<close>. When the
  share is zero (or \<open>n\<close> is zero) JavaScript computes an infinite mask, here \<open>None\<close>.
\<close>

definition mask_for_remaining_subnets :: "network_builder \<Rightarrow> nat \<Rightarrow> nat option" where
  "mask_for_remaining_subnets nb n =
     (let remaining = max_address (nb_network nb) - nb_next nb + 1;
          ips = (if n = 0 then 0 else remaining div int n)
      in if ips \<le> 0 then None else Some (32 - (floorlog 2 (nat ips) - 1)))"

text \<open>\<open>allocatedSubnets.splice(index, 0, x)\<close>.\<close>

definition insert_at :: "nat \<Rightarrow> 'a \<Rightarrow> 'a list \<Rightarrow> 'a list" where
  "insert_at i x xs = take i xs @ x # drop i xs"

text \<open>
  \<open>Cidr.allocateSubnetsCidr\<close> (the default \<open>IpAddresses.cidr\<close>), over the masks of the
  requested subnets: a defined mask is allocated at once, in request order; the others
  share what is left, allocated afterwards and spliced back in at their index.
\<close>

fun alloc_defined ::
  "network_builder \<Rightarrow> nat \<Rightarrow> nat option list \<Rightarrow>
   (network_builder \<times> string list \<times> nat list) result" where
  "alloc_defined nb i [] = Inr (nb, [], [])"
| "alloc_defined nb i (Some m # rs) =
     rbind (add_subnet nb m) (\<lambda>(nb1, c).
     rbind (alloc_defined nb1 (Suc i) rs) (\<lambda>(nb2, cs, us). Inr (nb2, c # cs, us)))"
| "alloc_defined nb i (None # rs) =
     rbind (alloc_defined nb (Suc i) rs) (\<lambda>(nb2, cs, us). Inr (nb2, cs, i # us))"

fun alloc_remaining ::
  "network_builder \<Rightarrow> nat option \<Rightarrow> nat list \<Rightarrow> string list \<Rightarrow>
   (network_builder \<times> string list) result" where
  "alloc_remaining nb m [] cs = Inr (nb, cs)"
| "alloc_remaining nb None (i # is) cs = Inl MaskNotAllowedInf"
| "alloc_remaining nb (Some m) (i # is) cs =
     rbind (add_subnet nb m) (\<lambda>(nb1, c). alloc_remaining nb1 (Some m) is (insert_at i c cs))"

definition allocate_subnets_cidr ::
  "network_builder \<Rightarrow> nat option list \<Rightarrow> (network_builder \<times> string list) result" where
  "allocate_subnets_cidr nb reqs =
     rbind (alloc_defined nb 0 reqs) (\<lambda>(nb1, cs, us).
       alloc_remaining nb1 (mask_for_remaining_subnets nb1 (length us)) us cs)"

section \<open>Lemmas on dotted addresses\<close>

text \<open>\<open>numToIp\<close> without its \<open>remaining !== 0\<close> shortcut: plain base-256 digits.\<close>

fun ip_digits :: "int \<Rightarrow> nat list \<Rightarrow> int list" where
  "ip_digits r [] = []"
| "ip_digits r (e # es) = r div 256 ^ e # ip_digits (r mod 256 ^ e) es"

lemma ip_octets_digits: "0 \<le> r \<Longrightarrow> ip_octets r es = ip_digits r es"
proof (induction es arbitrary: r)
  case (Cons e es)
  show ?case
  proof (cases "r = 0")
    case True
    then show ?thesis using Cons.IH by simp
  next
    case False
    then have "js_rem r (256 ^ e) = r mod 256 ^ e" using Cons.prems
      by (simp add: js_rem_def)
    then show ?thesis using Cons False by simp
  qed
qed simp

lemma show_int_nonneg: "0 \<le> i \<Longrightarrow> show_int i = show_nat (nat i)"
  by (simp add: show_int_def)

lemma octet_ok_show: "0 \<le> d \<Longrightarrow> d \<le> 255 \<Longrightarrow> octet_ok (show_int d)"
  by (simp add: octet_ok_def show_int_nonneg js_parse_int_show_nat)

lemma octet_val_show: "0 \<le> d \<Longrightarrow> octet_val (show_int d) = d"
  by (simp add: octet_val_def show_int_nonneg js_parse_int_show_nat)

lemma show_nat_no_dot: "CHR ''.'' \<notin> set (show_nat k)"
  using show_nat_digits [of k] by (auto simp: is_digit_def)

lemma show_nat_no_slash: "CHR ''/'' \<notin> set (show_nat k)"
  using show_nat_digits [of k] by (auto simp: is_digit_def)

lemma ip_digits_bounds:
  fixes n :: int
  assumes "0 \<le> n" "n < 2 ^ 32"
  shows "ip_digits n [3, 2, 1, 0] =
         [n div 2^24, (n mod 2^24) div 2^16, (n mod 2^16) div 2^8, n mod 2^8]"
  using assms by (simp add: mod_mod_cancel)

lemma ip_digit_ranges:
  fixes n :: int
  assumes a: "0 \<le> n" "n < 2 ^ 32"
  shows "\<forall>d\<in>set [n div 2^24, (n mod 2^24) div 2^16, (n mod 2^16) div 2^8, n mod 2^8].
           0 \<le> d \<and> d \<le> 255"
proof -
  have "n div 2^24 \<le> 255" using a by simp
  moreover have "n mod 2^24 div 2^16 \<le> 255" by simp
  moreover have "n mod 2^16 div 2^8 \<le> 255" by simp
  moreover have "n mod 2^8 \<le> 255" by simp
  moreover have "0 \<le> n div 2^24" using a by simp
  moreover have "0 \<le> n mod 2^24 div 2^16" by simp
  moreover have "0 \<le> n mod 2^16 div 2^8" by simp
  moreover have "0 \<le> n mod 2^8" by simp
  ultimately show ?thesis unfolding list.set ball_simps by blast
qed

lemma ip_digits_sum:
  fixes n :: int
  shows "n div 2^24 * 256^3 + (n mod 2^24) div 2^16 * 256^2 + (n mod 2^16) div 2^8 * 256
         + n mod 2^8 = n"
proof -
  have e1: "n div 2^24 * 2^24 + n mod 2^24 = n" by (rule div_mult_mod_eq)
  have m2: "n mod 2^24 mod 2^16 = n mod 2^16" by (simp add: mod_mod_cancel)
  have e2: "n mod 2^24 div 2^16 * 2^16 + n mod 2^16 = n mod 2^24"
    by (metis div_mult_mod_eq m2)
  have m3: "n mod 2^16 mod 2^8 = n mod 2^8" by (simp add: mod_mod_cancel)
  have e3: "n mod 2^16 div 2^8 * 2^8 + n mod 2^8 = n mod 2^16"
    by (metis div_mult_mod_eq m3)
  have p: "(256::int)^3 = 2^24" "(256::int)^2 = 2^16" "(2::int)^8 = 256" by simp_all
  show ?thesis using e1 e2 e3 unfolding p by linarith
qed

lemma num_to_ip_Inr:
  fixes n :: int
  assumes "0 \<le> n" "n < 2 ^ 32"
  shows "\<exists>os. num_to_ip n = Inr (join_with CHR ''.'' os) \<and>
              split_on CHR ''.'' (join_with CHR ''.'' os) = os \<and>
              valid_ip (join_with CHR ''.'' os) \<and> ip_sum 0 0 os = n \<and>
              CHR ''/'' \<notin> set (join_with CHR ''.'' os)"
proof -
  define ds where "ds = [n div 2^24, (n mod 2^24) div 2^16, (n mod 2^16) div 2^8, n mod 2^8]"
  have oct: "ip_octets n [3, 2, 1, 0] = ds"
    by (simp only: ip_octets_digits [OF assms(1)] ip_digits_bounds [OF assms] ds_def)
  have rng: "\<forall>d\<in>set ds. 0 \<le> d \<and> d \<le> 255"
    using ip_digit_ranges [OF assms] by (simp add: ds_def)
  define os where "os = map show_int ds"
  have split: "split_on CHR ''.'' (join_with CHR ''.'' os) = os"
    using rng by (intro split_join) (auto simp: os_def ds_def show_int_nonneg show_nat_no_dot)
  have "length os = 4" "filter octet_ok os = os"
    using rng by (simp_all add: os_def ds_def octet_ok_show)
  then have valid: "valid_ip (join_with CHR ''.'' os)"
    by (simp add: valid_ip_def split Let_def)
  have "ip_sum 0 0 os = n"
    using rng ip_digits_sum [of n] by (simp add: os_def ds_def octet_val_show)
  moreover have "CHR ''/'' \<notin> set (join_with CHR ''.'' os)"
    using rng by (simp add: os_def ds_def show_int_nonneg show_nat_no_slash)
  moreover have "num_to_ip n = Inr (join_with CHR ''.'' os)"
    unfolding num_to_ip_def oct Let_def os_def [symmetric] using valid by simp
  ultimately show ?thesis
    using valid split by blast
qed

theorem ip_to_num_num_to_ip:
  fixes n :: int
  assumes "0 \<le> n" "n < 2 ^ 32"
  shows "rbind (num_to_ip n) ip_to_num = Inr n"
  using num_to_ip_Inr [OF assms] by (auto simp: ip_to_num_def)

section \<open>Lemmas on CIDR blocks\<close>

lemma calculate_netsize_pos: "0 < calculate_netsize m"
  by (simp add: calculate_netsize_def)

lemma cidr_block_of_num_Inr:
  "cidr_block_of_num ip m = Inr b \<Longrightarrow>
     min_address b = ip \<and> max_address b = ip + calculate_netsize m - 1 \<and> cb_mask b = m \<and>
     cb_network_size b = calculate_netsize m"
  by (auto simp: cidr_block_of_num_def Let_def min_address_def max_address_def rbind_eq_Inr)

lemma next_block_Inr:
  "next_block b = Inr n \<Longrightarrow> min_address n = max_address b + 1 \<and> cb_mask n = cb_mask b"
  by (simp add: next_block_def cidr_block_of_num_Inr)

text \<open>The string a block renders parses back to the same block.\<close>

theorem cidr_string_roundtrip:
  assumes ok: "cidr_block_of_num ip m = Inr b" and range: "0 \<le> ip" "ip < 2 ^ 32"
  shows "cidr_block_of_string (cb_cidr b) = Inr b"
proof -
  obtain os where s: "num_to_ip ip = Inr (join_with CHR ''.'' os)"
    and sp: "split_on CHR ''.'' (join_with CHR ''.'' os) = os"
    and v: "valid_ip (join_with CHR ''.'' os)" and sum: "ip_sum 0 0 os = ip"
    and ns: "CHR ''/'' \<notin> set (join_with CHR ''.'' os)"
    using num_to_ip_Inr [OF range] by blast
  define size where "size = calculate_netsize m"
  have b: "b = \<lparr>cb_cidr = join_with CHR ''.'' os @ CHR ''/'' # show_nat m, cb_mask = m,
               cb_network_size = size, cb_network_address = ip + size - 1\<rparr>"
    using ok s by (simp add: cidr_block_of_num_def Let_def size_def)
  have spl: "split_on CHR ''/'' (join_with CHR ''.'' os @ CHR ''/'' # show_nat m) =
              [join_with CHR ''.'' os, show_nat m]"
    using ns by (simp add: split_on_append_sep show_nat_no_slash)
  have "ip_to_num (join_with CHR ''.'' os) = Inr ip"
    using v sp sum by (simp add: ip_to_num_def)
  then show ?thesis
    using s by (simp add: cidr_block_of_string_def spl js_parse_int_show_nat Let_def b size_def)
qed

section \<open>Lemmas on the network builder\<close>

text \<open>
  The invariant of a builder: its blocks are in increasing order and pairwise disjoint,
  each lies inside the network and below \<open>nextAvailableIp\<close>, and \<open>nextAvailableIp\<close>
  stays between the network's first address and one past its last.
\<close>

definition nb_inv :: "network_builder \<Rightarrow> bool" where
  "nb_inv nb \<longleftrightarrow>
     sorted_wrt (\<lambda>a b. max_address a < min_address b) (nb_subnets nb) \<and>
     list_all (\<lambda>s. contains_cidr (nb_network nb) s \<and> min_address s \<le> max_address s \<and>
                     max_address s < nb_next nb) (nb_subnets nb) \<and>
     min_address (nb_network nb) \<le> nb_next nb \<and> nb_next nb \<le> max_address (nb_network nb) + 1"

lemma new_network_builder_inv:
  assumes "new_network_builder c = Inr nb" and "0 < cb_network_size (nb_network nb)"
  shows "nb_inv nb"
  using assms by (auto simp: new_network_builder_def nb_inv_def rbind_eq_Inr min_address_def)

lemma add_subnets_loop_spec:
  assumes "add_subnets_loop m k nb = Inr (nb', subs)" and "nb_inv nb"
    and "nb_next nb + calculate_netsize m * int k - 1 \<le> max_address (nb_network nb)"
  shows "nb_inv nb' \<and> nb_network nb' = nb_network nb \<and> nb_subnets nb' = nb_subnets nb @ subs \<and>
         nb_next nb' = nb_next nb + calculate_netsize m * int k \<and> length subs = k \<and>
         list_all (\<lambda>s. cb_mask s = m) subs"
  using assms
proof (induction k arbitrary: nb subs)
  case 0
  then show ?case by simp
next
  case (Suc k)
  define S where "S = calculate_netsize m"
  from Suc.prems(1) obtain sn nx rest where sn: "cidr_block_of_num (nb_next nb) m = Inr sn"
    and nx: "next_block sn = Inr nx"
    and rec: "add_subnets_loop m k
                (nb\<lparr>nb_next := min_address nx, nb_subnets := nb_subnets nb @ [sn]\<rparr>) = Inr (nb', rest)"
    and subs: "subs = sn # rest"
    by (auto simp: rbind_eq_Inr split: prod.splits)
  have S: "0 < S" by (simp add: S_def calculate_netsize_pos)
  have snb: "min_address sn = nb_next nb" "max_address sn = nb_next nb + S - 1" "cb_mask sn = m"
    using cidr_block_of_num_Inr [OF sn] by (simp_all add: S_def)
  have nxb: "min_address nx = nb_next nb + S"
    using next_block_Inr [OF nx] snb by simp
  define nb1 where "nb1 = nb\<lparr>nb_next := min_address nx, nb_subnets := nb_subnets nb @ [sn]\<rparr>"
  have room: "nb_next nb + S * int (Suc k) - 1 \<le> max_address (nb_network nb)"
    using Suc.prems(3) by (simp add: S_def)
  have "S \<le> S * int (Suc k)" using S by simp
  then have fits: "nb_next nb + S - 1 \<le> max_address (nb_network nb)" using room by linarith
  have inv1: "nb_inv nb1"
    using Suc.prems(2) S fits snb nxb
    by (auto simp: nb_inv_def nb1_def sorted_wrt_append list_all_iff contains_cidr_def)
  have room1: "nb_next nb1 + calculate_netsize m * int k - 1 \<le> max_address (nb_network nb1)"
    using room by (simp add: nb1_def nxb S_def algebra_simps)
  have IH: "nb_inv nb' \<and> nb_network nb' = nb_network nb1 \<and> nb_subnets nb' = nb_subnets nb1 @ rest \<and>
            nb_next nb' = nb_next nb1 + calculate_netsize m * int k \<and> length rest = k \<and>
            list_all (\<lambda>s. cb_mask s = m) rest"
    using Suc.IH [OF rec [folded nb1_def] inv1 room1] .
  then show ?case
    using subs snb by (simp add: nb1_def nxb S_def algebra_simps)
qed

lemma add_subnets_Inr:
  assumes "add_subnets nb m count = Inr (nb', cs)" and "nb_inv nb"
  shows "\<exists>subs. nb_inv nb' \<and> nb_network nb' = nb_network nb \<and>
           nb_subnets nb' = nb_subnets nb @ subs \<and> cs = map cb_cidr subs \<and>
           length subs = count \<and> list_all (\<lambda>s. cb_mask s = m) subs \<and>
           nb_next nb' = nb_next nb + calculate_netsize m * int count \<and> 16 \<le> m \<and> m \<le> 28"
proof -
  from assms(1) have m: "16 \<le> m" "m \<le> 28"
    and room: "nb_next nb + calculate_netsize m * int count - 1 \<le> max_address (nb_network nb)"
    by (auto simp: add_subnets_def Let_def split: if_splits)
  from assms(1) m room obtain subs where
    loop: "add_subnets_loop m count nb = Inr (nb', subs)" and cs: "cs = map cb_cidr subs"
    by (auto simp: add_subnets_def Let_def rbind_eq_Inr split: prod.splits)
  show ?thesis
    using add_subnets_loop_spec [OF loop assms(2) room] cs m by blast
qed

lemma add_subnet_Inr:
  assumes "add_subnet nb m = Inr (nb', c)" and "nb_inv nb"
  shows "\<exists>sub. nb_inv nb' \<and> nb_network nb' = nb_network nb \<and>
           nb_subnets nb' = nb_subnets nb @ [sub] \<and> c = cb_cidr sub \<and> cb_mask sub = m \<and>
           nb_next nb' = nb_next nb + calculate_netsize m"
proof -
  from assms(1) obtain cs where a: "add_subnets nb m 1 = Inr (nb', cs)" and c: "c = hd cs"
    by (auto simp: add_subnet_def rbind_eq_Inr split: prod.splits)
  from add_subnets_Inr [OF a assms(2)] obtain subs where
    "nb_inv nb'" "nb_network nb' = nb_network nb" "nb_subnets nb' = nb_subnets nb @ subs"
    "cs = map cb_cidr subs" "length subs = 1" "list_all (\<lambda>s. cb_mask s = m) subs"
    "nb_next nb' = nb_next nb + calculate_netsize m * int 1"
    by blast
  then show ?thesis using c by (cases subs) auto
qed

text \<open>Blocks of a builder that keeps its invariant never overlap and stay in the network.\<close>

lemma nb_inv_disjoint:
  assumes "nb_inv nb" and "i < j" and "j < length (nb_subnets nb)"
  shows "cidr_range (nb_subnets nb ! i) \<inter> cidr_range (nb_subnets nb ! j) = {}"
proof -
  have "max_address (nb_subnets nb ! i) < min_address (nb_subnets nb ! j)"
    using assms by (auto simp: nb_inv_def sorted_wrt_iff_nth_less)
  then show ?thesis by (auto simp: cidr_range_def)
qed

lemma nb_inv_inside:
  assumes "nb_inv nb" and "s \<in> set (nb_subnets nb)"
  shows "cidr_range s \<subseteq> cidr_range (nb_network nb)"
  using assms by (auto simp: nb_inv_def list_all_iff contains_cidr_def cidr_range_def)

end
