(* ===== verification/Vpc.thy ===== *)
theory Vpc
  imports Constructs Cidr
begin

text \<open>
  The \<open>ec2.Vpc\<close> construct of aws-cdk-lib (\<open>vpc.ts\<close>, \<open>nat.ts\<close>) as far as the stack's
  declaration at lines 12-27 of \<open>type-task-stack.ts\<close> exercises it: the subnet
  configuration with its \<open>SubnetType\<close> members (the deprecated ones have their own
  runtime values), \<open>determineNatGatewayCount\<close> with its two exceptions, the creation of
  one subnet per configuration and availability zone with CIDRs from the network builder,
  the internet gateway with a default route in every public subnet, the NAT gateways in
  the first public subnets and the default route of every private subnet to the gateway
  of its zone, or round-robin (\<open>PrefSet.pick\<close>) when its zone has none, and
  \<open>selectSubnets\<close> by subnet type.

  The state of this component extends the construct tree with the store of VPCs, keyed
  by construct path; every construct the library creates on the way is a node of the tree.
\<close>

section \<open>Configuration\<close>

datatype subnet_type =
    PRIVATE_ISOLATED | ISOLATED | PRIVATE_WITH_EGRESS | PRIVATE_WITH_NAT | PRIVATE | PUBLIC

text \<open>The runtime value of each member, which the selection error prints.\<close>

fun subnet_type_value :: "subnet_type \<Rightarrow> string" where
  "subnet_type_value PRIVATE_ISOLATED = ''Isolated''"
| "subnet_type_value ISOLATED = ''Deprecated_Isolated''"
| "subnet_type_value PRIVATE_WITH_EGRESS = ''Private''"
| "subnet_type_value PRIVATE_WITH_NAT = ''Deprecated_Private_NAT''"
| "subnet_type_value PRIVATE = ''Deprecated_Private''"
| "subnet_type_value PUBLIC = ''Public''"

definition is_private_type :: "subnet_type \<Rightarrow> bool" where
  "is_private_type t \<longleftrightarrow> t = PRIVATE_WITH_EGRESS \<or> t = PRIVATE_WITH_NAT \<or> t = PRIVATE"

definition is_isolated_type :: "subnet_type \<Rightarrow> bool" where
  "is_isolated_type t \<longleftrightarrow> t = PRIVATE_ISOLATED \<or> t = ISOLATED"

record subnet_configuration =
  sc_name :: string
  sc_cidr_mask :: "nat option"
  sc_subnet_type :: subnet_type
  sc_reserved :: bool

record vpc_props =
  vp_max_azs :: "nat option"
  vp_nat_gateways :: "nat option"
  vp_subnet_configuration :: "subnet_configuration list option"

definition default_cidr_range :: string where
  "default_cidr_range = ''10.0.0.0/16''"

definition default_subnets :: "subnet_configuration list" where
  "default_subnets =
     [\<lparr>sc_name = ''Public'', sc_cidr_mask = None, sc_subnet_type = PUBLIC, sc_reserved = False\<rparr>,
      \<lparr>sc_name = ''Private'', sc_cidr_mask = None, sc_subnet_type = PRIVATE_WITH_EGRESS,
       sc_reserved = False\<rparr>]"

section \<open>Subnets and the VPC record\<close>

datatype router = InternetGateway path | NatGateway path

record subnet =
  sn_path :: path
  sn_az :: string
  sn_cidr :: string
  sn_type :: subnet_type
  sn_map_public_ip :: bool
  sn_default_route :: "router option"

record vpc =
  vpc_cidr :: string
  vpc_azs :: "string list"
  vpc_public :: "subnet list"
  vpc_private :: "subnet list"
  vpc_isolated :: "subnet list"
  vpc_igw :: "path option"
  vpc_nat_count :: nat

record vpc_state = ctree +
  vpcs :: "path \<rightharpoonup> vpc"

text \<open>\<open>subnetId(name, i)\<close>: the construct id of the \<open>i\<close>-th subnet of a group.\<close>

definition subnet_id :: "string \<Rightarrow> nat \<Rightarrow> string" where
  "subnet_id name i = name @ ''Subnet'' @ show_nat (Suc i)"

definition add_node :: "'a ctree_scheme \<Rightarrow> path \<Rightarrow> string \<Rightarrow> 'a ctree_scheme result" where
  "add_node t scope i = rbind (add_child t scope i) (\<lambda>(t', p). Inr t')"

section \<open>The NAT gateway count\<close>

definition determine_nat_gateway_count ::
  "nat option \<Rightarrow> subnet_configuration list \<Rightarrow> nat \<Rightarrow> nat result" where
  "determine_nat_gateway_count requested cfgs az_count =
     (let has_private = list_ex (\<lambda>c. is_private_type (sc_subnet_type c) \<and> \<not> sc_reserved c) cfgs;
          has_public = list_ex (\<lambda>c. sc_subnet_type c = PUBLIC \<and> \<not> sc_reserved c) cfgs;
          has_custom_egress = list_ex (\<lambda>c. sc_subnet_type c = PRIVATE_WITH_EGRESS) cfgs;
          count = (case requested of Some r \<Rightarrow> min r az_count
                                   | None \<Rightarrow> if has_private then az_count else 0)
      in if count = 0 \<and> has_private \<and> \<not> has_custom_egress then Inl PrivateSubnetsWithoutNat
         else if 0 < count \<and> \<not> has_public then Inl NatGatewaysWithoutPublic
         else Inr count)"

section \<open>Creating the subnets\<close>

text \<open>The requested subnets: for each configuration, for each zone, in that order.\<close>

definition requested_subnets ::
  "subnet_configuration list \<Rightarrow> string list \<Rightarrow> (string \<times> string \<times> subnet_configuration) list" where
  "requested_subnets cfgs azs =
     concat (map (\<lambda>c. map (\<lambda>(i, az). (az, subnet_id (sc_name c) i, c)) (enumerate 0 azs)) cfgs)"

definition add_to_group :: "subnet \<Rightarrow> vpc \<Rightarrow> vpc" where
  "add_to_group sn v =
     (if sn_type sn = PUBLIC then v\<lparr>vpc_public := vpc_public v @ [sn]\<rparr>
      else if is_private_type (sn_type sn) then v\<lparr>vpc_private := vpc_private v @ [sn]\<rparr>
      else v\<lparr>vpc_isolated := vpc_isolated v @ [sn]\<rparr>)"

text \<open>\<open>createSubnetResources\<close>: a reserved configuration only takes address space; any
  other one is a \<open>PublicSubnet\<close> or \<open>PrivateSubnet\<close> construct with its subnet, network
  ACL, route table and route table association.\<close>

definition create_subnet_resources ::
  "path \<Rightarrow> ('a vpc_state_scheme \<times> vpc) \<Rightarrow> (string \<times> string \<times> subnet_configuration) \<times> string \<Rightarrow>
   ('a vpc_state_scheme \<times> vpc) result" where
  "create_subnet_resources vp sv req =
     (case (sv, req) of ((st, v), (az, name, cfg), cidr) \<Rightarrow>
        if sc_reserved cfg then Inr (st, v)
        else rbind (add_child st vp name) (\<lambda>(st1, sp).
             rbind (add_node st1 sp ''Subnet'') (\<lambda>st2.
             rbind (add_node st2 sp ''Acl'') (\<lambda>st3.
             rbind (add_node st3 sp ''RouteTable'') (\<lambda>st4.
             rbind (add_node st4 sp ''RouteTableAssociation'') (\<lambda>st5.
               Inr (st5, add_to_group
                           \<lparr>sn_path = sp, sn_az = az, sn_cidr = cidr,
                            sn_type = sc_subnet_type cfg,
                            sn_map_public_ip = (sc_subnet_type cfg = PUBLIC),
                            sn_default_route = None\<rparr> v)))))))"

definition create_subnets ::
  "path \<Rightarrow> network_builder \<Rightarrow> subnet_configuration list \<Rightarrow> ('a vpc_state_scheme \<times> vpc) \<Rightarrow>
   ('a vpc_state_scheme \<times> vpc) result" where
  "create_subnets vp nb cfgs sv =
     (let reqs = requested_subnets cfgs (vpc_azs (snd sv)) in
      rbind (allocate_subnets_cidr nb (map (\<lambda>(az, name, c). sc_cidr_mask c) reqs)) (\<lambda>(nb', cidrs).
        if length cidrs \<noteq> length reqs then Inl IncompleteSubnetAllocation
        else for_each (create_subnet_resources vp) (zip reqs cidrs) sv))"

section \<open>Routes, the internet gateway and the NAT gateways\<close>

definition set_route :: "path \<Rightarrow> router \<Rightarrow> subnet list \<Rightarrow> subnet list" where
  "set_route sp r sns = map (\<lambda>s. if sn_path s = sp then s\<lparr>sn_default_route := Some r\<rparr> else s) sns"

text \<open>\<open>PublicSubnet.addDefaultInternetRoute\<close>.\<close>

definition add_internet_route ::
  "path \<Rightarrow> ('a vpc_state_scheme \<times> vpc) \<Rightarrow> subnet \<Rightarrow> ('a vpc_state_scheme \<times> vpc) result" where
  "add_internet_route igw sv sn =
     (case sv of (st, v) \<Rightarrow>
        rbind (add_node st (sn_path sn) ''DefaultRoute'') (\<lambda>st1.
          Inr (st1, v\<lparr>vpc_public := set_route (sn_path sn) (InternetGateway igw) (vpc_public v)\<rparr>)))"

text \<open>\<open>PrefSet\<close> of \<open>nat.ts\<close>: values keyed by zone, and a round-robin cursor for the
  zones that have none.\<close>

record 'a pref_set =
  ps_map :: "string \<rightharpoonup> 'a"
  ps_vals :: "(string \<times> 'a) list"
  ps_next :: nat

definition empty_pref_set :: "'a pref_set" where
  "empty_pref_set = \<lparr>ps_map = Map.empty, ps_vals = [], ps_next = 0\<rparr>"

definition ps_add :: "'a pref_set \<Rightarrow> string \<Rightarrow> 'a \<Rightarrow> 'a pref_set" where
  "ps_add s pref v = s\<lparr>ps_map := (ps_map s)(pref \<mapsto> v), ps_vals := ps_vals s @ [(pref, v)]\<rparr>"

definition ps_pick :: "'a pref_set \<Rightarrow> string \<Rightarrow> ('a \<times> 'a pref_set) result" where
  "ps_pick s pref =
     (if ps_vals s = [] then Inl EmptyPrefSet
      else case ps_map s pref of
             Some v \<Rightarrow> Inr (v, s)
           | None \<Rightarrow> Inr (snd (ps_vals s ! (ps_next s mod length (ps_vals s))),
                          s\<lparr>ps_next := Suc (ps_next s)\<rparr>))"

text \<open>\<open>NatGatewayProvider.configureNat\<close>: a gateway (with its elastic IP) in each NAT
  subnet, then a default route in each private subnet.\<close>

definition add_nat_gateway ::
  "('a vpc_state_scheme \<times> path pref_set) \<Rightarrow> subnet \<Rightarrow> ('a vpc_state_scheme \<times> path pref_set) result" where
  "add_nat_gateway sg sn =
     (case sg of (st, gws) \<Rightarrow>
        rbind (add_node st (sn_path sn) ''EIP'') (\<lambda>st1.
        rbind (add_child st1 (sn_path sn) ''NATGateway'') (\<lambda>(st2, g).
          Inr (st2, ps_add gws (sn_az sn) g))))"

definition configure_private_subnet ::
  "('a vpc_state_scheme \<times> vpc \<times> path pref_set) \<Rightarrow> subnet \<Rightarrow>
   ('a vpc_state_scheme \<times> vpc \<times> path pref_set) result" where
  "configure_private_subnet s sn =
     (case s of (st, v, gws) \<Rightarrow>
        rbind (ps_pick gws (sn_az sn)) (\<lambda>(g, gws').
        rbind (add_node st (sn_path sn) ''DefaultRoute'') (\<lambda>st1.
          Inr (st1, v\<lparr>vpc_private := set_route (sn_path sn) (NatGateway g) (vpc_private v)\<rparr>, gws'))))"

definition configure_nat ::
  "nat \<Rightarrow> ('a vpc_state_scheme \<times> vpc) \<Rightarrow> ('a vpc_state_scheme \<times> vpc) result" where
  "configure_nat count sv =
     (case sv of (st, v) \<Rightarrow>
        rbind (for_each add_nat_gateway (take count (vpc_public v)) (st, empty_pref_set)) (\<lambda>(st1, gws).
        rbind (for_each configure_private_subnet (vpc_private v) (st1, v, gws)) (\<lambda>(st2, v2, _).
          Inr (st2, v2\<lparr>vpc_nat_count := count\<rparr>))))"

definition allow_outbound :: "subnet_configuration list \<Rightarrow> bool" where
  "allow_outbound cfgs \<longleftrightarrow> list_ex (\<lambda>c. \<not> is_isolated_type (sc_subnet_type c)) cfgs"

definition create_gateways ::
  "path \<Rightarrow> subnet_configuration list \<Rightarrow> nat \<Rightarrow> ('a vpc_state_scheme \<times> vpc) \<Rightarrow>
   ('a vpc_state_scheme \<times> vpc) result" where
  "create_gateways vp cfgs nat_count sv =
     (if \<not> allow_outbound cfgs then Inr sv
      else case sv of (st, v) \<Rightarrow>
        rbind (add_child st vp ''IGW'') (\<lambda>(st1, igw).
        rbind (add_node st1 vp ''VPCGW'') (\<lambda>st2.
        rbind (for_each (add_internet_route igw) (vpc_public v) (st2, v\<lparr>vpc_igw := Some igw\<rparr>)) (\<lambda>sv3.
          if 0 < nat_count then configure_nat nat_count sv3 else Inr sv3))))"

section \<open>The constructor\<close>

definition empty_vpc :: "string \<Rightarrow> string list \<Rightarrow> vpc" where
  "empty_vpc c azs = \<lparr>vpc_cidr = c, vpc_azs = azs, vpc_public = [], vpc_private = [],
                      vpc_isolated = [], vpc_igw = None, vpc_nat_count = 0\<rparr>"

text \<open>\<open>new ec2.Vpc(scope, id, props)\<close> in a stack whose zones are \<open>stack_azs\<close>.\<close>

definition new_vpc ::
  "'a vpc_state_scheme \<Rightarrow> path \<Rightarrow> string \<Rightarrow> vpc_props \<Rightarrow> string list \<Rightarrow>
   ('a vpc_state_scheme \<times> path) result" where
  "new_vpc st scope i props stack_azs =
     rbind (add_child st scope i) (\<lambda>(st1, vp).
     rbind (new_network_builder default_cidr_range) (\<lambda>nb.
     rbind (add_node st1 vp ''Resource'') (\<lambda>st2.
       let azs = take (case vp_max_azs props of Some n \<Rightarrow> n | None \<Rightarrow> 3) stack_azs;
           cfgs = (case vp_subnet_configuration props of Some cs \<Rightarrow> cs | None \<Rightarrow> default_subnets)
       in rbind (determine_nat_gateway_count (vp_nat_gateways props) cfgs (length azs)) (\<lambda>nat_count.
          rbind (create_subnets vp nb cfgs (st2, empty_vpc default_cidr_range azs)) (\<lambda>sv.
          rbind (create_gateways vp cfgs nat_count sv) (\<lambda>(st3, v).
            Inr (st3\<lparr>vpcs := (vpcs st3)(vp \<mapsto> v)\<rparr>, vp)))))))"

text \<open>All subnets of a VPC, public, private, then isolated.\<close>

definition all_subnets :: "vpc \<Rightarrow> subnet list" where
  "all_subnets v = vpc_public v @ vpc_private v @ vpc_isolated v"

section \<open>Selecting subnets\<close>

definition subnets_of_type :: "vpc \<Rightarrow> subnet_type \<Rightarrow> subnet list" where
  "subnets_of_type v t =
     (if t = PUBLIC then vpc_public v
      else if is_private_type t then vpc_private v else vpc_isolated v)"

text \<open>\<open>vpc.selectSubnets({subnetType})\<close>; without a type, the first group that exists
  among private, isolated and public.\<close>

definition select_subnets :: "vpc \<Rightarrow> subnet_type option \<Rightarrow> subnet list result" where
  "select_subnets v sel =
     (let t = (case sel of Some t \<Rightarrow> t
                         | None \<Rightarrow> if vpc_private v \<noteq> [] then PRIVATE_WITH_EGRESS
                                   else if vpc_isolated v \<noteq> [] then PRIVATE_ISOLATED else PUBLIC);
          sns = subnets_of_type v t
      in if sns = [] then Inl (NoSubnetGroups (subnet_type_value t)) else Inr sns)"

section \<open>Lemmas: the success branch of each step\<close>

lemma add_node_fresh:
  assumes "CHR ''/'' \<notin> set i" "i \<noteq> []" "scope @ [i] \<notin> set (nodes t)" "locked_paths t = []"
  shows "add_node t scope i = Inr (t\<lparr>nodes := nodes t @ [scope @ [i]]\<rparr>)"
  using add_child_fresh [OF assms] by (simp add: add_node_def)

lemma add_node_fresh_sanitized:
  assumes "i \<noteq> []" "scope @ [sanitize_id i] \<notin> set (nodes t)" "locked_paths t = []"
  shows "add_node t scope i = Inr (t\<lparr>nodes := nodes t @ [scope @ [sanitize_id i]]\<rparr>)"
  using add_child_fresh_sanitized [OF assms] by (simp add: add_node_def)

lemmas fresh_steps = add_child_fresh add_node_fresh

lemma create_subnet_resources_ok:
  assumes "\<not> sc_reserved cfg" "CHR ''/'' \<notin> set name" "name \<noteq> []" "locked_paths st = []"
    "vp @ [name] \<notin> set (nodes st)" "vp @ [name, ''Subnet''] \<notin> set (nodes st)"
    "vp @ [name, ''Acl''] \<notin> set (nodes st)" "vp @ [name, ''RouteTable''] \<notin> set (nodes st)"
    "vp @ [name, ''RouteTableAssociation''] \<notin> set (nodes st)"
  shows "create_subnet_resources vp (st, v) ((az, name, cfg), cidr) =
         Inr (st\<lparr>nodes := nodes st @ [vp @ [name], vp @ [name, ''Subnet''], vp @ [name, ''Acl''],
                                     vp @ [name, ''RouteTable''], vp @ [name, ''RouteTableAssociation'']]\<rparr>,
              add_to_group \<lparr>sn_path = vp @ [name], sn_az = az, sn_cidr = cidr,
                            sn_type = sc_subnet_type cfg, sn_map_public_ip = (sc_subnet_type cfg = PUBLIC),
                            sn_default_route = None\<rparr> v)"
  using assms by (simp add: create_subnet_resources_def fresh_steps)

lemma add_internet_route_ok:
  assumes "locked_paths st = []" "sn_path sn @ [''DefaultRoute''] \<notin> set (nodes st)"
  shows "add_internet_route igw (st, v) sn =
         Inr (st\<lparr>nodes := nodes st @ [sn_path sn @ [''DefaultRoute'']]\<rparr>,
              v\<lparr>vpc_public := set_route (sn_path sn) (InternetGateway igw) (vpc_public v)\<rparr>)"
  using assms by (simp add: add_internet_route_def fresh_steps)

lemma add_nat_gateway_ok:
  assumes "locked_paths st = []" "sn_path sn @ [''EIP''] \<notin> set (nodes st)"
    "sn_path sn @ [''NATGateway''] \<notin> set (nodes st)"
  shows "add_nat_gateway (st, gws) sn =
         Inr (st\<lparr>nodes := nodes st @ [sn_path sn @ [''EIP''], sn_path sn @ [''NATGateway'']]\<rparr>,
              ps_add gws (sn_az sn) (sn_path sn @ [''NATGateway'']))"
  using assms by (simp add: add_nat_gateway_def fresh_steps)

lemma configure_private_subnet_ok:
  assumes "ps_pick gws (sn_az sn) = Inr (g, gws')"
    "locked_paths st = []" "sn_path sn @ [''DefaultRoute''] \<notin> set (nodes st)"
  shows "configure_private_subnet (st, v, gws) sn =
         Inr (st\<lparr>nodes := nodes st @ [sn_path sn @ [''DefaultRoute'']]\<rparr>,
              v\<lparr>vpc_private := set_route (sn_path sn) (NatGateway g) (vpc_private v)\<rparr>, gws')"
  using assms by (simp add: configure_private_subnet_def fresh_steps)

end
