(* ===== verification/Security.thy ===== *)
theory Security
  imports Vpc
begin

text \<open>
  Security groups of aws-ec2 (\<open>security-group.ts\<close>, \<open>peer.ts\<close>, \<open>port.ts\<close>,
  \<open>connections.ts\<close>): the \<open>SecurityGroup\<close> construct with its default egress rule,
  \<open>addIngressRule\<close> and \<open>addEgressRule\<close> (a rule whose peer is a CIDR is kept inline
  and skipped when an equal rule is there, equality ignoring the description; a rule whose
  peer is another group becomes a \<open>CfnSecurityGroupIngress\<close> child whose construct id
  names the peer and the port, skipped when that child exists; no egress rule is added to
  a group that allows all outbound traffic), and \<open>Connections.allowTo\<close> and
  \<open>allowFrom\<close>, through which the load balancer's listener opens its port and reaches
  its targets.

  The second half is the meaning of the rules at the network (the EC2 security group
  semantics the rules are handed to): a flow from a source, an address that belongs to
  some groups, to a destination in some groups on a TCP port is admitted when some group
  of the source lets it out (no group: the internet) and some group of the destination
  lets it in.
\<close>

section \<open>Ports, peers and rules\<close>

datatype protocol = TCP | UDP | ICMP | ALL_TRAFFIC

record port =
  port_protocol :: protocol
  port_from :: nat
  port_to :: nat
  port_string :: string

text \<open>\<open>Port.tcp(p)\<close>, whose string is the port number.\<close>

definition port_tcp :: "nat \<Rightarrow> port" where
  "port_tcp p = \<lparr>port_protocol = TCP, port_from = p, port_to = p, port_string = show_nat p\<rparr>"

definition port_all_traffic :: port where
  "port_all_traffic = \<lparr>port_protocol = ALL_TRAFFIC, port_from = 0, port_to = 65535,
                       port_string = ''ALL TRAFFIC''\<rparr>"

datatype peer = AnyIpv4 | SgPeer path

text \<open>\<open>Names.nodeUniqueId\<close>: the ids of the path, then a digest of the path, here the
  path string itself.\<close>

definition node_unique_id :: "path \<Rightarrow> string" where
  "node_unique_id p = concat p @ node_path p"

definition peer_unique_id :: "peer \<Rightarrow> string" where
  "peer_unique_id pr = (case pr of AnyIpv4 \<Rightarrow> ''0.0.0.0/0'' | SgPeer g \<Rightarrow> node_unique_id g)"

definition can_inline_rule :: "peer \<Rightarrow> bool" where
  "can_inline_rule pr \<longleftrightarrow> pr = AnyIpv4"

record rule =
  rl_peer :: peer
  rl_protocol :: protocol
  rl_from :: nat
  rl_to :: nat
  rl_description :: string

definition mk_rule :: "peer \<Rightarrow> port \<Rightarrow> string \<Rightarrow> rule" where
  "mk_rule pr pt d = \<lparr>rl_peer = pr, rl_protocol = port_protocol pt, rl_from = port_from pt,
                      rl_to = port_to pt, rl_description = d\<rparr>"

text \<open>\<open>ingressRulesEqual\<close>: as CloudFormation compares rules, without the description.\<close>

definition rules_equal :: "rule \<Rightarrow> rule \<Rightarrow> bool" where
  "rules_equal a b \<longleftrightarrow> rl_peer a = rl_peer b \<and> rl_protocol a = rl_protocol b \<and>
                       rl_from a = rl_from b \<and> rl_to a = rl_to b"

definition allow_all_rule :: rule where
  "allow_all_rule = mk_rule AnyIpv4 port_all_traffic ''Allow all outbound traffic by default''"

section \<open>Security groups\<close>

record security_group =
  sg_description :: string
  sg_allow_all_outbound :: bool
  sg_ingress :: "rule list"
  sg_egress :: "rule list"
  sg_separate_ingress :: "(string \<times> rule) list"
  sg_separate_egress :: "(string \<times> rule) list"

record sec_state = vpc_state +
  sgs :: "path \<rightharpoonup> security_group"

record security_group_props =
  sgp_vpc :: path
  sgp_allow_all_outbound :: "bool option"
  sgp_description :: "string option"

text \<open>\<open>new ec2.SecurityGroup(scope, id, props)\<close>: the description defaults to the path,
  outbound traffic to allowed, and the default egress rule is kept inline.\<close>

definition new_security_group ::
  "'a sec_state_scheme \<Rightarrow> path \<Rightarrow> string \<Rightarrow> security_group_props \<Rightarrow>
   ('a sec_state_scheme \<times> path) result" where
  "new_security_group st scope i props =
     rbind (add_child st scope i) (\<lambda>(st1, p).
     rbind (add_node st1 p ''Resource'') (\<lambda>st2.
       let allow_all = (sgp_allow_all_outbound props \<noteq> Some False);
           sg = \<lparr>sg_description = (case sgp_description props of Some d \<Rightarrow> d | None \<Rightarrow> node_path p),
                 sg_allow_all_outbound = allow_all, sg_ingress = [],
                 sg_egress = (if allow_all then [allow_all_rule] else []),
                 sg_separate_ingress = [], sg_separate_egress = []\<rparr>
       in Inr (st2\<lparr>sgs := (sgs st2)(p \<mapsto> sg)\<rparr>, p)))"

text \<open>The construct id of a separate rule: \<open>`${fromTo} ${peer}:${connection}`\<close>.\<close>

definition rule_id :: "string \<Rightarrow> peer \<Rightarrow> port \<Rightarrow> string" where
  "rule_id dir pr pt = dir @ '' '' @ peer_unique_id pr @ '':'' @ port_string pt"

definition default_description :: "string \<Rightarrow> peer \<Rightarrow> port \<Rightarrow> string" where
  "default_description dir pr pt = dir @ '' '' @ peer_unique_id pr @ '':'' @ port_string pt"

definition update_sg :: "'a sec_state_scheme \<Rightarrow> path \<Rightarrow> (security_group \<Rightarrow> security_group) \<Rightarrow>
                         'a sec_state_scheme" where
  "update_sg st g f = st\<lparr>sgs := (sgs st)(g := map_option f (sgs st g))\<rparr>"

text \<open>\<open>sg.addIngressRule(peer, connection, description)\<close>.\<close>

definition add_ingress_rule ::
  "'a sec_state_scheme \<Rightarrow> path \<Rightarrow> peer \<Rightarrow> port \<Rightarrow> string option \<Rightarrow> 'a sec_state_scheme result" where
  "add_ingress_rule st g pr pt desc =
     (let d = (case desc of Some d \<Rightarrow> d | None \<Rightarrow> default_description ''from'' pr pt);
          r = mk_rule pr pt d
      in if can_inline_rule pr
         then Inr (update_sg st g (\<lambda>sg. sg\<lparr>sg_ingress := insert_new rules_equal r (sg_ingress sg)\<rparr>))
         else let i = rule_id ''from'' pr pt in
              if has_child st g (sanitize_id i) then Inr st
              else rbind (add_node st g i) (\<lambda>st1.
                     Inr (update_sg st1 g (\<lambda>sg. sg\<lparr>sg_separate_ingress :=
                                                       sg_separate_ingress sg @ [(i, r)]\<rparr>))))"

text \<open>\<open>sg.addEgressRule(peer, connection, description)\<close>: nothing when the group allows
  all outbound traffic.\<close>

definition add_egress_rule ::
  "'a sec_state_scheme \<Rightarrow> path \<Rightarrow> peer \<Rightarrow> port \<Rightarrow> string option \<Rightarrow> 'a sec_state_scheme result" where
  "add_egress_rule st g pr pt desc =
     (case sgs st g of
        None \<Rightarrow> Inr st
      | Some sg \<Rightarrow>
          if sg_allow_all_outbound sg then Inr st
          else let d = (case desc of Some d \<Rightarrow> d | None \<Rightarrow> default_description ''to'' pr pt);
                   r = mk_rule pr pt d
               in if can_inline_rule pr
                  then Inr (update_sg st g (\<lambda>sg. sg\<lparr>sg_egress := insert_new rules_equal r (sg_egress sg)\<rparr>))
                  else let i = rule_id ''to'' pr pt in
                       if has_child st g (sanitize_id i) then Inr st
                       else rbind (add_node st g i) (\<lambda>st1.
                              Inr (update_sg st1 g (\<lambda>sg. sg\<lparr>sg_separate_egress :=
                                                               sg_separate_egress sg @ [(i, r)]\<rparr>))))"

section \<open>Connections\<close>

record connections =
  conn_sgs :: "path list"
  conn_default_port :: "port option"

text \<open>\<open>a.connections.allowTo(b, port, description)\<close>: egress from every group of \<open>a\<close>
  to every group of \<open>b\<close>, and ingress into every group of \<open>b\<close> from every group of \<open>a\<close>.\<close>

definition allow_to ::
  "'a sec_state_scheme \<Rightarrow> connections \<Rightarrow> connections \<Rightarrow> port \<Rightarrow> string \<Rightarrow> 'a sec_state_scheme result" where
  "allow_to st a b pt d =
     rbind (for_each (\<lambda>st g. for_each (\<lambda>st h. add_egress_rule st g (SgPeer h) pt (Some d)) (conn_sgs b) st)
              (conn_sgs a) st) (\<lambda>st1.
       for_each (\<lambda>st h. for_each (\<lambda>st g. add_ingress_rule st h (SgPeer g) pt (Some d)) (conn_sgs a) st)
         (conn_sgs b) st1)"

text \<open>\<open>c.connections.allowDefaultPortFrom(peer, description)\<close> for a CIDR peer.\<close>

definition allow_default_port_from ::
  "'a sec_state_scheme \<Rightarrow> connections \<Rightarrow> peer \<Rightarrow> string \<Rightarrow> 'a sec_state_scheme result" where
  "allow_default_port_from st c pr d =
     (case conn_default_port c of
        None \<Rightarrow> Inl NoDefaultPort
      | Some pt \<Rightarrow> for_each (\<lambda>st g. add_ingress_rule st g pr pt (Some d)) (conn_sgs c) st)"

section \<open>What the rules admit\<close>

record endpoint =
  ep_sgs :: "path list"

definition peer_matches :: "peer \<Rightarrow> endpoint \<Rightarrow> bool" where
  "peer_matches pr e \<longleftrightarrow> (case pr of AnyIpv4 \<Rightarrow> True | SgPeer g \<Rightarrow> g \<in> set (ep_sgs e))"

definition rule_admits :: "rule \<Rightarrow> endpoint \<Rightarrow> nat \<Rightarrow> bool" where
  "rule_admits r e p \<longleftrightarrow>
     (rl_protocol r = TCP \<or> rl_protocol r = ALL_TRAFFIC) \<and> rl_from r \<le> p \<and> p \<le> rl_to r \<and>
     peer_matches (rl_peer r) e"

definition all_ingress :: "security_group \<Rightarrow> rule list" where
  "all_ingress sg = sg_ingress sg @ map snd (sg_separate_ingress sg)"

definition all_egress :: "security_group \<Rightarrow> rule list" where
  "all_egress sg = sg_egress sg @ map snd (sg_separate_egress sg)"

definition ingress_admits :: "'a sec_state_scheme \<Rightarrow> path \<Rightarrow> endpoint \<Rightarrow> nat \<Rightarrow> bool" where
  "ingress_admits st g src p \<longleftrightarrow>
     (case sgs st g of None \<Rightarrow> False | Some sg \<Rightarrow> list_ex (\<lambda>r. rule_admits r src p) (all_ingress sg))"

definition egress_admits :: "'a sec_state_scheme \<Rightarrow> path \<Rightarrow> endpoint \<Rightarrow> nat \<Rightarrow> bool" where
  "egress_admits st g dst p \<longleftrightarrow>
     (case sgs st g of None \<Rightarrow> False | Some sg \<Rightarrow> list_ex (\<lambda>r. rule_admits r dst p) (all_egress sg))"

text \<open>A TCP flow to port \<open>p\<close>, a 16-bit port number: an endpoint without groups is a host on the internet,
  which no security group filters; an endpoint in groups sends what one of its groups
  lets out and receives what one of its groups lets in.\<close>

definition flow_admitted :: "'a sec_state_scheme \<Rightarrow> endpoint \<Rightarrow> endpoint \<Rightarrow> nat \<Rightarrow> bool" where
  "flow_admitted st src dst p \<longleftrightarrow> p \<le> 65535 \<and>
     (ep_sgs src = [] \<or> list_ex (\<lambda>g. egress_admits st g dst p) (ep_sgs src)) \<and>
     (ep_sgs dst = [] \<or> list_ex (\<lambda>g. ingress_admits st g src p) (ep_sgs dst))"

definition internet :: endpoint where
  "internet = \<lparr>ep_sgs = []\<rparr>"

end
