(* ===== verification/Ecs.thy ===== *)
theory Ecs
  imports Security
begin

text \<open>
  ECS constructs of aws-cdk-lib (\<open>aws-ecs\<close>) used at lines 28-30, 40-49, 58-69 of
  \<open>type-task-stack.ts\<close>: \<open>Cluster\<close>; \<open>FargateTaskDefinition\<close> (network mode
  \<open>awsvpc\<close>, Fargate compatibility, a task role); \<open>addContainer\<close>, whose
  \<open>ContainerDefinition\<close> links itself to the task definition, the first essential
  container becoming the default one, and whose \<open>awslogs\<close> driver creates a log group
  and the execution role; \<open>addPortMappings\<close>, which under \<open>awsvpc\<close> refuses a host
  port different from the container port; the \<open>containerPort\<close> getter, which throws
  while the container has no port mapping; \<open>FargateService\<close>, which places its tasks
  in the selected subnets with the given security groups; and
  \<open>attachToApplicationTargetGroup\<close>, which resolves the default container's port
  mapping (throwing when there is none) and returns the port range the load balancer must
  be allowed to reach and the target type.
\<close>

section \<open>Data\<close>

datatype network_mode = AWS_VPC | BRIDGE | HOST | NONE

datatype compatibility = EC2 | FARGATE | EC2_AND_FARGATE

datatype target_type = IP | INSTANCE

record port_mapping =
  pm_container_port :: nat
  pm_host_port :: "nat option"
  pm_protocol :: protocol

definition pm_default :: "nat \<Rightarrow> port_mapping" where
  "pm_default p = \<lparr>pm_container_port = p, pm_host_port = None, pm_protocol = TCP\<rparr>"

record container_definition =
  cd_name :: string
  cd_task_def :: path
  cd_image :: string
  cd_essential :: bool
  cd_port_mappings :: "port_mapping list"
  cd_log_stream_prefix :: "string option"

record container_props =
  cp_image :: string
  cp_log_stream_prefix :: "string option"
  cp_essential :: "bool option"
  cp_port_mappings :: "port_mapping list"

record task_definition =
  td_cpu :: nat
  td_memory :: nat
  td_network_mode :: network_mode
  td_compatibility :: compatibility
  td_containers :: "path list"
  td_default_container :: "path option"
  td_execution_role :: "path option"

record fargate_task_definition_props =
  ftp_memory_limit_mib :: "nat option"
  ftp_cpu :: "nat option"

record cluster =
  cl_vpc :: path

record fargate_service =
  svc_cluster :: path
  svc_task_def :: path
  svc_desired_count :: "nat option"
  svc_subnets :: "path list"
  svc_assign_public_ip :: bool
  svc_connections :: connections
  svc_load_balancers :: "(path \<times> string \<times> nat) list"

record fargate_service_props =
  fsp_cluster :: path
  fsp_task_definition :: path
  fsp_desired_count :: "nat option"
  fsp_vpc_subnets :: "subnet_type option"
  fsp_security_groups :: "path list option"
  fsp_assign_public_ip :: "bool option"

record ecs_state = sec_state +
  clusters :: "path \<rightharpoonup> cluster"
  task_defs :: "path \<rightharpoonup> task_definition"
  containers :: "path \<rightharpoonup> container_definition"
  services :: "path \<rightharpoonup> fargate_service"

section \<open>Cluster and task definition\<close>

definition new_cluster :: "'a ecs_state_scheme \<Rightarrow> path \<Rightarrow> string \<Rightarrow> path \<Rightarrow>
                           ('a ecs_state_scheme \<times> path) result" where
  "new_cluster st scope i v =
     rbind (add_child st scope i) (\<lambda>(st1, p).
     rbind (add_node st1 p ''Resource'') (\<lambda>st2.
       Inr (st2\<lparr>clusters := (clusters st2)(p \<mapsto> \<lparr>cl_vpc = v\<rparr>)\<rparr>, p)))"

text \<open>\<open>new ecs.FargateTaskDefinition(scope, id, props)\<close>: cpu and memory default to 256 and
  512, the network mode is \<open>awsvpc\<close>; the task role is created with it.\<close>

definition new_fargate_task_definition ::
  "'a ecs_state_scheme \<Rightarrow> path \<Rightarrow> string \<Rightarrow> fargate_task_definition_props \<Rightarrow>
   ('a ecs_state_scheme \<times> path) result" where
  "new_fargate_task_definition st scope i props =
     rbind (add_child st scope i) (\<lambda>(st1, p).
     rbind (add_node st1 p ''TaskRole'') (\<lambda>st2.
     rbind (add_node st2 p ''Resource'') (\<lambda>st3.
       let td = \<lparr>td_cpu = (case ftp_cpu props of Some c \<Rightarrow> c | None \<Rightarrow> 256),
                 td_memory = (case ftp_memory_limit_mib props of Some m \<Rightarrow> m | None \<Rightarrow> 512),
                 td_network_mode = AWS_VPC, td_compatibility = FARGATE,
                 td_containers = [], td_default_container = None, td_execution_role = None\<rparr>
       in Inr (st3\<lparr>task_defs := (task_defs st3)(p \<mapsto> td)\<rparr>, p))))"

definition update_td :: "'a ecs_state_scheme \<Rightarrow> path \<Rightarrow> (task_definition \<Rightarrow> task_definition) \<Rightarrow>
                         'a ecs_state_scheme" where
  "update_td st p f = st\<lparr>task_defs := (task_defs st)(p := map_option f (task_defs st p))\<rparr>"

text \<open>\<open>taskDefinition.obtainExecutionRole()\<close>: created on first use.\<close>

definition obtain_execution_role :: "'a ecs_state_scheme \<Rightarrow> path \<Rightarrow> 'a ecs_state_scheme result" where
  "obtain_execution_role st tdp =
     (case task_defs st tdp of
        None \<Rightarrow> Inr st
      | Some td \<Rightarrow>
          if td_execution_role td \<noteq> None then Inr st
          else rbind (add_child st tdp ''ExecutionRole'') (\<lambda>(st1, r).
                 Inr (update_td st1 tdp (\<lambda>td. td\<lparr>td_execution_role := Some r\<rparr>))))"

text \<open>\<open>role.addToPrincipalPolicy(statement)\<close> of an IAM role: the first statement creates
  the role's \<open>DefaultPolicy\<close> (a construct below the role), later ones go into it.\<close>

definition add_to_principal_policy :: "'a ctree_scheme \<Rightarrow> path \<Rightarrow> 'a ctree_scheme result" where
  "add_to_principal_policy st r =
     (if has_child st r ''DefaultPolicy'' then Inr st else add_node st r ''DefaultPolicy'')"

text \<open>\<open>logGroup.grantWrite(containerDefinition.taskDefinition.obtainExecutionRole())\<close> of
  the \<open>awslogs\<close> log driver: the execution role, created on first use, is granted the
  right to write to the log group by a statement in its default policy.\<close>

definition grant_log_write :: "'a ecs_state_scheme \<Rightarrow> path \<Rightarrow> 'a ecs_state_scheme result" where
  "grant_log_write st tdp =
     rbind (obtain_execution_role st tdp) (\<lambda>st1.
       case task_defs st1 tdp of
         Some td \<Rightarrow> (case td_execution_role td of
                      Some r \<Rightarrow> add_to_principal_policy st1 r
                    | None \<Rightarrow> Inr st1)
       | None \<Rightarrow> Inr st1)"

section \<open>Containers and port mappings\<close>

text \<open>\<open>addPortMappings(...pms)\<close> on a container of a task definition with the given
  network mode.\<close>

definition check_port_mapping :: "network_mode \<Rightarrow> port_mapping \<Rightarrow> port_mapping result" where
  "check_port_mapping nm pm =
     (if (nm = AWS_VPC \<or> nm = HOST) \<and> pm_host_port pm \<noteq> None \<and>
         pm_host_port pm \<noteq> Some (pm_container_port pm)
      then Inl (HostPortMismatch (the (pm_host_port pm)) (pm_container_port pm))
      else if nm = BRIDGE \<and> pm_host_port pm = None then Inr (pm\<lparr>pm_host_port := Some 0\<rparr>)
      else Inr pm)"

definition add_port_mappings ::
  "'a ecs_state_scheme \<Rightarrow> path \<Rightarrow> port_mapping list \<Rightarrow> 'a ecs_state_scheme result" where
  "add_port_mappings st cp pms =
     (case containers st cp of
        None \<Rightarrow> Inr st
      | Some c \<Rightarrow>
          (case task_defs st (cd_task_def c) of
             None \<Rightarrow> Inr st
           | Some td \<Rightarrow>
               rbind (for_each (\<lambda>acc pm. rbind (check_port_mapping (td_network_mode td) pm)
                                           (\<lambda>pm'. Inr (acc @ [pm']))) pms [])
                 (\<lambda>pms'. Inr (st\<lparr>containers := (containers st)(cp \<mapsto>
                                  c\<lparr>cd_port_mappings := cd_port_mappings c @ pms'\<rparr>)\<rparr>))))"

text \<open>\<open>taskDefinition.addContainer(id, props)\<close>: the container construct, its log driver
  (a log group below the container, and the execution role with the grant to write to
  it), the link into the task definition, then its initial port mappings.\<close>

definition add_container ::
  "'a ecs_state_scheme \<Rightarrow> path \<Rightarrow> string \<Rightarrow> container_props \<Rightarrow> ('a ecs_state_scheme \<times> path) result" where
  "add_container st tdp i props =
     rbind (add_child st tdp i) (\<lambda>(st1, cp).
     rbind (case cp_log_stream_prefix props of
              None \<Rightarrow> Inr st1
            | Some _ \<Rightarrow> rbind (add_node st1 cp ''LogGroup'') (\<lambda>st2. grant_log_write st2 tdp))
       (\<lambda>st3.
        let essential = (cp_essential props \<noteq> Some False);
            c = \<lparr>cd_name = sanitize_id i, cd_task_def = tdp, cd_image = cp_image props,
                 cd_essential = essential, cd_port_mappings = [],
                 cd_log_stream_prefix = cp_log_stream_prefix props\<rparr>;
            st4 = update_td (st3\<lparr>containers := (containers st3)(cp \<mapsto> c)\<rparr>) tdp
                    (\<lambda>td. td\<lparr>td_containers := td_containers td @ [cp],
                             td_default_container :=
                               (if td_default_container td = None \<and> essential then Some cp
                                else td_default_container td)\<rparr>)
        in rbind (if cp_port_mappings props = [] then Inr st4
                  else add_port_mappings st4 cp (cp_port_mappings props))
             (\<lambda>st5. Inr (st5, cp))))"

text \<open>The \<open>containerPort\<close> getter.\<close>

definition container_port :: "network_mode \<Rightarrow> container_definition \<Rightarrow> nat result" where
  "container_port nm c =
     (case cd_port_mappings c of
        [] \<Rightarrow> Inl (NoPortsDefined (cd_name c))
      | pm # _ \<Rightarrow>
          (case pm_host_port pm of
             Some h \<Rightarrow> if h \<noteq> 0 then Inr h
                       else if nm = BRIDGE then Inr 0 else Inr (pm_container_port pm)
           | None \<Rightarrow> if nm = BRIDGE then Inr 0 else Inr (pm_container_port pm)))"

definition find_port_mapping :: "container_definition \<Rightarrow> nat \<Rightarrow> protocol \<Rightarrow> port_mapping option" where
  "find_port_mapping c p pr =
     find (\<lambda>pm. pm_container_port pm = p \<and> pm_protocol pm = pr) (cd_port_mappings c)"

text \<open>\<open>_portRangeFromPortMapping\<close>: what the load balancer must be allowed to reach.\<close>

definition port_range_of_mapping :: "network_mode \<Rightarrow> port_mapping \<Rightarrow> port" where
  "port_range_of_mapping nm pm =
     (case pm_host_port pm of
        Some h \<Rightarrow> if h \<noteq> 0 then port_tcp h
                  else if nm = BRIDGE then \<lparr>port_protocol = TCP, port_from = 32768, port_to = 65535,
                                             port_string = ''32768-65535''\<rparr>
                  else port_tcp (pm_container_port pm)
      | None \<Rightarrow> if nm = BRIDGE then \<lparr>port_protocol = TCP, port_from = 32768, port_to = 65535,
                                      port_string = ''32768-65535''\<rparr>
                else port_tcp (pm_container_port pm))"

section \<open>The Fargate service\<close>

text \<open>\<open>new ecs.FargateService(scope, id, props)\<close>: a Fargate-compatible task definition,
  the \<open>CfnService\<close>, then \<open>awsvpc\<close> networking in the selected subnets (private by
  default unless a public IP is assigned) with the given security groups.\<close>

definition new_fargate_service ::
  "'a ecs_state_scheme \<Rightarrow> path \<Rightarrow> string \<Rightarrow> fargate_service_props \<Rightarrow>
   ('a ecs_state_scheme \<times> path) result" where
  "new_fargate_service st scope i props =
     (case task_defs st (fsp_task_definition props) of
        None \<Rightarrow> Inl NotFargateCompatible
      | Some td \<Rightarrow>
        if td_compatibility td = EC2 then Inl NotFargateCompatible
        else rbind (add_child st scope i) (\<lambda>(st1, p).
             rbind (add_node st1 p ''Service'') (\<lambda>st2.
             (case clusters st2 (fsp_cluster props) of
                None \<Rightarrow> Inl (NoSubnetGroups [])
              | Some cl \<Rightarrow>
                (case vpcs st2 (cl_vpc cl) of
                   None \<Rightarrow> Inl (NoSubnetGroups [])
                 | Some v \<Rightarrow>
                   let public_ip = (fsp_assign_public_ip props = Some True);
                       sel = (case fsp_vpc_subnets props of Some t \<Rightarrow> Some t
                              | None \<Rightarrow> if public_ip then Some PUBLIC else None)
                   in rbind (case fsp_security_groups props of
                               Some gs \<Rightarrow> if gs = [] then rbind (new_security_group st2 p ''SecurityGroup''
                                                         \<lparr>sgp_vpc = cl_vpc cl, sgp_allow_all_outbound = None,
                                                          sgp_description = None\<rparr>)
                                                     (\<lambda>(st3, g). Inr (st3, [g]))
                                         else Inr (st2, gs)
                             | None \<Rightarrow> rbind (new_security_group st2 p ''SecurityGroup''
                                             \<lparr>sgp_vpc = cl_vpc cl, sgp_allow_all_outbound = None,
                                              sgp_description = None\<rparr>)
                                         (\<lambda>(st3, g). Inr (st3, [g])))
                        (\<lambda>(st3, gs).
                        rbind (select_subnets v sel) (\<lambda>sns.
                          let svc = \<lparr>svc_cluster = fsp_cluster props,
                                     svc_task_def = fsp_task_definition props,
                                     svc_desired_count = fsp_desired_count props,
                                     svc_subnets = map sn_path sns, svc_assign_public_ip = public_ip,
                                     svc_connections = \<lparr>conn_sgs = gs, conn_default_port = None\<rparr>,
                                     svc_load_balancers = []\<rparr>
                          in Inr (st3\<lparr>services := (services st3)(p \<mapsto> svc)\<rparr>, p))))))))"

text \<open>
  \<open>service.attachToApplicationTargetGroup(tg)\<close>, through the default load balancer
  target: the default container (a non-null assertion in the source, here
  \<open>NoDefaultContainer\<close>), its \<open>containerPort\<close>, the port mapping for that port and TCP;
  the service records the target group, container and container port, and the result is
  the port range to open and the target type (\<open>ip\<close> under \<open>awsvpc\<close>).
\<close>

definition attach_to_target_group ::
  "'a ecs_state_scheme \<Rightarrow> path \<Rightarrow> path \<Rightarrow> ('a ecs_state_scheme \<times> connections \<times> port \<times> target_type) result" where
  "attach_to_target_group st sp tg =
     (case services st sp of
        None \<Rightarrow> Inl NoDefaultContainer
      | Some svc \<Rightarrow>
        (case task_defs st (svc_task_def svc) of
           None \<Rightarrow> Inl NoDefaultContainer
         | Some td \<Rightarrow>
           (case td_default_container td of
              None \<Rightarrow> Inl NoDefaultContainer
            | Some cp \<Rightarrow>
              (case containers st cp of
                 None \<Rightarrow> Inl (NoContainerNamed [])
               | Some c \<Rightarrow>
                 rbind (container_port (td_network_mode td) c) (\<lambda>p.
                   case find_port_mapping c p TCP of
                     None \<Rightarrow> Inl (NoPortMapping (cd_name c) p)
                   | Some pm \<Rightarrow>
                       if td_network_mode td = NONE then Inl NoDefaultContainer
                       else Inr (st\<lparr>services := (services st)(sp \<mapsto>
                                   svc\<lparr>svc_load_balancers := svc_load_balancers svc @
                                          [(tg, cd_name c, pm_container_port pm)]\<rparr>)\<rparr>,
                                 svc_connections svc,
                                 port_range_of_mapping (td_network_mode td) pm,
                                 if td_network_mode td = AWS_VPC then IP else INSTANCE))))))"

end
