(* ===== verification/Elb.thy ===== *)
theory Elb
  imports Ecs
begin

text \<open>
  Elastic load balancing v2 constructs of aws-cdk-lib used at lines 72-92 of
  \<open>type-task-stack.ts\<close>: \<open>ApplicationLoadBalancer\<close> (placed in the public subnets when
  internet-facing, its connections the given security group); \<open>addListener\<close>, whose
  protocol and port come from \<open>determineProtocolAndPort\<close> (a port without a protocol
  must be one of the well-known HTTP or HTTPS ports) and which, when \<open>open\<close>, lets any
  IPv4 address reach its port; \<open>addTargets\<close>, which creates an
  \<open>ApplicationTargetGroup\<close> named \<open>id + 'Group'\<close>, attaches each target (for the ECS
  service: \<open>attachToApplicationTargetGroup\<close>, remembered as a connectable member with
  its port range), and makes the group the listener's default forward action, at which
  point the group registers the listener and the load balancer's security groups are
  allowed to reach every member (\<open>registerListener\<close>, \<open>registerConnectable\<close>,
  \<open>allowTo\<close>).
\<close>

section \<open>Data\<close>

datatype app_protocol = HTTP | HTTPS

record health_check =
  hc_path :: "string option"
  hc_interval :: "nat option"
  hc_timeout :: "nat option"

record target_group =
  tg_protocol :: app_protocol
  tg_port :: nat
  tg_target_type :: "target_type option"
  tg_health_check :: health_check
  tg_targets :: "path list"
  tg_members :: "(connections \<times> port) list"
  tg_listeners :: "path list"

record listener =
  ls_lb :: path
  ls_protocol :: app_protocol
  ls_port :: nat
  ls_connections :: connections
  ls_default_forward :: "path list"

record alb =
  alb_vpc :: path
  alb_internet_facing :: bool
  alb_subnets :: "path list"
  alb_connections :: connections
  alb_listeners :: "path list"

record alb_props =
  ap_vpc :: path
  ap_internet_facing :: "bool option"
  ap_security_group :: "path option"

record listener_props =
  lp_port :: "nat option"
  lp_protocol :: "app_protocol option"
  lp_open :: "bool option"

record add_targets_props =
  atp_port :: "nat option"
  atp_protocol :: "app_protocol option"
  atp_targets :: "path list"
  atp_health_check :: health_check

record elb_state = ecs_state +
  albs :: "path \<rightharpoonup> alb"
  listeners :: "path \<rightharpoonup> listener"
  target_groups :: "path \<rightharpoonup> target_group"

section \<open>Protocols and ports\<close>

fun default_protocol_for_port :: "nat \<Rightarrow> app_protocol result" where
  "default_protocol_for_port p =
     (if p = 80 \<or> p = 8000 \<or> p = 8008 \<or> p = 8080 then Inr HTTP
      else if p = 443 \<or> p = 8443 then Inr HTTPS
      else Inl (UnknownDefaultProtocol p))"

fun default_port_for_protocol :: "app_protocol \<Rightarrow> nat" where
  "default_port_for_protocol HTTP = 80"
| "default_port_for_protocol HTTPS = 443"

text \<open>\<open>determineProtocolAndPort\<close>; both missing is \<open>None\<close>.\<close>

definition determine_protocol_and_port ::
  "app_protocol option \<Rightarrow> nat option \<Rightarrow> (app_protocol \<times> nat) option result" where
  "determine_protocol_and_port pr p =
     (case (pr, p) of
        (None, None) \<Rightarrow> Inr None
      | (Some x, Some n) \<Rightarrow> Inr (Some (x, n))
      | (Some x, None) \<Rightarrow> Inr (Some (x, default_port_for_protocol x))
      | (None, Some n) \<Rightarrow> rbind (default_protocol_for_port n) (\<lambda>x. Inr (Some (x, n))))"

section \<open>Load balancer and listener\<close>

text \<open>\<open>new elbv2.ApplicationLoadBalancer(scope, id, props)\<close>.\<close>

definition new_alb ::
  "'a elb_state_scheme \<Rightarrow> path \<Rightarrow> string \<Rightarrow> alb_props \<Rightarrow> ('a elb_state_scheme \<times> path) result" where
  "new_alb st scope i props =
     rbind (add_child st scope i) (\<lambda>(st1, p).
       case vpcs st1 (ap_vpc props) of
         None \<Rightarrow> Inl NoVpcForTargets
       | Some v \<Rightarrow>
         let facing = (ap_internet_facing props = Some True)
         in rbind (select_subnets v (if facing then Some PUBLIC else None)) (\<lambda>sns.
            rbind (add_node st1 p ''Resource'') (\<lambda>st2.
            rbind (case ap_security_group props of
                     Some g \<Rightarrow> Inr (st2, g)
                   | None \<Rightarrow> new_security_group st2 p ''SecurityGroup''
                               \<lparr>sgp_vpc = ap_vpc props, sgp_allow_all_outbound = Some False,
                                sgp_description = None\<rparr>) (\<lambda>(st3, g).
              Inr (st3\<lparr>albs := (albs st3)(p \<mapsto>
                     \<lparr>alb_vpc = ap_vpc props, alb_internet_facing = facing,
                      alb_subnets = map sn_path sns,
                      alb_connections = \<lparr>conn_sgs = [g], conn_default_port = None\<rparr>,
                      alb_listeners = []\<rparr>)\<rparr>, p)))))"

text \<open>\<open>alb.addListener(id, props)\<close>: the listener's connections are the load balancer's
  security groups with the listener port as default port; \<open>open\<close> (the default) lets
  any IPv4 address reach it.\<close>

definition add_listener ::
  "'a elb_state_scheme \<Rightarrow> path \<Rightarrow> string \<Rightarrow> listener_props \<Rightarrow> ('a elb_state_scheme \<times> path) result" where
  "add_listener st lb i props =
     (case albs st lb of
        None \<Rightarrow> Inl NoVpcForTargets
      | Some a \<Rightarrow>
        rbind (determine_protocol_and_port (lp_protocol props) (lp_port props)) (\<lambda>pp.
        case pp of
          None \<Rightarrow> Inl PortOrProtocolRequired
        | Some (pr, p) \<Rightarrow>
          rbind (add_child st lb i) (\<lambda>(st1, lp).
          rbind (add_node st1 lp ''Resource'') (\<lambda>st2.
            let conns = \<lparr>conn_sgs = conn_sgs (alb_connections a), conn_default_port = Some (port_tcp p)\<rparr>;
                st3 = st2\<lparr>listeners := (listeners st2)(lp \<mapsto>
                         \<lparr>ls_lb = lb, ls_protocol = pr, ls_port = p, ls_connections = conns,
                          ls_default_forward = []\<rparr>),
                          albs := (albs st2)(lb \<mapsto> a\<lparr>alb_listeners := alb_listeners a @ [lp]\<rparr>)\<rparr>
            in rbind (if lp_open props \<noteq> Some False
                      then allow_default_port_from st3 conns AnyIpv4
                             (''Allow from anyone on port '' @ show_nat p)
                      else Inr st3)
                 (\<lambda>st4. Inr (st4, lp))))))"

text \<open>\<open>listener.registerConnectable(c, port)\<close>.\<close>

definition register_connectable ::
  "'a elb_state_scheme \<Rightarrow> path \<Rightarrow> connections \<times> port \<Rightarrow> 'a elb_state_scheme result" where
  "register_connectable st lp m =
     (case listeners st lp of
        None \<Rightarrow> Inr st
      | Some l \<Rightarrow>
        (case albs st (ls_lb l) of
           None \<Rightarrow> Inr st
         | Some a \<Rightarrow> allow_to st (alb_connections a) (fst m) (snd m) ''Load balancer to target''))"

section \<open>Target groups\<close>

text \<open>\<open>targetGroup.addTarget(t)\<close> for an ECS service target.\<close>

definition add_target ::
  "path \<Rightarrow> 'a elb_state_scheme \<Rightarrow> path \<Rightarrow> 'a elb_state_scheme result" where
  "add_target tgp st sp =
     rbind (attach_to_target_group st sp tgp) (\<lambda>(st1, conns, pt, tt).
       Inr (st1\<lparr>target_groups := (target_groups st1)(tgp := map_option
              (\<lambda>tg. tg\<lparr>tg_target_type := Some tt, tg_targets := tg_targets tg @ [sp],
                       tg_members := tg_members tg @ [(conns, pt)]\<rparr>) (target_groups st1 tgp))\<rparr>))"

text \<open>\<open>new elbv2.ApplicationTargetGroup(scope, id, props)\<close>.\<close>

definition new_target_group ::
  "'a elb_state_scheme \<Rightarrow> path \<Rightarrow> string \<Rightarrow> add_targets_props \<Rightarrow> ('a elb_state_scheme \<times> path) result" where
  "new_target_group st scope i props =
     rbind (determine_protocol_and_port (atp_protocol props) (atp_port props)) (\<lambda>pp.
     case pp of
       None \<Rightarrow> Inl PortOrProtocolRequired
     | Some (pr, p) \<Rightarrow>
       rbind (add_child st scope i) (\<lambda>(st1, tgp).
       rbind (add_node st1 tgp ''Resource'') (\<lambda>st2.
         let st3 = st2\<lparr>target_groups := (target_groups st2)(tgp \<mapsto>
                     \<lparr>tg_protocol = pr, tg_port = p, tg_target_type = None,
                      tg_health_check = atp_health_check props, tg_targets = [], tg_members = [],
                      tg_listeners = []\<rparr>)\<rparr>
         in rbind (for_each (add_target tgp) (atp_targets props) st3) (\<lambda>st4. Inr (st4, tgp)))))"

text \<open>\<open>targetGroup.registerListener(listener)\<close>: every member known so far becomes
  reachable from the listener's load balancer.\<close>

definition register_listener ::
  "'a elb_state_scheme \<Rightarrow> path \<Rightarrow> path \<Rightarrow> 'a elb_state_scheme result" where
  "register_listener st tgp lp =
     (case target_groups st tgp of
        None \<Rightarrow> Inr st
      | Some tg \<Rightarrow>
        rbind (for_each (\<lambda>st m. register_connectable st lp m) (tg_members tg) st) (\<lambda>st1.
          Inr (st1\<lparr>target_groups := (target_groups st1)(tgp \<mapsto> tg\<lparr>tg_listeners := tg_listeners tg @ [lp]\<rparr>)\<rparr>)))"

text \<open>\<open>listener.addTargets(id, props)\<close>: the group, then \<open>addTargetGroups\<close> without
  conditions, which makes it the default forward action.\<close>

definition add_targets ::
  "'a elb_state_scheme \<Rightarrow> path \<Rightarrow> string \<Rightarrow> add_targets_props \<Rightarrow> ('a elb_state_scheme \<times> path) result" where
  "add_targets st lp i props =
     (case listeners st lp of
        None \<Rightarrow> Inl NoVpcForTargets
      | Some l \<Rightarrow>
        rbind (new_target_group st lp (i @ ''Group'') props) (\<lambda>(st1, tgp).
        rbind (register_listener st1 tgp lp) (\<lambda>st2.
          Inr (st2\<lparr>listeners := (listeners st2)(lp \<mapsto> l\<lparr>ls_default_forward := [tgp]\<rparr>)\<rparr>, tgp))))"

section \<open>Health checks\<close>

text \<open>
  The limits EC2 enforces on an application target group's health check when the stack is
  deployed: the interval between 5 and 300 seconds, the timeout between 2 and 120 seconds
  (5 seconds when not given, for IP targets over HTTP), and the timeout shorter than the
  interval; the path must start with a slash.
\<close>

definition health_check_valid :: "health_check \<Rightarrow> bool" where
  "health_check_valid hc \<longleftrightarrow>
     (let interval = (case hc_interval hc of Some n \<Rightarrow> n | None \<Rightarrow> 30);
          timeout = (case hc_timeout hc of Some n \<Rightarrow> n | None \<Rightarrow> 5)
      in 5 \<le> interval \<and> interval \<le> 300 \<and> 2 \<le> timeout \<and> timeout \<le> 120 \<and> timeout < interval \<and>
         (case hc_path hc of None \<Rightarrow> True | Some s \<Rightarrow> take 1 s = ''/''))"

end
