(* ===== verification/Stack.thy ===== *)
theory Stack
  imports Elb
begin

text \<open>
  The program: \<open>src/lib/type-task-stack.ts\<close>, the constructor of \<open>TypeTaskStack\<close>, and
  \<open>src/bin/type-task.ts\<close>, which instantiates it in a new \<open>App\<close>. Each props object
  literal of the source is one definition below, with the source's values; the
  constructor \<open>type_task_stack\<close> is the source's statements in their order, each
  \<open>const\<close> a bound name of the chain, each call the library operation of the components
  it calls, and a thrown exception ends the chain. The state is the whole construct tree
  with the stores of every component (\<open>stack_state\<close>), so that a construct mutated
  through one reference (the ALB security group, opened by the listener; the container,
  given its port mapping after the service was created) is seen through every other.
\<close>

section \<open>The application and the stack\<close>

record stack_state = elb_state +
  outputs :: "(path \<times> string) list"

text \<open>\<open>new cdk.App()\<close>: the root of the tree.\<close>

definition new_app :: stack_state where
  "new_app = \<lparr>nodes = [[]], locked_paths = [], vpcs = Map.empty, sgs = Map.empty,
              clusters = Map.empty, task_defs = Map.empty, containers = Map.empty,
              services = Map.empty, albs = Map.empty, listeners = Map.empty,
              target_groups = Map.empty, outputs = []\<rparr>"

definition is_alpha :: "char \<Rightarrow> bool" where
  "is_alpha c \<longleftrightarrow> (65 \<le> (of_char c :: nat) \<and> (of_char c :: nat) \<le> 90) \<or>
                  (97 \<le> (of_char c :: nat) \<and> (of_char c :: nat) \<le> 122)"

text \<open>\<open>VALID_STACK_NAME_REGEX = /^[A-Za-z][A-Za-z0-9-]*$/\<close> and the length limit.\<close>

definition valid_stack_name :: "string \<Rightarrow> bool" where
  "valid_stack_name s \<longleftrightarrow>
     s \<noteq> [] \<and> is_alpha (hd s) \<and> list_all (\<lambda>c. is_alpha c \<or> is_digit c \<or> c = CHR ''-'') s \<and>
     length s \<le> 128"

text \<open>\<open>super(scope, id, props)\<close> of a top-level \<open>Stack\<close>: the node, then the stack
  name, which for a stack directly under the app is its id, is validated.\<close>

definition new_stack :: "stack_state \<Rightarrow> path \<Rightarrow> string \<Rightarrow> (stack_state \<times> path) result" where
  "new_stack st scope i =
     rbind (add_child st scope i) (\<lambda>(st1, p).
       if valid_stack_name i then Inr (st1, p) else Inl (InvalidStackName i))"

text \<open>An environment-agnostic stack's zones: the first two of \<open>Fn::GetAZs\<close>.\<close>

definition stack_azs :: "string list" where
  "stack_azs = [''Fn::Select[0,Fn::GetAZs]'', ''Fn::Select[1,Fn::GetAZs]'']"

text \<open>\<open>new cdk.CfnOutput(scope, id, {value})\<close>.\<close>

definition new_cfn_output ::
  "stack_state \<Rightarrow> path \<Rightarrow> string \<Rightarrow> string \<Rightarrow> (stack_state \<times> path) result" where
  "new_cfn_output st scope i v =
     rbind (add_child st scope i) (\<lambda>(st1, p). Inr (st1\<lparr>outputs := outputs st1 @ [(p, v)]\<rparr>, p))"

text \<open>\<open>alb.loadBalancerDnsName\<close>: the \<open>DNSName\<close> attribute of the load balancer.\<close>

definition alb_dns_name :: "path \<Rightarrow> string" where
  "alb_dns_name lb = ''Fn::GetAtt['' @ node_path (lb @ [''Resource'']) @ '',DNSName]''"

section \<open>The props of the stack's declarations\<close>

definition vpc_props_of_stack :: vpc_props where
  "vpc_props_of_stack =
     \<lparr>vp_max_azs = Some 2, vp_nat_gateways = Some 1,
      vp_subnet_configuration = Some
        [\<lparr>sc_name = ''public-subnet1'', sc_cidr_mask = Some 24, sc_subnet_type = PUBLIC,
          sc_reserved = False\<rparr>,
         \<lparr>sc_name = ''private-subnet1'', sc_cidr_mask = Some 24, sc_subnet_type = PRIVATE_WITH_NAT,
          sc_reserved = False\<rparr>]\<rparr>"

definition alb_sg_props :: "path \<Rightarrow> security_group_props" where
  "alb_sg_props v = \<lparr>sgp_vpc = v, sgp_allow_all_outbound = Some True,
                     sgp_description = Some ''Allow HTTP traffic to ALB''\<rparr>"

definition task_def_props :: fargate_task_definition_props where
  "task_def_props = \<lparr>ftp_memory_limit_mib = Some 512, ftp_cpu = Some 256\<rparr>"

definition container_props_of_stack :: container_props where
  "container_props_of_stack =
     \<lparr>cp_image = ''amazon/amazon-ecs-sample'', cp_log_stream_prefix = Some ''ecs'',
      cp_essential = None, cp_port_mappings = []\<rparr>"

definition service_sg_props :: "path \<Rightarrow> security_group_props" where
  "service_sg_props v = \<lparr>sgp_vpc = v, sgp_allow_all_outbound = Some True, sgp_description = None\<rparr>"

definition service_props :: "path \<Rightarrow> path \<Rightarrow> path \<Rightarrow> fargate_service_props" where
  "service_props cl td sg =
     \<lparr>fsp_cluster = cl, fsp_task_definition = td, fsp_desired_count = Some 2,
      fsp_vpc_subnets = Some PRIVATE_WITH_NAT, fsp_security_groups = Some [sg],
      fsp_assign_public_ip = None\<rparr>"

definition container_port_mappings :: "port_mapping list" where
  "container_port_mappings = [\<lparr>pm_container_port = 8080, pm_host_port = None, pm_protocol = TCP\<rparr>]"

definition alb_props_of_stack :: "path \<Rightarrow> path \<Rightarrow> alb_props" where
  "alb_props_of_stack v sg = \<lparr>ap_vpc = v, ap_internet_facing = Some True, ap_security_group = Some sg\<rparr>"

definition listener_props_of_stack :: listener_props where
  "listener_props_of_stack = \<lparr>lp_port = Some 80, lp_protocol = None, lp_open = Some True\<rparr>"

definition targets_props :: "path \<Rightarrow> add_targets_props" where
  "targets_props svc =
     \<lparr>atp_port = Some 8080, atp_protocol = None, atp_targets = [svc],
      atp_health_check = \<lparr>hc_path = Some ''/'', hc_interval = Some 30, hc_timeout = None\<rparr>\<rparr>"

section \<open>The constructor\<close>

definition type_task_stack :: "stack_state \<Rightarrow> path \<Rightarrow> string \<Rightarrow> (stack_state \<times> path) result" where
  "type_task_stack st0 scope i =
     rbind (new_stack st0 scope i) (\<lambda>(st, this).
     rbind (new_vpc st this ''VPC'' vpc_props_of_stack stack_azs) (\<lambda>(st, vpc).
     rbind (new_cluster st this ''EcsCluster'' vpc) (\<lambda>(st, cluster).
     rbind (new_security_group st this ''AlbSecurityGroup'' (alb_sg_props vpc)) (\<lambda>(st, albSecurityGroup).
     rbind (add_ingress_rule st albSecurityGroup AnyIpv4 (port_tcp 80)
              (Some ''Allow HTTP traffic from anywhere'')) (\<lambda>st.
     rbind (new_fargate_task_definition st this ''TaskDef'' task_def_props) (\<lambda>(st, taskDefinition).
     rbind (add_container st taskDefinition ''DefaultContainer'' container_props_of_stack) (\<lambda>(st, container).
     rbind (new_security_group st this ''ServiceSecurityGroup'' (service_sg_props vpc)) (\<lambda>(st, serviceSecurityGroup).
     rbind (add_ingress_rule st serviceSecurityGroup (SgPeer albSecurityGroup) (port_tcp 8080)
              (Some ''Allow traffic from ALB'')) (\<lambda>st.
     rbind (new_fargate_service st this ''FargateService''
              (service_props cluster taskDefinition serviceSecurityGroup)) (\<lambda>(st, service).
     rbind (add_port_mappings st container container_port_mappings) (\<lambda>st.
     rbind (new_alb st this ''ALB'' (alb_props_of_stack vpc albSecurityGroup)) (\<lambda>(st, alb).
     rbind (add_listener st alb ''Listener'' listener_props_of_stack) (\<lambda>(st, listener).
     rbind (add_targets st listener ''ECS'' (targets_props service)) (\<lambda>(st, _).
     rbind (new_cfn_output st this ''ALBDnsName'' (alb_dns_name alb)) (\<lambda>(st, _).
       Inr (st, this))))))))))))))))"

text \<open>\<open>bin/type-task.ts\<close>: \<open>const app = new cdk.App(); new TypeTaskStack(app, 'TypeTaskStack')\<close>.\<close>

definition main_app :: "(stack_state \<times> path) result" where
  "main_app = type_task_stack new_app [] ''TypeTaskStack''"

section \<open>Lemmas\<close>

text \<open>A valid stack name is its own construct id.\<close>

lemma valid_stack_name_id:
  assumes "valid_stack_name s"
  shows "CHR ''/'' \<notin> set s" "s \<noteq> []" "sanitize_id s = s"
proof -
  have "\<forall>c\<in>set s. is_alpha c \<or> is_digit c \<or> c = CHR ''-''"
    using assms by (simp add: valid_stack_name_def list_all_iff)
  then show ns: "CHR ''/'' \<notin> set s"
    by (auto simp: is_alpha_def is_digit_def)
  show "s \<noteq> []" using assms by (simp add: valid_stack_name_def)
  show "sanitize_id s = s" using ns by (rule sanitize_id_ident)
qed

end
