(* ===== verification/StackRun.thy ===== *)
theory StackRun
  imports Stack
begin

text \<open>
  The constructor of \<open>TypeTaskStack\<close> run in the kernel: for every valid stack name
  \<open>s\<close>, the state it builds in a new app, written out as a value (\<open>stack_final s\<close>, with
  the VPC it creates as \<open>stack_vpc s\<close>), and the theorem \<open>type_task_stack_eq\<close> that the
  constructor computes exactly this state and returns the stack's path. The program of
  \<open>bin/type-task.ts\<close> is the instance \<open>s = ''TypeTaskStack''\<close>, the test of
  \<open>test/type-task.test.ts\<close> the instance \<open>s = ''MyTestStack''\<close>.

  The evaluation is staged so that no state is copied into the continuations of the
  chain: the VPC declaration (lines 12-27), the largest part, is evaluated on its own in
  three lemmas (the subnets, then the gateways and routes, then the constructor), and the
  other statements by unfolding each operation once, every construct added through the
  success branch of \<open>add_child\<close> for a fresh path.
\<close>

section \<open>Names of the stack's constructs\<close>

abbreviation vpc_path :: "string \<Rightarrow> path" where "vpc_path s \<equiv> [s, ''VPC'']"
abbreviation alb_sg_path :: "string \<Rightarrow> path" where "alb_sg_path s \<equiv> [s, ''AlbSecurityGroup'']"
abbreviation service_sg_path :: "string \<Rightarrow> path" where "service_sg_path s \<equiv> [s, ''ServiceSecurityGroup'']"
abbreviation cluster_path :: "string \<Rightarrow> path" where "cluster_path s \<equiv> [s, ''EcsCluster'']"
abbreviation task_def_path :: "string \<Rightarrow> path" where "task_def_path s \<equiv> [s, ''TaskDef'']"
abbreviation container_path :: "string \<Rightarrow> path" where
  "container_path s \<equiv> [s, ''TaskDef'', ''DefaultContainer'']"
abbreviation service_path :: "string \<Rightarrow> path" where "service_path s \<equiv> [s, ''FargateService'']"
abbreviation alb_path :: "string \<Rightarrow> path" where "alb_path s \<equiv> [s, ''ALB'']"
abbreviation listener_path :: "string \<Rightarrow> path" where "listener_path s \<equiv> [s, ''ALB'', ''Listener'']"
abbreviation target_group_path :: "string \<Rightarrow> path" where
  "target_group_path s \<equiv> [s, ''ALB'', ''Listener'', ''ECSGroup'']"

section \<open>The VPC of lines 12-27\<close>

definition stack_cfgs :: "subnet_configuration list" where
  "stack_cfgs = the (vp_subnet_configuration vpc_props_of_stack)"

text \<open>The network builder of \<open>10.0.0.0/16\<close>: the first address is 167772160
  (\<open>10.0.0.0\<close>), the last 167837695 (\<open>10.0.255.255\<close>).\<close>

definition nb0 :: network_builder where
  "nb0 = \<lparr>nb_network = \<lparr>cb_cidr = ''10.0.0.0/16'', cb_mask = 16, cb_network_size = 65536,
                         cb_network_address = 167837695\<rparr>, nb_subnets = [], nb_next = 167772160\<rparr>"

definition stack_subnet :: "string \<Rightarrow> string \<Rightarrow> string \<Rightarrow> string \<Rightarrow> subnet_type \<Rightarrow> router option \<Rightarrow> subnet" where
  "stack_subnet s sid az cidr t r =
     \<lparr>sn_path = vpc_path s @ [sid], sn_az = az, sn_cidr = cidr, sn_type = t,
      sn_map_public_ip = (t = PUBLIC), sn_default_route = r\<rparr>"

text \<open>The VPC after \<open>createSubnets\<close>, before any route.\<close>

definition subnets_vpc :: "string \<Rightarrow> vpc" where
  "subnets_vpc s =
     \<lparr>vpc_cidr = ''10.0.0.0/16'', vpc_azs = stack_azs,
      vpc_public =
        [stack_subnet s ''public-subnet1Subnet1'' (stack_azs ! 0) ''10.0.0.0/24'' PUBLIC None,
         stack_subnet s ''public-subnet1Subnet2'' (stack_azs ! 1) ''10.0.1.0/24'' PUBLIC None],
      vpc_private =
        [stack_subnet s ''private-subnet1Subnet1'' (stack_azs ! 0) ''10.0.2.0/24'' PRIVATE_WITH_NAT None,
         stack_subnet s ''private-subnet1Subnet2'' (stack_azs ! 1) ''10.0.3.0/24'' PRIVATE_WITH_NAT None],
      vpc_isolated = [], vpc_igw = None, vpc_nat_count = 0\<rparr>"

text \<open>The VPC the stack stores: both public subnets route to the internet gateway, both
  private subnets to the one NAT gateway, which is in the first public subnet.\<close>

definition stack_vpc :: "string \<Rightarrow> vpc" where
  "stack_vpc s =
     \<lparr>vpc_cidr = ''10.0.0.0/16'', vpc_azs = stack_azs,
      vpc_public =
        [stack_subnet s ''public-subnet1Subnet1'' (stack_azs ! 0) ''10.0.0.0/24'' PUBLIC
           (Some (InternetGateway (vpc_path s @ [''IGW'']))),
         stack_subnet s ''public-subnet1Subnet2'' (stack_azs ! 1) ''10.0.1.0/24'' PUBLIC
           (Some (InternetGateway (vpc_path s @ [''IGW''])))],
      vpc_private =
        [stack_subnet s ''private-subnet1Subnet1'' (stack_azs ! 0) ''10.0.2.0/24'' PRIVATE_WITH_NAT
           (Some (NatGateway (vpc_path s @ [''public-subnet1Subnet1'', ''NATGateway'']))),
         stack_subnet s ''private-subnet1Subnet2'' (stack_azs ! 1) ''10.0.3.0/24'' PRIVATE_WITH_NAT
           (Some (NatGateway (vpc_path s @ [''public-subnet1Subnet1'', ''NATGateway''])))],
      vpc_isolated = [], vpc_igw = Some (vpc_path s @ [''IGW'']), vpc_nat_count = 1\<rparr>"

definition subnet_nodes :: "string \<Rightarrow> path list" where
  "subnet_nodes s = concat (map (\<lambda>sid. [vpc_path s @ [sid], vpc_path s @ [sid, ''Subnet''],
       vpc_path s @ [sid, ''Acl''], vpc_path s @ [sid, ''RouteTable''],
       vpc_path s @ [sid, ''RouteTableAssociation'']])
     [''public-subnet1Subnet1'', ''public-subnet1Subnet2'', ''private-subnet1Subnet1'', ''private-subnet1Subnet2''])"

definition gateway_nodes :: "string \<Rightarrow> path list" where
  "gateway_nodes s = map (\<lambda>q. vpc_path s @ q)
     [[''IGW''], [''VPCGW''], [''public-subnet1Subnet1'', ''DefaultRoute''],
      [''public-subnet1Subnet2'', ''DefaultRoute''], [''public-subnet1Subnet1'', ''EIP''],
      [''public-subnet1Subnet1'', ''NATGateway''], [''private-subnet1Subnet1'', ''DefaultRoute''],
      [''private-subnet1Subnet2'', ''DefaultRoute'']]"

section \<open>The state the constructor builds\<close>

text \<open>The security group of the load balancer (lines 33-39): one ingress rule, the one of
  line 39; the listener's \<open>open\<close> rule for port 80 equals it up to the description
  and is not added again.\<close>

definition alb_sg :: security_group where
  "alb_sg =
     \<lparr>sg_description = ''Allow HTTP traffic to ALB'', sg_allow_all_outbound = True,
      sg_ingress = [\<lparr>rl_peer = AnyIpv4, rl_protocol = TCP, rl_from = 80, rl_to = 80,
                     rl_description = ''Allow HTTP traffic from anywhere''\<rparr>],
      sg_egress = [allow_all_rule], sg_separate_ingress = [], sg_separate_egress = []\<rparr>"

definition service_rule_id :: "string \<Rightarrow> string" where
  "service_rule_id s = ''from '' @ s @ ''AlbSecurityGroup'' @ s @ ''/AlbSecurityGroup:8080''"

text \<open>The security group of the service (lines 52-56): one rule, from the load balancer's
  group on port 8080, as a separate resource; the target group's \<open>allowTo\<close> for the same
  peer and port finds its construct and adds nothing.\<close>

definition service_sg :: "string \<Rightarrow> security_group" where
  "service_sg s =
     \<lparr>sg_description = s @ ''/ServiceSecurityGroup'', sg_allow_all_outbound = True,
      sg_ingress = [], sg_egress = [allow_all_rule],
      sg_separate_ingress = [(service_rule_id s,
         \<lparr>rl_peer = SgPeer (alb_sg_path s), rl_protocol = TCP, rl_from = 8080, rl_to = 8080,
          rl_description = ''Allow traffic from ALB''\<rparr>)],
      sg_separate_egress = []\<rparr>"

definition stack_task_def :: "string \<Rightarrow> task_definition" where
  "stack_task_def s =
     \<lparr>td_cpu = 256, td_memory = 512, td_network_mode = AWS_VPC, td_compatibility = FARGATE,
      td_containers = [container_path s], td_default_container = Some (container_path s),
      td_execution_role = Some (task_def_path s @ [''ExecutionRole''])\<rparr>"

definition stack_container :: "string \<Rightarrow> container_definition" where
  "stack_container s =
     \<lparr>cd_name = ''DefaultContainer'', cd_task_def = task_def_path s,
      cd_image = ''amazon/amazon-ecs-sample'', cd_essential = True,
      cd_port_mappings = [\<lparr>pm_container_port = 8080, pm_host_port = None, pm_protocol = TCP\<rparr>],
      cd_log_stream_prefix = Some ''ecs''\<rparr>"

definition stack_service :: "string \<Rightarrow> fargate_service" where
  "stack_service s =
     \<lparr>svc_cluster = cluster_path s, svc_task_def = task_def_path s, svc_desired_count = Some 2,
      svc_subnets = map sn_path (vpc_private (stack_vpc s)), svc_assign_public_ip = False,
      svc_connections = \<lparr>conn_sgs = [service_sg_path s], conn_default_port = None\<rparr>,
      svc_load_balancers = [(target_group_path s, ''DefaultContainer'', 8080)]\<rparr>"

definition stack_alb :: "string \<Rightarrow> alb" where
  "stack_alb s =
     \<lparr>alb_vpc = vpc_path s, alb_internet_facing = True,
      alb_subnets = map sn_path (vpc_public (stack_vpc s)),
      alb_connections = \<lparr>conn_sgs = [alb_sg_path s], conn_default_port = None\<rparr>,
      alb_listeners = [listener_path s]\<rparr>"

definition stack_listener :: "string \<Rightarrow> listener" where
  "stack_listener s =
     \<lparr>ls_lb = alb_path s, ls_protocol = HTTP, ls_port = 80,
      ls_connections = \<lparr>conn_sgs = [alb_sg_path s], conn_default_port = Some (port_tcp 80)\<rparr>,
      ls_default_forward = [target_group_path s]\<rparr>"

definition stack_target_group :: "string \<Rightarrow> target_group" where
  "stack_target_group s =
     \<lparr>tg_protocol = HTTP, tg_port = 8080, tg_target_type = Some IP,
      tg_health_check = \<lparr>hc_path = Some ''/'', hc_interval = Some 30, hc_timeout = None\<rparr>,
      tg_targets = [service_path s],
      tg_members = [(\<lparr>conn_sgs = [service_sg_path s], conn_default_port = None\<rparr>, port_tcp 8080)],
      tg_listeners = [listener_path s]\<rparr>"

definition stack_nodes :: "string \<Rightarrow> path list" where
  "stack_nodes s =
     [[], [s], vpc_path s, vpc_path s @ [''Resource'']] @ subnet_nodes s @ gateway_nodes s @
     [cluster_path s, cluster_path s @ [''Resource''], alb_sg_path s, alb_sg_path s @ [''Resource''],
      task_def_path s, task_def_path s @ [''TaskRole''], task_def_path s @ [''Resource''],
      container_path s, container_path s @ [''LogGroup''], task_def_path s @ [''ExecutionRole''],
      task_def_path s @ [''ExecutionRole'', ''DefaultPolicy''],
      service_sg_path s, service_sg_path s @ [''Resource''],
      service_sg_path s @ [sanitize_id (service_rule_id s)],
      service_path s, service_path s @ [''Service''], alb_path s, alb_path s @ [''Resource''],
      listener_path s, listener_path s @ [''Resource''], target_group_path s,
      target_group_path s @ [''Resource''], [s, ''ALBDnsName'']]"

definition stack_final :: "string \<Rightarrow> stack_state" where
  "stack_final s =
     \<lparr>nodes = stack_nodes s, locked_paths = [], vpcs = [vpc_path s \<mapsto> stack_vpc s],
      sgs = [service_sg_path s \<mapsto> service_sg s, alb_sg_path s \<mapsto> alb_sg],
      clusters = [cluster_path s \<mapsto> \<lparr>cl_vpc = vpc_path s\<rparr>],
      task_defs = [task_def_path s \<mapsto> stack_task_def s],
      containers = [container_path s \<mapsto> stack_container s],
      services = [service_path s \<mapsto> stack_service s],
      albs = [alb_path s \<mapsto> stack_alb s],
      listeners = [listener_path s \<mapsto> stack_listener s],
      target_groups = [target_group_path s \<mapsto> stack_target_group s],
      outputs = [([s, ''ALBDnsName''], alb_dns_name (alb_path s))]\<rparr>"

section \<open>The VPC declaration, evaluated\<close>

lemma nb0_eq: "new_network_builder default_cidr_range = Inr nb0"
  unfolding nb0_def by code_simp

lemma requested_stack: "requested_subnets stack_cfgs stack_azs =
  [(stack_azs ! 0, ''public-subnet1Subnet1'', stack_cfgs ! 0),
   (stack_azs ! 1, ''public-subnet1Subnet2'', stack_cfgs ! 0),
   (stack_azs ! 0, ''private-subnet1Subnet1'', stack_cfgs ! 1),
   (stack_azs ! 1, ''private-subnet1Subnet2'', stack_cfgs ! 1)]"
  by code_simp

lemma allocate_stack_cases:
  "(case allocate_subnets_cidr nb0 (map (\<lambda>(az, name, c). sc_cidr_mask c) (requested_subnets stack_cfgs stack_azs)) of
      Inr (nb, cs) \<Rightarrow> cs = [''10.0.0.0/24'', ''10.0.1.0/24'', ''10.0.2.0/24'', ''10.0.3.0/24'']
    | Inl _ \<Rightarrow> False)"
  unfolding nb0_def by code_simp

lemma allocate_stack:
  "\<exists>nb. allocate_subnets_cidr nb0 (map (\<lambda>(az, name, c). sc_cidr_mask c) (requested_subnets stack_cfgs stack_azs)) =
     Inr (nb, [''10.0.0.0/24'', ''10.0.1.0/24'', ''10.0.2.0/24'', ''10.0.3.0/24''])"
  using allocate_stack_cases by (auto split: sum.splits)

lemma create_subnets_stack:
  assumes "locked_paths st = []" "nodes st = [[], [s], vpc_path s, vpc_path s @ [''Resource'']]"
  shows "create_subnets (vpc_path s) nb0 stack_cfgs (st, empty_vpc default_cidr_range stack_azs) =
         Inr (st\<lparr>nodes := nodes st @ subnet_nodes s\<rparr>, subnets_vpc s)"
proof -
  obtain nb where al:
    "allocate_subnets_cidr nb0 (map (\<lambda>(az, name, c). sc_cidr_mask c) (requested_subnets stack_cfgs stack_azs)) =
     Inr (nb, [''10.0.0.0/24'', ''10.0.1.0/24'', ''10.0.2.0/24'', ''10.0.3.0/24''])"
    using allocate_stack by blast
  have c: "\<not> sc_reserved (stack_cfgs ! 0)" "\<not> sc_reserved (stack_cfgs ! Suc 0)"
    by (simp_all add: stack_cfgs_def vpc_props_of_stack_def)
  show ?thesis
    using assms
    apply (simp add: create_subnets_def empty_vpc_def al)
    apply (simp add: requested_stack create_subnet_resources_ok c subnet_nodes_def)
    apply (simp add: subnets_vpc_def stack_subnet_def stack_cfgs_def vpc_props_of_stack_def add_to_group_def
        default_cidr_range_def is_private_type_def)
    done
qed

lemma create_gateways_stack:
  assumes "locked_paths st = []" "list_all (\<lambda>q. q \<notin> set (nodes st)) (gateway_nodes s)"
  shows "create_gateways (vpc_path s) stack_cfgs (Suc 0) (st, subnets_vpc s) =
         Inr (st\<lparr>nodes := nodes st @ gateway_nodes s\<rparr>, stack_vpc s)"
proof -
  have ao: "allow_outbound stack_cfgs"
    by (simp add: allow_outbound_def stack_cfgs_def vpc_props_of_stack_def is_isolated_type_def)
  show ?thesis
    using assms
    apply (simp add: create_gateways_def ao fresh_steps gateway_nodes_def subnets_vpc_def)
    apply (simp add: add_internet_route_ok stack_subnet_def)
    apply (simp add: configure_nat_def add_nat_gateway_ok set_route_def empty_pref_set_def ps_add_def)
    apply (simp add: configure_private_subnet_ok ps_pick_def stack_azs_def stack_vpc_def stack_subnet_def
        set_route_def)
    done
qed

text \<open>\<open>new ec2.Vpc(this, 'VPC', ...)\<close> directly below the new stack: the VPC and its 30
  constructs.\<close>

lemma new_vpc_stack:
  assumes "locked_paths st = []" "nodes st = [[], [s]]"
  shows "new_vpc st [s] ''VPC'' vpc_props_of_stack stack_azs =
         Inr (st\<lparr>nodes := [[], [s], vpc_path s, vpc_path s @ [''Resource'']] @ subnet_nodes s @ gateway_nodes s,
                 vpcs := (vpcs st)(vpc_path s \<mapsto> stack_vpc s)\<rparr>, vpc_path s)"
proof -
  have cfg: "vp_subnet_configuration vpc_props_of_stack = Some stack_cfgs"
    by (simp add: stack_cfgs_def vpc_props_of_stack_def)
  have nat: "determine_nat_gateway_count (vp_nat_gateways vpc_props_of_stack) stack_cfgs 2 = Inr 1"
    by (simp add: determine_nat_gateway_count_def stack_cfgs_def vpc_props_of_stack_def is_private_type_def)
  have azs: "take 2 stack_azs = stack_azs" "length stack_azs = 2"
    by (simp_all add: stack_azs_def)
  have mx: "vp_max_azs vpc_props_of_stack = Some 2"
    by (simp add: vpc_props_of_stack_def)
  have sub: "create_subnets (vpc_path s) nb0 stack_cfgs
      (st\<lparr>nodes := [[], [s], vpc_path s, vpc_path s @ [''Resource'']]\<rparr>, empty_vpc default_cidr_range stack_azs) =
      Inr (st\<lparr>nodes := [[], [s], vpc_path s, vpc_path s @ [''Resource'']] @ subnet_nodes s\<rparr>, subnets_vpc s)"
    using create_subnets_stack [of "st\<lparr>nodes := [[], [s], vpc_path s, vpc_path s @ [''Resource'']]\<rparr>"] assms
    by simp
  have gw: "create_gateways (vpc_path s) stack_cfgs (Suc 0)
      (st\<lparr>nodes := [[], [s], vpc_path s, vpc_path s @ [''Resource'']] @ subnet_nodes s\<rparr>, subnets_vpc s) =
      Inr (st\<lparr>nodes := [[], [s], vpc_path s, vpc_path s @ [''Resource'']] @ subnet_nodes s @ gateway_nodes s\<rparr>,
           stack_vpc s)"
    using create_gateways_stack [of "st\<lparr>nodes := [[], [s], vpc_path s, vpc_path s @ [''Resource'']] @ subnet_nodes s\<rparr>"]
      assms by (simp add: subnet_nodes_def gateway_nodes_def)
  show ?thesis
    using assms by (simp add: new_vpc_def fresh_steps nb0_eq cfg mx azs nat sub [simplified] gw [simplified])
qed

section \<open>The constructor, evaluated\<close>

lemma select_stack_private: "select_subnets (stack_vpc s) (Some PRIVATE_WITH_NAT) = Inr (vpc_private (stack_vpc s))"
  by (simp add: select_subnets_def subnets_of_type_def is_private_type_def stack_vpc_def)

lemma select_stack_public: "select_subnets (stack_vpc s) (Some PUBLIC) = Inr (vpc_public (stack_vpc s))"
  by (simp add: select_subnets_def subnets_of_type_def stack_vpc_def)

lemma new_stack_app:
  assumes "valid_stack_name s"
  shows "new_stack new_app [] s = Inr (new_app\<lparr>nodes := [[], [s]]\<rparr>, [s])"
  using assms valid_stack_name_id [OF assms]
  by (simp add: new_stack_def fresh_steps new_app_def)

text \<open>The constructor, for every valid stack name, in a new app.\<close>

lemma type_task_stack_eq:
  assumes "valid_stack_name s"
  shows "type_task_stack new_app [] s = Inr (stack_final s, [s])"
proof -
  note v = valid_stack_name_id [OF assms]
  show ?thesis
  unfolding type_task_stack_def
  using v
  apply (simp add: new_stack_app [OF assms])
  apply (simp add: new_vpc_stack new_app_def subnet_nodes_def gateway_nodes_def)
  apply (simp add: new_cluster_def fresh_steps alb_sg_props_def new_security_group_def)
  apply (simp add: add_ingress_rule_def can_inline_rule_def update_sg_def mk_rule_def port_tcp_def insert_new_def)
  apply (simp add: new_fargate_task_definition_def fresh_steps task_def_props_def)
  apply (simp add: add_container_def fresh_steps container_props_of_stack_def grant_log_write_def
      obtain_execution_role_def update_td_def add_to_principal_policy_def has_child_def)
  apply (simp add: new_security_group_def fresh_steps service_sg_props_def node_path_def)
  apply (simp add: add_ingress_rule_def can_inline_rule_def rule_id_def peer_unique_id_def node_unique_id_def
      node_path_def has_child_def add_node_fresh_sanitized update_sg_def mk_rule_def port_tcp_def
      show_nat.simps)
  apply (simp add: new_fargate_service_def fresh_steps service_props_def select_stack_private)
  apply (simp add: add_port_mappings_def container_port_mappings_def check_port_mapping_def)
  apply (simp add: new_alb_def fresh_steps alb_props_of_stack_def select_stack_public)
  apply (simp add: add_listener_def fresh_steps listener_props_of_stack_def determine_protocol_and_port_def
      allow_default_port_from_def add_ingress_rule_def can_inline_rule_def update_sg_def mk_rule_def insert_new_def
      port_tcp_def show_nat.simps Let_def rules_equal_def)
  apply (simp add: add_targets_def targets_props_def new_target_group_def determine_protocol_and_port_def fresh_steps)
  apply (simp add: add_target_def attach_to_target_group_def container_port_def find_port_mapping_def
      port_range_of_mapping_def port_tcp_def show_nat.simps)
  apply (simp add: register_listener_def register_connectable_def allow_to_def add_egress_rule_def
      add_ingress_rule_def can_inline_rule_def rule_id_def peer_unique_id_def node_unique_id_def
      node_path_def has_child_def)
  apply (simp add: new_cfn_output_def fresh_steps)
  apply (simp add: stack_final_def stack_nodes_def subnet_nodes_def gateway_nodes_def service_rule_id_def
      alb_sg_def service_sg_def stack_task_def_def stack_container_def stack_service_def
      stack_alb_def stack_listener_def stack_target_group_def port_tcp_def show_nat.simps)
  done
qed

text \<open>\<open>bin/type-task.ts\<close>.\<close>

lemma main_app_eq: "main_app = Inr (stack_final ''TypeTaskStack'', [''TypeTaskStack''])"
proof -
  have "valid_stack_name ''TypeTaskStack''"
    by (simp add: valid_stack_name_def is_alpha_def is_digit_def)
  then show ?thesis
    unfolding main_app_def by (rule type_task_stack_eq)
qed

text \<open>The fields of the final state, so that it is read without being copied.\<close>

lemma stack_final_fields:
  "nodes (stack_final s) = stack_nodes s"
  "vpcs (stack_final s) = [vpc_path s \<mapsto> stack_vpc s]"
  "sgs (stack_final s) = [service_sg_path s \<mapsto> service_sg s, alb_sg_path s \<mapsto> alb_sg]"
  "clusters (stack_final s) = [cluster_path s \<mapsto> \<lparr>cl_vpc = vpc_path s\<rparr>]"
  "task_defs (stack_final s) = [task_def_path s \<mapsto> stack_task_def s]"
  "containers (stack_final s) = [container_path s \<mapsto> stack_container s]"
  "services (stack_final s) = [service_path s \<mapsto> stack_service s]"
  "albs (stack_final s) = [alb_path s \<mapsto> stack_alb s]"
  "listeners (stack_final s) = [listener_path s \<mapsto> stack_listener s]"
  "target_groups (stack_final s) = [target_group_path s \<mapsto> stack_target_group s]"
  "outputs (stack_final s) = [([s, ''ALBDnsName''], alb_dns_name (alb_path s))]"
  by (simp_all add: stack_final_def)

text \<open>The tree the constructor leaves is well formed, for every valid stack name.\<close>

lemma stack_final_wf: "valid_stack_name s \<Longrightarrow> wf_ctree (stack_final s)"
  using valid_stack_name_id [of s]
  by (simp add: wf_ctree_def stack_final_fields(1) stack_nodes_def subnet_nodes_def gateway_nodes_def
      service_rule_id_def good_id_def)

end
