(* ===== verification/FindAll.thy ===== *)
theory FindAll
  imports Constructs "HOL-Library.Sublist" "HOL-Library.Multiset"
begin

text \<open>
  The traversal of the construct tree, \<open>Node.findAll\<close> of the constructs library, which
  synthesis uses to collect the CloudFormation elements of a stack (\<open>Template\<close>). The
  visit follows children pointers and is defined as a \<^theory_text>\<open>partial_function (option)\<close>:
  nothing in its definition says that it returns. The lemmas: the visit returns whenever
  children are smaller than their parent in some measure, and on every construct tree the
  depth is such a measure, so \<open>findAll\<close> always returns, while on a cyclic children
  map it does not (\<open>visit_all_cycle\<close>); on a well-formed tree (the invariant of
  \<open>Constructs\<close>) it returns each construct at and below its start exactly once, by
  induction over the fixed point: a subtree is its root and the subtrees of its children,
  and the subtrees of siblings are disjoint.
\<close>

section \<open>The traversal\<close>

text \<open>\<open>ConstructOrder\<close> of the constructs library.\<close>

datatype construct_order = PREORDER | POSTORDER

text \<open>\<open>node.children\<close>: \<open>Object.values(this._children)\<close>, the children in the order
  they were added, which is the order of \<open>nodes\<close>.\<close>

definition children :: "'a ctree_scheme \<Rightarrow> path \<Rightarrow> path list" where
  "children t p = filter (\<lambda>q. q \<noteq> [] \<and> butlast q = p) (nodes t)"

text \<open>
  The local function \<open>visit(c)\<close> of \<open>Node.findAll(order)\<close>:
  \<^verbatim>\<open>
    function visit(c) {
      if (order === PREORDER) ret.push(c);
      for (const child of c.node.children) visit(child);
      if (order === POSTORDER) ret.push(c);
    }\<close>
  over a work list: \<open>visit_all order ch (p # qs)\<close> visits \<open>p\<close> (its children \<open>ch p\<close>
  recursively) and then the siblings \<open>qs\<close> of the \<open>for\<close> loop. The recursion follows
  the children pointers, which a priori might form a cycle; \<open>None\<close> is a visit that does
  not return (in JavaScript, a stack overflow).
\<close>

partial_function (option) visit_all ::
  "construct_order \<Rightarrow> (path \<Rightarrow> path list) \<Rightarrow> path list \<Rightarrow> path list option" where
  "visit_all order ch ps =
     (case ps of
        [] \<Rightarrow> Some []
      | p # qs \<Rightarrow>
          Option.bind (visit_all order ch (ch p)) (\<lambda>below.
          Option.bind (visit_all order ch qs) (\<lambda>rest.
            Some ((if order = PREORDER then p # below else below @ [p]) @ rest))))"

text \<open>\<open>node.findAll(order)\<close> of the construct at \<open>p\<close>: \<open>visit(this.host)\<close>.\<close>

definition find_all :: "construct_order \<Rightarrow> 'a ctree_scheme \<Rightarrow> path \<Rightarrow> path list option" where
  "find_all order t p = visit_all order (children t) [p]"

text \<open>The constructs at and below \<open>p\<close>, the depth of a tree, siblings' paths.\<close>

definition subtree :: "'a ctree_scheme \<Rightarrow> path \<Rightarrow> path set" where
  "subtree t p = insert p {q \<in> set (nodes t). strict_prefix p q}"

definition max_depth :: "'a ctree_scheme \<Rightarrow> nat" where
  "max_depth t = Max (length ` set (nodes t))"

definition same_length :: "path list \<Rightarrow> bool" where
  "same_length ps \<longleftrightarrow> (\<forall>p\<in>set ps. \<forall>q\<in>set ps. length p = length q)"

section \<open>Lemmas\<close>

lemma visit_all_Nil [simp]: "visit_all order ch [] = Some []"
  by (simp add: visit_all.simps)

lemma visit_all_Cons:
  "visit_all order ch (p # qs) =
     Option.bind (visit_all order ch (ch p)) (\<lambda>below.
     Option.bind (visit_all order ch qs) (\<lambda>rest.
       Some ((if order = PREORDER then p # below else below @ [p]) @ rest)))"
  by (simp add: visit_all.simps)

text \<open>The visit returns whenever every child is smaller than its parent in some
  measure: by induction on a bound of the measure over the work list, and on the list.\<close>

lemma visit_all_terminates_measure:
  fixes f :: "path \<Rightarrow> nat"
  assumes dec: "\<And>p c. c \<in> set (ch p) \<Longrightarrow> f c < f p"
  shows "\<forall>p\<in>set ps. f p < n \<Longrightarrow> \<exists>r. visit_all order ch ps = Some r"
proof (induction n arbitrary: ps)
  case 0
  then show ?case by (cases ps) auto
next
  case (Suc n)
  then show ?case
  proof (induction ps)
    case (Cons p qs)
    have "\<forall>c\<in>set (ch p). f c < n" using dec Cons.prems by fastforce
    then obtain below where "visit_all order ch (ch p) = Some below" using Suc.IH by blast
    moreover obtain rest where "visit_all order ch qs = Some rest" using Cons by auto
    ultimately show ?case by (simp add: visit_all_Cons)
  qed simp
qed

lemma children_length:
  "c \<in> set (children t p) \<Longrightarrow> length c = Suc (length p) \<and> length c \<le> max_depth t"
  by (auto simp: children_def max_depth_def)

lemma children_depth_dec:
  "c \<in> set (children t p) \<Longrightarrow> Suc (max_depth t) - length c < Suc (max_depth t) - length p"
  using children_length [of c t p] by arith


lemma wf_ctree_prefix_closed:
  assumes wf: "wf_ctree t"
  shows "q \<in> set (nodes t) \<Longrightarrow> prefix c q \<Longrightarrow> c \<in> set (nodes t)"
proof (induction q rule: rev_induct)
  case Nil
  then show ?case using wf by (simp add: wf_ctree_def)
next
  case (snoc x q)
  then have "q \<in> set (nodes t)" using wf by (auto simp: wf_ctree_def list_all_iff)
  with snoc show ?case by (auto simp: prefix_snoc)
qed

lemma subtree_prefix: "q \<in> subtree t p \<Longrightarrow> prefix p q"
  by (auto simp: subtree_def)

lemma prefix_same_length: "prefix p q \<Longrightarrow> prefix p' q \<Longrightarrow> length p = length p' \<Longrightarrow> p = p'"
  by (metis prefix_length_prefix prefix_order.antisym order_refl)

lemma subtree_disjoint:
  "length p = length p' \<Longrightarrow> p \<noteq> p' \<Longrightarrow> subtree t p \<inter> subtree t p' = {}"
  using prefix_same_length subtree_prefix by blast

lemma children_subtree_strict:
  assumes c: "c \<in> set (children t p)" and q: "q \<in> subtree t c"
  shows "strict_prefix p q"
proof -
  from c have "c = p @ [last c]" by (auto simp: children_def dest: append_butlast_last_id)
  then have "strict_prefix p c" by (metis strict_prefixI' )
  moreover have "prefix c q" using q by (rule subtree_prefix)
  ultimately show ?thesis by (rule prefix_order.less_le_trans)
qed

lemma subtree_children:
  assumes wf: "wf_ctree t"
  shows "subtree t p = insert p (\<Union>c\<in>set (children t p). subtree t c)"
proof
  show "subtree t p \<subseteq> insert p (\<Union>c\<in>set (children t p). subtree t c)"
  proof
    fix q assume "q \<in> subtree t p"
    then consider "q = p" | "q \<in> set (nodes t)" "strict_prefix p q" by (auto simp: subtree_def)
    then show "q \<in> insert p (\<Union>c\<in>set (children t p). subtree t c)"
    proof cases
      case 2
      then obtain x ys where q: "q = p @ x # ys" by (auto elim: strict_prefixE')
      let ?c = "p @ [x]"
      have "?c \<in> set (nodes t)" using wf_ctree_prefix_closed [OF wf 2(1)] q by simp
      then have "?c \<in> set (children t p)" by (simp add: children_def)
      moreover have "q \<in> subtree t ?c" using 2(1) q by (cases ys) (auto simp: subtree_def strict_prefix_def)
      ultimately show ?thesis by blast
    qed simp
  qed
next
  show "insert p (\<Union>c\<in>set (children t p). subtree t c) \<subseteq> subtree t p"
    proof
    fix q assume "q \<in> insert p (\<Union>c\<in>set (children t p). subtree t c)"
    then consider "q = p" | c where "c \<in> set (children t p)" "q \<in> subtree t c" by blast
    then show "q \<in> subtree t p"
    proof cases
      case 2
      then have "q \<in> set (nodes t)" by (auto simp: subtree_def children_def)
      with children_subtree_strict [OF 2] show ?thesis by (simp add: subtree_def)
    qed (simp add: subtree_def)
  qed
qed

lemma same_length_children: "same_length (children t p)"
  by (auto simp: same_length_def dest!: children_length)

lemma same_length_ConsD:
  assumes "same_length (p # qs)"
  shows "same_length qs" and "\<forall>q\<in>set qs. length q = length p"
proof -
  have all: "\<forall>a\<in>set (p # qs). \<forall>b\<in>set (p # qs). length a = length b"
    using assms unfolding same_length_def .
  then show "\<forall>q\<in>set qs. length q = length p" by (metis list.set_intros)
  from all show "same_length qs" unfolding same_length_def by (metis list.set_intros(2))
qed

lemma distinct_children: "wf_ctree t \<Longrightarrow> distinct (children t p)"
  by (simp add: children_def wf_ctree_def)

text \<open>The visit of a work list of siblings lists each construct below them once: by
  induction over the visit's fixed point (partial correctness), the subtree of a construct
  being the construct and the subtrees of its children, and the subtrees of siblings being
  disjoint.\<close>

lemma visit_all_subtrees:
  assumes wf: "wf_ctree t" and ret: "visit_all order (children t) ps = Some r"
  shows "distinct ps \<longrightarrow> same_length ps \<longrightarrow> distinct r \<and> set r = (\<Union>p\<in>set ps. subtree t p)"
proof (rule visit_all.raw_induct [where P = "\<lambda>order ch ps r. ch = children t \<longrightarrow> distinct ps \<longrightarrow>
           same_length ps \<longrightarrow> distinct r \<and> set r = (\<Union>p\<in>set ps. subtree t p)", OF _ ret, THEN mp, OF _ refl])
  fix f order ch ps r
  assume IH: "\<And>order ch ps r. f order ch ps = Some r \<Longrightarrow> ch = children t \<longrightarrow> distinct ps \<longrightarrow>
           same_length ps \<longrightarrow> distinct r \<and> set r = (\<Union>p\<in>set ps. subtree t p)"
    and body: "(case ps of [] \<Rightarrow> Some []
      | p # qs \<Rightarrow> Option.bind (f order ch (ch p)) (\<lambda>below. Option.bind (f order ch qs)
          (\<lambda>rest. Some ((if order = PREORDER then p # below else below @ [p]) @ rest)))) = Some r"
  show "ch = children t \<longrightarrow> distinct ps \<longrightarrow>
           same_length ps \<longrightarrow> distinct r \<and> set r = (\<Union>p\<in>set ps. subtree t p)"
  proof (intro impI)
    assume ch: "ch = children t" and dps: "distinct ps" and sps: "same_length ps"
    show "distinct r \<and> set r = (\<Union>p\<in>set ps. subtree t p)"
    proof (cases ps)
      case Nil
      then show ?thesis using body by simp
    next
      case (Cons p qs)
      from body Cons obtain below rest where b: "f order ch (ch p) = Some below"
        and rs: "f order ch qs = Some rest"
        and r: "r = (if order = PREORDER then p # below else below @ [p]) @ rest"
        by (auto simp: bind_eq_Some_conv)
      have sq: "same_length qs" and lq: "\<forall>q\<in>set qs. length q = length p"
        using same_length_ConsD sps Cons by simp_all
      have B: "distinct below \<and> set below = (\<Union>c\<in>set (children t p). subtree t c)"
        using IH [OF b] ch wf by (simp add: distinct_children same_length_children)
      have R: "distinct rest \<and> set rest = (\<Union>q\<in>set qs. subtree t q)"
        using IH [OF rs] ch dps sq Cons by simp
      have sub: "subtree t p = insert p (set below)"
        using subtree_children [OF wf, of p] B by simp
      have "p \<notin> set below"
      proof
        assume "p \<in> set below"
        then obtain c where "c \<in> set (children t p)" "p \<in> subtree t c" using B by blast
        then have "strict_prefix p p" by (rule children_subtree_strict)
        then show False by simp
      qed
      have R2: "set rest = (\<Union>q\<in>set qs. subtree t q)" using R by (rule conjunct2)
      have "subtree t p \<inter> subtree t q = {}" if q: "q \<in> set qs" for q
      proof (rule subtree_disjoint)
        show "length p = length q" using bspec [OF lq q] by (rule sym)
        show "p \<noteq> q" using dps Cons q by auto
      qed
      then have "subtree t p \<inter> (\<Union>q\<in>set qs. subtree t q) = {}" by blast
      then have disj: "insert p (set below) \<inter> set rest = {}" by (simp only: sub R2)
      have S: "set r = subtree t p \<union> set rest" using r sub by auto
      have "distinct r"
      proof (cases "order = PREORDER")
        case True
        then show ?thesis using r B R \<open>p \<notin> set below\<close> disj by simp
      next
        case False
        then show ?thesis using r B R \<open>p \<notin> set below\<close> disj by auto
      qed
      moreover have "set r = (\<Union>p\<in>set ps. subtree t p)" unfolding S R2 Cons by simp
      ultimately show ?thesis ..
    qed
  qed
qed

text \<open>The termination of the visit depends on the children: a construct that is its own
  child is visited forever.\<close>

lemma visit_all_cycle: "visit_all order (\<lambda>_. [p]) [p] = None"
proof (rule ccontr)
  assume "visit_all order (\<lambda>_. [p]) [p] \<noteq> None"
  then obtain r where ret: "visit_all order (\<lambda>_. [p]) [p] = Some r" by blast
  have "(\<lambda>_. [p]) = (\<lambda>_::path. [p]) \<longrightarrow> [p] = []"
  proof (rule visit_all.raw_induct [where P = "\<lambda>order ch ps r. ch = (\<lambda>_. [p]) \<longrightarrow> ps = []", OF _ ret])
    fix f order ch ps r
    assume IH: "\<And>order ch ps r. f order ch ps = Some r \<Longrightarrow> ch = (\<lambda>_. [p]) \<longrightarrow> ps = []"
      and body: "(case ps of [] \<Rightarrow> Some []
      | q # qs \<Rightarrow> Option.bind (f order ch (ch q)) (\<lambda>below. Option.bind (f order ch qs)
          (\<lambda>rest. Some ((if order = PREORDER then q # below else below @ [q]) @ rest)))) = Some r"
    show "ch = (\<lambda>_. [p]) \<longrightarrow> ps = []"
    proof
      assume ch: "ch = (\<lambda>_. [p])"
      show "ps = []"
      proof (cases ps)
        case (Cons q qs)
        with body obtain below where "f order ch [p] = Some below"
          by (auto simp: ch bind_eq_Some_conv)
        then have "[p] = []" using IH ch by blast
        then show ?thesis by simp
      qed
    qed
  qed
  then show False by simp
qed

text \<open>On a well-formed tree, the visit from \<open>p\<close> returns the subtree of \<open>p\<close>, each
  construct once.\<close>

lemma find_all_subtree_distinct:
  assumes wf: "wf_ctree t"
  shows "\<exists>r. find_all order t p = Some r \<and> distinct r \<and> set r = subtree t p"
proof -
  obtain r where r: "find_all order t p = Some r"
    unfolding find_all_def
    by (rule exE [OF visit_all_terminates_measure [where f = "\<lambda>p. Suc (max_depth t) - length p"
        and n = "Suc (Suc (max_depth t))"]]) (auto dest: children_depth_dec)
  then have "distinct r \<and> set r = subtree t p"
    using visit_all_subtrees [OF wf, of order "[p]" r] by (simp add: find_all_def same_length_def)
  with r show ?thesis by blast
qed

text \<open>\<open>node.findAll(order)\<close> returns, for every construct tree and every start: the
  children of a construct are one level deeper than it, and no construct is deeper than
  the deepest node of the tree.\<close>

lemma find_all_terminates: "\<exists>r. find_all order t p = Some r"
  unfolding find_all_def
  by (rule visit_all_terminates_measure [where f = "\<lambda>p. Suc (max_depth t) - length p"
        and n = "Suc (Suc (max_depth t))"]) (auto dest: children_depth_dec)

text \<open>On a well-formed construct tree, \<open>node.findAll(order)\<close> of a construct returns
  the construct and every construct below it, each exactly once, in either order.\<close>

lemma find_all_visits_subtree:
  assumes wf: "wf_ctree t" and p: "p \<in> set (nodes t)"
  shows "\<exists>r. find_all order t p = Some r \<and> mset r = mset (filter (prefix p) (nodes t))"
proof -
  obtain r where r: "find_all order t p = Some r" and d: "distinct r" and s: "set r = subtree t p"
    using find_all_subtree_distinct [OF wf] by blast
  have "subtree t p = set (filter (prefix p) (nodes t))"
    using p by (auto simp: subtree_def strict_prefix_def)
  moreover have "distinct (filter (prefix p) (nodes t))"
    using wf by (simp add: wf_ctree_def)
  ultimately show ?thesis using r d s by (metis set_eq_iff_mset_eq_distinct)
qed

end
