(* ===== verification/Template.thy ===== *)
theory Template
  imports Stack FindAll
begin

text \<open>
  The CloudFormation template a stack synthesizes (\<open>Template.fromStack\<close>) and the two
  assertions of \<open>test/type-task.test.ts\<close>. A resource is an L1 construct of the tree;
  which constructs are L1 and their resource types follow from the construct that owns
  them, read from the stores: the \<open>Resource\<close> child of a VPC, security group, cluster,
  task definition, load balancer, listener or target group; the subnet, route table,
  association, route, elastic IP and NAT gateway children of a subnet; the internet
  gateway and its attachment of a VPC; the roles of a task definition and the default
  policy of its execution role; the log group of
  a container; the \<open>CfnService\<close> of a service; the separate rules of a security group.
  Each resource carries the properties the model knows, as strings; the test's
  \<open>hasResourceProperties\<close> matches them like \<open>Match.objectLike\<close>. \<open>template_of\<close> lists
  the resources of every construct in creation order; \<open>template_from_stack\<close>, the
  template of \<open>Template.fromStack\<close>, those of the stack's constructs in \<open>findAll\<close>
  preorder. The lemmas: the assertions only depend on the multiset of resources, and the
  two templates have the same resources when no construct outside the stack has one.
\<close>

record resource =
  res_path :: path
  res_type :: string
  res_props :: "(string \<times> string) list"

definition mk_res :: "path \<Rightarrow> string \<Rightarrow> (string \<times> string) list \<Rightarrow> resource list" where
  "mk_res p t ps = [\<lparr>res_path = p, res_type = t, res_props = ps\<rparr>]"

definition app_protocol_name :: "app_protocol \<Rightarrow> string" where
  "app_protocol_name pr = (case pr of HTTP \<Rightarrow> ''HTTP'' | HTTPS \<Rightarrow> ''HTTPS'')"

text \<open>The L1 resource that is the \<open>Resource\<close> child of the construct at \<open>q\<close>.\<close>

definition owner_resource :: "stack_state \<Rightarrow> path \<Rightarrow> path \<Rightarrow> resource list" where
  "owner_resource st q p =
     (case vpcs st q of
        Some v \<Rightarrow> mk_res p ''AWS::EC2::VPC'' [(''CidrBlock'', vpc_cidr v)]
      | None \<Rightarrow>
     (case sgs st q of
        Some g \<Rightarrow> mk_res p ''AWS::EC2::SecurityGroup'' [(''GroupDescription'', sg_description g)]
      | None \<Rightarrow>
     (case clusters st q of
        Some _ \<Rightarrow> mk_res p ''AWS::ECS::Cluster'' []
      | None \<Rightarrow>
     (case task_defs st q of
        Some td \<Rightarrow> mk_res p ''AWS::ECS::TaskDefinition''
                     [(''Cpu'', show_nat (td_cpu td)), (''Memory'', show_nat (td_memory td)),
                      (''NetworkMode'', if td_network_mode td = AWS_VPC then ''awsvpc'' else ''bridge'')]
      | None \<Rightarrow>
     (case albs st q of
        Some a \<Rightarrow> mk_res p ''AWS::ElasticLoadBalancingV2::LoadBalancer''
                    [(''Scheme'', if alb_internet_facing a then ''internet-facing'' else ''internal'')]
      | None \<Rightarrow>
     (case listeners st q of
        Some l \<Rightarrow> mk_res p ''AWS::ElasticLoadBalancingV2::Listener''
                    [(''Port'', show_nat (ls_port l)), (''Protocol'', app_protocol_name (ls_protocol l))]
      | None \<Rightarrow>
     (case target_groups st q of
        Some tg \<Rightarrow> mk_res p ''AWS::ElasticLoadBalancingV2::TargetGroup''
                     [(''Port'', show_nat (tg_port tg)), (''Protocol'', app_protocol_name (tg_protocol tg))]
      | None \<Rightarrow> [])))))))"

text \<open>The resources a subnet construct creates, by child id.\<close>

definition subnet_child_type :: "string \<Rightarrow> string option" where
  "subnet_child_type n =
     map_of [(''Subnet'', ''AWS::EC2::Subnet''), (''RouteTable'', ''AWS::EC2::RouteTable''),
             (''RouteTableAssociation'', ''AWS::EC2::SubnetRouteTableAssociation''),
             (''DefaultRoute'', ''AWS::EC2::Route''), (''EIP'', ''AWS::EC2::EIP''),
             (''NATGateway'', ''AWS::EC2::NatGateway'')] n"

definition vpc_child_type :: "string \<Rightarrow> string option" where
  "vpc_child_type n =
     map_of [(''IGW'', ''AWS::EC2::InternetGateway''), (''VPCGW'', ''AWS::EC2::VPCGatewayAttachment'')] n"

definition is_subnet_path :: "stack_state \<Rightarrow> path \<Rightarrow> bool" where
  "is_subnet_path st q \<longleftrightarrow>
     q \<noteq> [] \<and> (case vpcs st (butlast q) of
                  Some v \<Rightarrow> q \<in> set (map sn_path (all_subnets v))
                | None \<Rightarrow> False)"

text \<open>A separate rule of a security group: its construct id is the sanitised rule id.\<close>

definition rule_resource :: "security_group \<Rightarrow> string \<Rightarrow> path \<Rightarrow> resource list" where
  "rule_resource g n p =
     (case find (\<lambda>(i, r). sanitize_id i = n) (sg_separate_ingress g) of
        Some (_, r) \<Rightarrow> mk_res p ''AWS::EC2::SecurityGroupIngress''
                        [(''FromPort'', show_nat (rl_from r)), (''ToPort'', show_nat (rl_to r))]
      | None \<Rightarrow>
     (case find (\<lambda>(i, r). sanitize_id i = n) (sg_separate_egress g) of
        Some (_, r) \<Rightarrow> mk_res p ''AWS::EC2::SecurityGroupEgress''
                        [(''FromPort'', show_nat (rl_from r)), (''ToPort'', show_nat (rl_to r))]
      | None \<Rightarrow> []))"

text \<open>The resources of the construct at \<open>p\<close>, the child with id \<open>n\<close> of \<open>q\<close>.\<close>

definition child_resources :: "stack_state \<Rightarrow> path \<Rightarrow> string \<Rightarrow> resource list" where
  "child_resources st q n =
     (let p = q @ [n] in
      if n = ''Resource'' then owner_resource st q p
      else if is_subnet_path st q then
        (case subnet_child_type n of Some t \<Rightarrow> mk_res p t [] | None \<Rightarrow> [])
      else if vpcs st q \<noteq> None then
        (case vpc_child_type n of Some t \<Rightarrow> mk_res p t [] | None \<Rightarrow> [])
      else if task_defs st q \<noteq> None \<and> (n = ''TaskRole'' \<or> n = ''ExecutionRole'') then
        mk_res p ''AWS::IAM::Role'' []
      else if n = ''DefaultPolicy'' \<and> q \<noteq> [] \<and>
              (case task_defs st (butlast q) of Some td \<Rightarrow> td_execution_role td = Some q | None \<Rightarrow> False)
      then mk_res p ''AWS::IAM::Policy'' []
      else if containers st q \<noteq> None \<and> n = ''LogGroup'' then mk_res p ''AWS::Logs::LogGroup'' []
      else if services st q \<noteq> None \<and> n = ''Service'' then
        mk_res p ''AWS::ECS::Service''
          [(''DesiredCount'', case svc_desired_count (the (services st q)) of
                                Some k \<Rightarrow> show_nat k | None \<Rightarrow> ''1'')]
      else (case sgs st q of Some g \<Rightarrow> rule_resource g n p | None \<Rightarrow> []))"

definition resources_at :: "stack_state \<Rightarrow> path \<Rightarrow> resource list" where
  "resources_at st p = (if p = [] then [] else child_resources st (butlast p) (last p))"

definition template_of :: "stack_state \<Rightarrow> resource list" where
  "template_of st = concat (map (resources_at st) (nodes st))"

text \<open>\<open>findCfnElements(stack)\<close> of the stack synthesizer: the constructs of the stack's
  \<open>findAll\<close> preorder that are CloudFormation elements (those that have a resource);
  the source also skips nested stacks, which the program does not create. The template of
  \<open>Template.fromStack(stack)\<close> lists their resources in that order; \<open>None\<close> is a
  traversal that does not return.\<close>

definition find_cfn_elements :: "stack_state \<Rightarrow> path \<Rightarrow> path list option" where
  "find_cfn_elements st p = map_option (filter (\<lambda>q. resources_at st q \<noteq> [])) (find_all PREORDER st p)"

definition template_from_stack :: "stack_state \<Rightarrow> path \<Rightarrow> resource list option" where
  "template_from_stack st p =
     map_option (\<lambda>cs. concat (map (resources_at st) cs)) (find_cfn_elements st p)"

text \<open>\<open>template.hasResourceProperties(type, props)\<close> and
  \<open>template.resourceCountIs(type, count)\<close>.\<close>

definition has_resource_properties :: "resource list \<Rightarrow> string \<Rightarrow> (string \<times> string) list \<Rightarrow> bool" where
  "has_resource_properties t ty ps \<longleftrightarrow>
     list_ex (\<lambda>r. res_type r = ty \<and> list_all (\<lambda>kv. kv \<in> set (res_props r)) ps) t"

definition resource_count_is :: "resource list \<Rightarrow> string \<Rightarrow> nat \<Rightarrow> bool" where
  "resource_count_is t ty k \<longleftrightarrow> length (filter (\<lambda>r. res_type r = ty) t) = k"

definition resource_count :: "resource list \<Rightarrow> string \<Rightarrow> nat" where
  "resource_count t ty = length (filter (\<lambda>r. res_type r = ty) t)"

text \<open>The two assertions of the test, lines 13-15 and line 16.\<close>

definition queue_assertion :: "resource list \<Rightarrow> bool" where
  "queue_assertion template = has_resource_properties template ''AWS::SQS::Queue'' [(''VisibilityTimeout'', ''300'')]"

definition topic_assertion :: "resource list \<Rightarrow> bool" where
  "topic_assertion template = resource_count_is template ''AWS::SNS::Topic'' 1"

text \<open>Lines 6-8 of the test: \<open>new cdk.App()\<close> and the stack \<open>MyTestStack\<close> in it.\<close>

definition test_stack :: "(stack_state \<times> path) result" where
  "test_stack = type_task_stack new_app [] ''MyTestStack''"

text \<open>The test \<open>'SQS Queue and SNS Topic Created'\<close> (lines 5-17): it passes when the
  stack is created, its template is synthesized (line 11) and both assertions hold on it;
  an exception, or a synthesis that does not return, fails it.\<close>

definition type_task_test :: bool where
  "type_task_test =
     (case test_stack of
        Inl _ \<Rightarrow> False
      | Inr (stack, p) \<Rightarrow>
          (case template_from_stack stack p of
             None \<Rightarrow> False
           | Some template \<Rightarrow> queue_assertion template \<and> topic_assertion template))"

section \<open>Lemmas\<close>

lemmas template_defs = resources_at_def child_resources_def owner_resource_def mk_res_def
  is_subnet_path_def subnet_child_type_def vpc_child_type_def rule_resource_def all_subnets_def

lemma resource_count_types: "resource_count t ty = count_list (map res_type t) ty"
  by (induction t) (simp_all add: resource_count_def)

lemma has_resource_properties_type:
  "has_resource_properties t ty ps \<Longrightarrow> ty \<in> set (map res_type t)"
  by (auto simp: has_resource_properties_def list_ex_iff)

text \<open>The assertions of a test read a template as a multiset of resources: their order does
  not matter.\<close>

lemma has_resource_properties_mset:
  "mset a = mset b \<Longrightarrow> has_resource_properties a ty ps = has_resource_properties b ty ps"
  using mset_eq_setD [of a b] by (simp add: has_resource_properties_def list_ex_iff)

lemma resource_count_mset: "mset a = mset b \<Longrightarrow> resource_count a ty = resource_count b ty"
  unfolding resource_count_def by (metis mset_filter size_mset)

lemma mset_concat_map: "mset (concat (map f xs)) = (\<Sum>x\<in>#mset xs. mset (f x))"
  by (induction xs) simp_all

lemma mset_concat_map_perm:
  "mset xs = mset ys \<Longrightarrow> mset (concat (map f xs)) = mset (concat (map f ys))"
  by (simp only: mset_concat_map)

lemma mset_concat_map_filter:
  "(\<And>x. x \<in> set xs \<Longrightarrow> \<not> P x \<Longrightarrow> f x = []) \<Longrightarrow>
   mset (concat (map f (filter P xs))) = mset (concat (map f xs))"
  by (induction xs) auto

text \<open>Synthesis returns on every tree; on a well-formed tree the template of a stack has
  the resources of the constructs at and below it, each once, and when no construct outside
  the stack has a resource, exactly the resources of \<open>template_of\<close>.\<close>

lemma template_from_stack_returns: "\<exists>T. template_from_stack st p = Some T"
  using find_all_terminates [of PREORDER st p]
  by (auto simp: template_from_stack_def find_cfn_elements_def)

lemma template_from_stack_subtree:
  assumes wf: "wf_ctree st" and p: "p \<in> set (nodes st)"
  shows "\<exists>T. template_from_stack st p = Some T \<and>
           mset T = mset (concat (map (resources_at st) (filter (prefix p) (nodes st))))"
proof -
  obtain r where r: "find_all PREORDER st p = Some r"
    and m: "mset r = mset (filter (prefix p) (nodes st))"
    using find_all_visits_subtree [OF wf p] by blast
  have "mset (concat (map (resources_at st) (filter (\<lambda>q. resources_at st q \<noteq> []) r))) =
        mset (concat (map (resources_at st) r))"
    by (rule mset_concat_map_filter) simp
  also have "\<dots> = mset (concat (map (resources_at st) (filter (prefix p) (nodes st))))"
    using m by (rule mset_concat_map_perm)
  finally show ?thesis using r by (simp add: template_from_stack_def find_cfn_elements_def)
qed

lemma template_from_stack_mset:
  assumes wf: "wf_ctree st" and p: "p \<in> set (nodes st)"
    and outside: "\<And>q. q \<in> set (nodes st) \<Longrightarrow> \<not> prefix p q \<Longrightarrow> resources_at st q = []"
  shows "\<exists>T. template_from_stack st p = Some T \<and> mset T = mset (template_of st)"
proof -
  obtain T where T: "template_from_stack st p = Some T"
    and m: "mset T = mset (concat (map (resources_at st) (filter (prefix p) (nodes st))))"
    using template_from_stack_subtree [OF wf p] by blast
  have "mset (concat (map (resources_at st) (filter (prefix p) (nodes st)))) = mset (template_of st)"
    unfolding template_of_def by (rule mset_concat_map_filter) (rule outside)
  then show ?thesis using T m by auto
qed

end
