(* ===== verification/Reordering.thy ===== *)
theory Reordering
  imports Stack
begin

text \<open>
  An equivalence of programs. \<open>type_task_stack_inline\<close> is the constructor of
  \<open>TypeTaskStack\<close> rewritten so that the container is declared with its port mapping
  (\<open>portMappings: [{ containerPort: 8080 }]\<close> in the props of \<open>addContainer\<close>) and the
  later statement \<open>container.addPortMappings(...)\<close> is dropped; everything else is the
  source's constructor. The proof moves the port mapping past the three statements in
  between (the service's security group, its ingress rule and the Fargate service): none
  of them reads or writes the containers or the task definitions (the frame lemmas), and
  \<open>addPortMappings\<close> with the source's mapping never throws, whatever the state.
\<close>

section \<open>The constructor with the port mapping declared up front\<close>

definition container_props_inline :: container_props where
  "container_props_inline = container_props_of_stack\<lparr>cp_port_mappings := container_port_mappings\<rparr>"

definition type_task_stack_inline :: "stack_state \<Rightarrow> path \<Rightarrow> string \<Rightarrow> (stack_state \<times> path) result" where
  "type_task_stack_inline st0 scope i =
     rbind (new_stack st0 scope i) (\<lambda>(st, this).
     rbind (new_vpc st this ''VPC'' vpc_props_of_stack stack_azs) (\<lambda>(st, vpc).
     rbind (new_cluster st this ''EcsCluster'' vpc) (\<lambda>(st, cluster).
     rbind (new_security_group st this ''AlbSecurityGroup'' (alb_sg_props vpc)) (\<lambda>(st, albSecurityGroup).
     rbind (add_ingress_rule st albSecurityGroup AnyIpv4 (port_tcp 80)
              (Some ''Allow HTTP traffic from anywhere'')) (\<lambda>st.
     rbind (new_fargate_task_definition st this ''TaskDef'' task_def_props) (\<lambda>(st, taskDefinition).
     rbind (add_container st taskDefinition ''DefaultContainer'' container_props_inline) (\<lambda>(st, container).
     rbind (new_security_group st this ''ServiceSecurityGroup'' (service_sg_props vpc)) (\<lambda>(st, serviceSecurityGroup).
     rbind (add_ingress_rule st serviceSecurityGroup (SgPeer albSecurityGroup) (port_tcp 8080)
              (Some ''Allow traffic from ALB'')) (\<lambda>st.
     rbind (new_fargate_service st this ''FargateService''
              (service_props cluster taskDefinition serviceSecurityGroup)) (\<lambda>(st, service).
     rbind (new_alb st this ''ALB'' (alb_props_of_stack vpc albSecurityGroup)) (\<lambda>(st, alb).
     rbind (add_listener st alb ''Listener'' listener_props_of_stack) (\<lambda>(st, listener).
     rbind (add_targets st listener ''ECS'' (targets_props service)) (\<lambda>(st, _).
     rbind (new_cfn_output st this ''ALBDnsName'' (alb_dns_name alb)) (\<lambda>(st, _).
       Inr (st, this)))))))))))))))"

section \<open>Steps that do not touch the containers\<close>

lemma add_child_containers:
  "add_child (t\<lparr>containers := X\<rparr>) scope i =
   rbind (add_child t scope i) (\<lambda>(t', p). Inr (t'\<lparr>containers := X\<rparr>, p))"
  by (simp add: add_child_def Let_def is_locked_def)

lemma add_node_containers:
  "add_node (t\<lparr>containers := X\<rparr>) scope i = rbind (add_node t scope i) (\<lambda>t'. Inr (t'\<lparr>containers := X\<rparr>))"
  by (cases "add_child t scope i") (auto simp: add_node_def add_child_containers)

lemma new_security_group_containers:
  "new_security_group (s\<lparr>containers := X\<rparr>) scope i props =
   rbind (new_security_group s scope i props) (\<lambda>(s', p). Inr (s'\<lparr>containers := X\<rparr>, p))"
  unfolding new_security_group_def add_child_containers
  by (simp add: rbind_case add_node_containers Let_def split: sum.splits prod.splits)

lemma add_ingress_rule_containers:
  "add_ingress_rule (s\<lparr>containers := X\<rparr>) g pr pt d =
   rbind (add_ingress_rule s g pr pt d) (\<lambda>s'. Inr (s'\<lparr>containers := X\<rparr>))"
  unfolding add_ingress_rule_def
  by (simp add: rbind_case add_node_containers Let_def update_sg_def has_child_def split: sum.splits)

lemma new_fargate_service_containers:
  "new_fargate_service (s\<lparr>containers := X\<rparr>) scope i props =
   rbind (new_fargate_service s scope i props) (\<lambda>(s', p). Inr (s'\<lparr>containers := X\<rparr>, p))"
  unfolding new_fargate_service_def add_child_containers
  by (simp add: rbind_case add_node_containers new_security_group_containers Let_def
      split: sum.splits prod.splits option.splits)

section \<open>Steps that keep the containers and task definitions\<close>

lemma add_node_keeps:
  "add_node t scope i = Inr t' \<Longrightarrow> containers t' = containers t \<and> task_defs t' = task_defs t"
  by (auto simp: add_node_def rbind_eq_Inr add_child_Inr)

lemma new_security_group_keeps:
  "new_security_group s scope i props = Inr (s', p) \<Longrightarrow> containers s' = containers s \<and> task_defs s' = task_defs s"
  by (auto simp: new_security_group_def rbind_eq_Inr Let_def add_child_Inr dest!: add_node_keeps)

lemma add_ingress_rule_keeps:
  "add_ingress_rule s g pr pt d = Inr s' \<Longrightarrow> containers s' = containers s \<and> task_defs s' = task_defs s"
  by (auto simp: add_ingress_rule_def rbind_eq_Inr Let_def update_sg_def split: if_splits dest!: add_node_keeps)

lemma new_fargate_service_keeps:
  "new_fargate_service s scope i props = Inr (s', p) \<Longrightarrow> containers s' = containers s \<and> task_defs s' = task_defs s"
  unfolding new_fargate_service_def
  apply (simp split: option.split_asm if_split_asm)
  apply (erule rbind_Inr_pairE, erule rbind_InrE)
  apply (simp add: Let_def split: option.split_asm)
   apply (erule rbind_Inr_pairE, erule rbind_Inr_retE,
      auto simp: add_child_Inr rbind_eq_Inr dest!: add_node_keeps new_security_group_keeps split: if_split_asm)+
  done

lemma add_port_mappings_cpm: "\<exists>X. add_port_mappings s cp container_port_mappings = Inr (s\<lparr>containers := X\<rparr>)"
proof (cases "containers s cp")
  case None
  then show ?thesis by (intro exI [of _ "containers s"]) (simp add: add_port_mappings_def)
next
  case (Some c)
  show ?thesis
  proof (cases "task_defs s (cd_task_def c)")
    case None
    then show ?thesis using Some by (intro exI [of _ "containers s"]) (simp add: add_port_mappings_def)
  next
    case (Some td)
    then show ?thesis using \<open>containers s cp = Some c\<close>
      by (auto simp: add_port_mappings_def container_port_mappings_def check_port_mapping_def)
  qed
qed

lemma add_port_mappings_same:
  assumes "containers s' = containers s" "task_defs s' = task_defs s"
    and "add_port_mappings s cp pms = Inr r"
  shows "add_port_mappings s' cp pms = Inr (s'\<lparr>containers := containers r\<rparr>)"
  using assms by (auto simp: add_port_mappings_def rbind_eq_Inr split: option.splits)

section \<open>Moving the port mappings\<close>

lemma add_container_port_mappings:
  assumes "cp_port_mappings props = []" "pms \<noteq> []"
  shows "add_container st tdp i (props\<lparr>cp_port_mappings := pms\<rparr>) =
         rbind (add_container st tdp i props) (\<lambda>(st4, cp). rbind (add_port_mappings st4 cp pms) (\<lambda>st5. Inr (st5, cp)))"
  using assms unfolding add_container_def
  by (simp add: rbind_case Let_def split: sum.splits prod.splits)

lemma port_mappings_commute:
  "rbind (add_port_mappings s cp container_port_mappings) (\<lambda>s1.
     rbind (new_security_group s1 sc n1 sp) (\<lambda>(s2, g).
     rbind (add_ingress_rule s2 g pr pt d) (\<lambda>s3.
     rbind (new_fargate_service s3 sc n2 (fp g)) (\<lambda>(s4, svc). K s4 svc g)))) =
   rbind (new_security_group s sc n1 sp) (\<lambda>(s2, g).
     rbind (add_ingress_rule s2 g pr pt d) (\<lambda>s3.
     rbind (new_fargate_service s3 sc n2 (fp g)) (\<lambda>(s4, svc).
     rbind (add_port_mappings s4 cp container_port_mappings) (\<lambda>s5. K s5 svc g))))"
proof -
  obtain X where X: "add_port_mappings s cp container_port_mappings = Inr (s\<lparr>containers := X\<rparr>)"
    using add_port_mappings_cpm by blast
  show ?thesis
  proof (cases "new_security_group s sc n1 sp")
    case (Inr r2)
    obtain s2 g where r2: "r2 = (s2, g)" by (cases r2)
    have k2: "containers s2 = containers s \<and> task_defs s2 = task_defs s"
      using new_security_group_keeps Inr r2 by blast
    show ?thesis
    proof (cases "add_ingress_rule s2 g pr pt d")
      case i3: (Inr s3)
      have k3: "containers s3 = containers s \<and> task_defs s3 = task_defs s"
        using add_ingress_rule_keeps [OF i3] k2 by simp
      show ?thesis
      proof (cases "new_fargate_service s3 sc n2 (fp g)")
        case i4: (Inr r4)
        obtain s4 svc where r4: "r4 = (s4, svc)" by (cases r4)
        have k4: "containers s4 = containers s \<and> task_defs s4 = task_defs s"
          using new_fargate_service_keeps i4 r4 k3 by fastforce
        have "add_port_mappings s4 cp container_port_mappings = Inr (s4\<lparr>containers := X\<rparr>)"
          using add_port_mappings_same [OF conjunct1 [OF k4] conjunct2 [OF k4] X] by simp
        then show ?thesis
          using X Inr r2 i3 i4 r4
          by (simp add: new_security_group_containers add_ingress_rule_containers new_fargate_service_containers)
      qed (use X Inr r2 i3 in \<open>simp add: new_security_group_containers add_ingress_rule_containers
             new_fargate_service_containers\<close>)
    qed (use X Inr r2 in \<open>simp add: new_security_group_containers add_ingress_rule_containers\<close>)
  qed (use X in \<open>simp add: new_security_group_containers\<close>)
qed

text \<open>C12: the constructor is equivalent to the one that declares the container's port
  mapping in the props of \<open>addContainer\<close> instead of calling \<open>addPortMappings\<close> after
  the service is created (lines 46-49 and 67-69): in every application state, for every
  scope and id, both return the same state or the same exception. So the order of the
  source, which gives the container its port only after the service exists, is not
  significant: nothing between the two statements reads the container.\<close>

theorem type_task_stack_inline_eq: "type_task_stack_inline st0 scope n = type_task_stack st0 scope n"
proof -
  have c: "cp_port_mappings container_props_of_stack = []" "container_port_mappings \<noteq> []"
    by (simp_all add: container_props_of_stack_def container_port_mappings_def)
  show ?thesis
    unfolding type_task_stack_inline_def type_task_stack_def container_props_inline_def
      add_container_port_mappings [OF c]
    by (simp only: rbind_assoc rbind_case_prod rbind.simps prod.case port_mappings_commute)
qed

end
