(* ===== verification/Spec2Isabelle.thy ===== *)
theory Spec2Isabelle
  imports StackRun Template Reordering
begin

text \<open>
  \<^bold>\<open>What is verified.\<close> The repository is an AWS CDK application in TypeScript:
  \<open>src/lib/type-task-stack.ts\<close> declares the stack \<open>TypeTaskStack\<close> (a VPC with two
  public and two private subnets and one NAT gateway, an ECS cluster, a Fargate task
  definition with one container, two security groups, a Fargate service, an internet-facing
  application load balancer with a listener on port 80 forwarding to the service on port
  8080, and an output), \<open>src/bin/type-task.ts\<close> instantiates it in a new app, and
  \<open>src/test/type-task.test.ts\<close> asserts properties of its synthesized template. The
  program's behaviour is the state the aws-cdk-lib constructs it calls build: the
  construct tree and what each construct records. The development models the program
  exactly as written, and the library behaviour it relies on as far as the program
  exercises it.

  \<^bold>\<open>Theories.\<close>
  \<^item> \<open>Prelude\<close>: the error type \<open>cdk_error\<close> (one constructor per exception the
    library throws on the program's paths), results \<open>'a result = cdk_error + 'a\<close> with
    \<open>rbind\<close>, the loop \<open>for_each\<close> that stops at the first exception, and JavaScript's
    number printing and \<open>parseInt\<close> with their round trip.
  \<^item> \<open>Constructs\<close>: \<open>Node.addChild\<close> of the constructs library (id sanitising, empty,
    duplicate and locked-scope errors) on a tree of paths, its well-formedness invariant,
    preserved by every step of the inductive reachability relation.
  \<^item> \<open>Cidr\<close>: \<open>NetworkUtils\<close>, \<open>CidrBlock\<close> and \<open>NetworkBuilder\<close> of aws-ec2
    (address and CIDR string conversions with their round trips, sequential subnet
    allocation with its disjointness and containment invariant).
  \<^item> \<open>Vpc\<close>: \<open>ec2.Vpc\<close> (subnet configuration, NAT gateway count and its errors,
    subnets, internet gateway, NAT gateways and default routes, \<open>selectSubnets\<close>).
  \<^item> \<open>Security\<close>: \<open>SecurityGroup\<close>, \<open>addIngressRule\<close>/\<open>addEgressRule\<close> (inline
    rules deduplicated ignoring the description, rules with a group peer as separate
    constructs deduplicated by construct id), \<open>Connections\<close>, and the network meaning
    of the rules: \<open>flow_admitted\<close> decides whether a TCP flow between two endpoints on a
    port (at most 65535) passes the source's egress and the destination's ingress rules.
  \<^item> \<open>Ecs\<close> and \<open>Elb\<close>: cluster, Fargate task definition, container with log driver
    and port mappings (the \<open>awsvpc\<close> host-port check, the \<open>containerPort\<close> getter),
    Fargate service and its attachment to a target group; load balancer, listener
    (protocol and port defaults, open listeners), target groups and their registration,
    which opens the service's group to the load balancer's.
  \<^item> \<open>Stack\<close>: the program. \<open>type_task_stack\<close> is the constructor (lines 9-98), one
    step per statement in source order, each \<open>const\<close> a bound name; each props literal is
    a definition with the source's values; \<open>main_app\<close> is \<open>bin/type-task.ts\<close>.
  \<^item> \<open>StackRun\<close>: the constructor evaluated in the kernel for every valid stack name
    (\<open>type_task_stack_eq\<close>): the final state \<open>stack_final s\<close> written out, the VPC part
    staged in three lemmas.
  \<^item> \<open>FindAll\<close>: \<open>Node.findAll\<close> of the constructs library, the preorder or
    postorder visit of a construct's subtree, as a partial function (the visit follows
    children pointers); it returns on every tree (the depth of a tree bounds the
    recursion), not on a cyclic children map, and on a well-formed tree it visits each
    construct of the subtree exactly once.
  \<^item> \<open>Template\<close>: the resources of the tree (one resource per L1 construct, its type
    from the owning construct, main properties as strings): \<open>template_of\<close> lists them
    in creation order, \<open>template_from_stack\<close> is \<open>Template.fromStack\<close>, which lists the
    stack's CloudFormation elements in \<open>findAll\<close> preorder, and the two have the same
    resources when nothing outside the stack has one; and the unit test with its two
    assertions, which do not depend on the order of the resources.
  \<^item> \<open>Reordering\<close>: the constructor with the container's port mapping declared in
    \<open>addContainer\<close> instead of added after the service exists, frame lemmas for the
    statements in between, and the equivalence of the two constructors (C12).
  \<^item> This theory: the properties C1-C11 of the program.

  All state is passed explicitly: an extensible record (\<open>ctree\<close>, extended by each
  component's stores, up to \<open>stack_state\<close>), stores being maps from construct paths to
  the construct's record, so that a construct changed through one reference (the load
  balancer's group opened by the listener, the container given its port mapping after
  the service exists) is seen through every other. Every exception is an \<open>Inl\<close> value.
  JavaScript numbers are \<open>int\<close> (the CIDR arithmetic never leaves 32 bits) or \<open>nat\<close>
  (ports, counts); strings are character lists. All loops are over finite lists
  (\<open>for_each\<close>, structural recursion) or \<open>fun\<close> with a measure, except the visit of
  \<open>findAll\<close>, a recursion over children pointers: it is a \<^theory_text>\<open>partial_function (option)\<close>
  whose termination is a theorem (the measure is the depth of the tree); no fuel is needed.

  \<^bold>\<open>What the theorems show.\<close> C1: for every valid stack name the constructor returns
  and leaves a well-formed construct tree. C2: the security groups of the deployed stack
  implement the intended access matrix, for every pair of zones and every port: the
  internet reaches the load balancer on 80 only, the load balancer reaches the tasks on
  8080 only, the tasks are unreachable from the internet, every group sends anything. C3:
  the VPC layout (disjoint /24 subnets inside 10.0.0.0/16). C4: the request path from the
  listener to the container port. C5: placement and routes. C6, C7: the rules of both
  groups after deduplication. C8: the task size and the health check within AWS limits.
  C9, C10: the error paths the program's choices lead to (private subnets without a NAT
  gateway; a host port other than the container port under \<open>awsvpc\<close>). C11: the
  template \<open>Template.fromStack\<close> synthesizes has 34 resources, counted by type. C12: the
  late \<open>container.addPortMappings\<close> of lines 67-69 is equivalent, in every state, to
  declaring the mapping in \<open>addContainer\<close>; moving it after \<open>addTargets\<close> instead makes
  the constructor throw.

  The unit test of \<open>src/test/type-task.test.ts\<close> asserts an SQS queue and an SNS topic
  that the stack does not declare (it is the project template's test); this is recorded as
  a finding, not a theorem: the template model only has the resource types of the
  constructs the stack creates, so it could not show anything else.

  \<^bold>\<open>Not modelled.\<close> The library is modelled from its behaviour, not translated: it is
  not code of this repository. Not modelled: CloudFormation logical ids (the MD5 suffix of
  \<open>Names.nodeUniqueId\<close>: the unique id of a peer group is modelled as its path followed by
  its path string, which keeps ids distinct but is not CDK's string), tokens and the JSON
  rendering of the template; the statements of IAM policies (the execution role's default
  policy is a construct and a resource, its statements are not modelled); nested stacks,
  which synthesis skips and the program does not create; IPv6, VPC endpoints, flow logs,
  capacity providers, deployment configuration, certificates and listener rules with
  conditions, which the program does not use; the deployment itself, performed by
  CloudFormation outside the repository.
\<close>

section \<open>Endpoints of the deployed stack\<close>

text \<open>A task of the service and the load balancer, as sources and destinations of flows:
  the members of their security groups.\<close>

definition alb_endpoint :: "string \<Rightarrow> endpoint" where
  "alb_endpoint s = \<lparr>ep_sgs = [alb_sg_path s]\<rparr>"

definition task_endpoint :: "string \<Rightarrow> endpoint" where
  "task_endpoint s = \<lparr>ep_sgs = [service_sg_path s]\<rparr>"

text \<open>The three kinds of host of the deployed stack, and the access matrix the stack is
  meant to implement: the internet reaches the load balancer on the HTTP port only, the
  load balancer reaches the tasks on the container port only, every group sends anything
  anywhere, and nothing else gets in.\<close>

datatype zone = Internet | LoadBalancer | Tasks

definition zone_endpoint :: "string \<Rightarrow> zone \<Rightarrow> endpoint" where
  "zone_endpoint s z = (case z of Internet \<Rightarrow> internet | LoadBalancer \<Rightarrow> alb_endpoint s
                                | Tasks \<Rightarrow> task_endpoint s)"

fun access_spec :: "zone \<Rightarrow> zone \<Rightarrow> nat \<Rightarrow> bool" where
  "access_spec _ Internet n = (n \<le> 65535)"
| "access_spec _ LoadBalancer n = (n = 80)"
| "access_spec LoadBalancer Tasks n = (n = 8080)"
| "access_spec _ Tasks n = False"

section \<open>Subnet layout\<close>

text \<open>The address blocks of a VPC's subnets, parsed from their CIDR strings as the
  \<open>CidrBlock\<close> constructor parses them.\<close>

definition subnet_blocks :: "vpc \<Rightarrow> cidr_block list result" where
  "subnet_blocks v =
     for_each (\<lambda>bs sn. rbind (cidr_block_of_string (sn_cidr sn)) (\<lambda>b. Inr (bs @ [b])))
       (vpc_public v @ vpc_private v @ vpc_isolated v) []"

text \<open>The subnets of a VPC do not overlap and lie inside the VPC's block.\<close>

definition subnets_disjoint_inside :: "vpc \<Rightarrow> bool" where
  "subnets_disjoint_inside v \<longleftrightarrow>
     (case (cidr_block_of_string (vpc_cidr v), subnet_blocks v) of
        (Inr vb, Inr bs) \<Rightarrow>
          sorted_wrt (\<lambda>a b. max_address a < min_address b \<or> max_address b < min_address a) bs \<and>
          list_all (contains_cidr vb) bs
      | _ \<Rightarrow> False)"

section \<open>Fargate task sizes\<close>

text \<open>The CPU and memory combinations Fargate accepts for a task (CPU units, MiB), as
  documented for the task definition's \<open>cpu\<close> and \<open>memoryLimitMiB\<close>.\<close>

definition fargate_size_valid :: "nat \<Rightarrow> nat \<Rightarrow> bool" where
  "fargate_size_valid cpu mem \<longleftrightarrow>
     (cpu = 256 \<and> mem \<in> {512, 1024, 2048}) \<or>
     (cpu = 512 \<and> mem \<in> {1024, 2048, 3072, 4096}) \<or>
     (cpu = 1024 \<and> mem \<in> {2048, 3072, 4096, 5120, 6144, 7168, 8192}) \<or>
     (cpu = 2048 \<and> 4096 \<le> mem \<and> mem \<le> 16384 \<and> mem mod 1024 = 0) \<or>
     (cpu = 4096 \<and> 8192 \<le> mem \<and> mem \<le> 30720 \<and> mem mod 1024 = 0)"

section \<open>Helper lemmas\<close>

lemma main_app_result:
  "main_app = Inr (st, p) \<longleftrightarrow> st = stack_final ''TypeTaskStack'' \<and> p = [''TypeTaskStack'']"
  unfolding main_app_eq by auto

lemma stack_final_sgs:
  "sgs (stack_final s) (alb_sg_path s) = Some alb_sg"
  "sgs (stack_final s) (service_sg_path s) = Some (service_sg s)"
  by (simp_all add: stack_final_def)

text \<open>The only construct of the deployed app outside the stack is the app's root, which
  has no resource; so \<open>Template.fromStack\<close> of the stack has the resources of
  \<open>template_of\<close>.\<close>

lemma stack_final_outside:
  "q \<in> set (nodes (stack_final s)) \<Longrightarrow> \<not> prefix [s] q \<Longrightarrow> resources_at (stack_final s) q = []"
proof -
  assume "q \<in> set (nodes (stack_final s))" and "\<not> prefix [s] q"
  then have "q = []"
    by (auto simp: stack_final_fields(1) stack_nodes_def subnet_nodes_def gateway_nodes_def)
  then show ?thesis by (simp add: resources_at_def)
qed

lemma stack_final_template:
  "valid_stack_name s \<Longrightarrow>
   \<exists>T. template_from_stack (stack_final s) [s] = Some T \<and> mset T = mset (template_of (stack_final s))"
  by (rule template_from_stack_mset [OF stack_final_wf _ stack_final_outside])
     (simp_all add: stack_final_fields(1) stack_nodes_def)

lemma stack_template_types: "map res_type (template_of (stack_final s)) =
  [''AWS::EC2::VPC'', ''AWS::EC2::Subnet'', ''AWS::EC2::RouteTable'', ''AWS::EC2::SubnetRouteTableAssociation'',
   ''AWS::EC2::Subnet'', ''AWS::EC2::RouteTable'', ''AWS::EC2::SubnetRouteTableAssociation'',
   ''AWS::EC2::Subnet'', ''AWS::EC2::RouteTable'', ''AWS::EC2::SubnetRouteTableAssociation'',
   ''AWS::EC2::Subnet'', ''AWS::EC2::RouteTable'', ''AWS::EC2::SubnetRouteTableAssociation'',
   ''AWS::EC2::InternetGateway'', ''AWS::EC2::VPCGatewayAttachment'',
   ''AWS::EC2::Route'', ''AWS::EC2::Route'', ''AWS::EC2::EIP'', ''AWS::EC2::NatGateway'', ''AWS::EC2::Route'', ''AWS::EC2::Route'',
   ''AWS::ECS::Cluster'', ''AWS::EC2::SecurityGroup'', ''AWS::IAM::Role'', ''AWS::ECS::TaskDefinition'',
   ''AWS::Logs::LogGroup'', ''AWS::IAM::Role'', ''AWS::IAM::Policy'', ''AWS::EC2::SecurityGroup'', ''AWS::EC2::SecurityGroupIngress'',
   ''AWS::ECS::Service'', ''AWS::ElasticLoadBalancingV2::LoadBalancer'', ''AWS::ElasticLoadBalancingV2::Listener'',
   ''AWS::ElasticLoadBalancingV2::TargetGroup'']"
  by (simp add: template_of_def stack_final_fields stack_nodes_def subnet_nodes_def gateway_nodes_def
      template_defs stack_task_def_def stack_vpc_def stack_subnet_def Let_def service_rule_id_def service_sg_def)

lemmas flow_defs = flow_admitted_def ingress_admits_def egress_admits_def all_ingress_def
  all_egress_def rule_admits_def peer_matches_def internet_def alb_endpoint_def task_endpoint_def
  allow_all_rule_def mk_rule_def port_all_traffic_def

section \<open>The program runs\<close>

text \<open>C1: for every valid stack name, the constructor of \<open>TypeTaskStack\<close> in a new app
  returns without an exception, and the construct tree it leaves is well formed: every
  path appears once, every parent exists, every id is non-empty and free of slashes.\<close>

theorem type_task_stack_succeeds:
  assumes "valid_stack_name s"
  shows "\<exists>st. type_task_stack new_app [] s = Inr (st, [s]) \<and> wf_ctree st"
proof -
  have "wf_ctree (stack_final s)" using assms by (rule stack_final_wf)
  then show ?thesis
    using type_task_stack_eq [OF assms] by blast
qed

theorem type_task_stack_succeeds_witness:
  "\<exists>st. type_task_stack new_app [] ''TypeTaskStack'' = Inr (st, [''TypeTaskStack'']) \<and> wf_ctree st"
  by (rule type_task_stack_succeeds) (simp add: valid_stack_name_def is_alpha_def is_digit_def)

section \<open>Who can reach what\<close>

lemma stack_vpc_layout: "subnets_disjoint_inside (stack_vpc s)"
  by (simp add: stack_vpc_def stack_subnet_def subnets_disjoint_inside_def subnet_blocks_def) code_simp

text \<open>C2: the stack implements its access matrix: for every pair of zones and every
  port, a flow is admitted by the security groups exactly when the matrix allows it.\<close>

theorem access_matrix_refinement:
  "\<exists>st. main_app = Inr (st, [''TypeTaskStack'']) \<and>
        (\<forall>a b n. flow_admitted st (zone_endpoint ''TypeTaskStack'' a) (zone_endpoint ''TypeTaskStack'' b) n \<longleftrightarrow>
                 access_spec a b n)"
  apply (simp add: main_app_result)
  apply (intro allI; case_tac a; case_tac b)
  apply (simp_all add: zone_endpoint_def flow_defs stack_final_sgs service_sg_def alb_sg_def)
  apply auto
  done

text \<open>C3: the VPC has the four /24 subnets of lines 12-27, a public and a private one in
  each of the two zones, in this order; they do not overlap and lie inside the VPC's block
  \<open>10.0.0.0/16\<close>.\<close>

theorem vpc_subnet_layout:
  "\<exists>st v. main_app = Inr (st, [''TypeTaskStack'']) \<and> vpcs st [''TypeTaskStack'', ''VPC''] = Some v \<and>
          vpc_cidr v = ''10.0.0.0/16'' \<and>
          map (\<lambda>sn. (sn_cidr sn, sn_az sn)) (vpc_public v) =
            [(''10.0.0.0/24'', stack_azs ! 0), (''10.0.1.0/24'', stack_azs ! 1)] \<and>
          map (\<lambda>sn. (sn_cidr sn, sn_az sn)) (vpc_private v) =
            [(''10.0.2.0/24'', stack_azs ! 0), (''10.0.3.0/24'', stack_azs ! 1)] \<and>
          vpc_isolated v = [] \<and> subnets_disjoint_inside v"
  by (simp add: main_app_result stack_final_def stack_vpc_layout) (simp add: stack_vpc_def stack_subnet_def)

text \<open>C4: the request path is consistent: the listener takes HTTP on port 80 and forwards
  to one target group, which sends HTTP to the service's tasks by IP on its port; that
  port is the container's only port mapping, the port the service records for the load
  balancer, and a port on which the load balancer may reach the tasks.\<close>

theorem request_path_consistent:
  "\<exists>st l tg svc c.
     main_app = Inr (st, [''TypeTaskStack'']) \<and>
     listeners st [''TypeTaskStack'', ''ALB'', ''Listener''] = Some l \<and>
     ls_protocol l = HTTP \<and> ls_port l = 80 \<and> ls_default_forward l = [[''TypeTaskStack'', ''ALB'', ''Listener'', ''ECSGroup'']] \<and>
     target_groups st [''TypeTaskStack'', ''ALB'', ''Listener'', ''ECSGroup''] = Some tg \<and>
     tg_protocol tg = HTTP \<and> tg_target_type tg = Some IP \<and> tg_targets tg = [[''TypeTaskStack'', ''FargateService'']] \<and>
     services st [''TypeTaskStack'', ''FargateService''] = Some svc \<and>
     svc_load_balancers svc = [([''TypeTaskStack'', ''ALB'', ''Listener'', ''ECSGroup''], ''DefaultContainer'', tg_port tg)] \<and>
     containers st [''TypeTaskStack'', ''TaskDef'', ''DefaultContainer''] = Some c \<and>
     map pm_container_port (cd_port_mappings c) = [tg_port tg] \<and>
     flow_admitted st (alb_endpoint ''TypeTaskStack'') (task_endpoint ''TypeTaskStack'') (tg_port tg)"
  by (simp add: main_app_result stack_final_def stack_listener_def stack_target_group_def stack_service_def
      stack_container_def flow_defs service_sg_def alb_sg_def)

text \<open>C5: placement: the load balancer is internet-facing in the two public subnets; the
  service runs two tasks in the two private subnets without public addresses; every public
  subnet routes to the VPC's internet gateway and maps public addresses, every private
  subnet routes to the NAT gateway of the first public subnet and maps none.\<close>

theorem placement_and_routes:
  "\<exists>st v a svc igw.
     main_app = Inr (st, [''TypeTaskStack'']) \<and> vpcs st [''TypeTaskStack'', ''VPC''] = Some v \<and>
     albs st [''TypeTaskStack'', ''ALB''] = Some a \<and> services st [''TypeTaskStack'', ''FargateService''] = Some svc \<and>
     alb_internet_facing a \<and> alb_subnets a = map sn_path (vpc_public v) \<and> length (vpc_public v) = 2 \<and>
     svc_subnets svc = map sn_path (vpc_private v) \<and> length (vpc_private v) = 2 \<and>
     \<not> svc_assign_public_ip svc \<and> svc_desired_count svc = Some 2 \<and>
     vpc_igw v = Some igw \<and>
     list_all (\<lambda>sn. sn_default_route sn = Some (InternetGateway igw) \<and> sn_map_public_ip sn) (vpc_public v) \<and>
     list_all (\<lambda>sn. sn_default_route sn = Some (NatGateway (sn_path (hd (vpc_public v)) @ [''NATGateway''])) \<and>
                     \<not> sn_map_public_ip sn) (vpc_private v)"
  by (simp add: main_app_result stack_final_def stack_alb_def stack_service_def stack_vpc_def stack_subnet_def)

text \<open>C6: the load balancer's group has one ingress rule, the one of line 39 with its
  description: the rule the open listener adds for port 80 is equal to it up to the
  description and is not added a second time; its only egress rule is the default one.\<close>

theorem alb_sg_rules:
  "\<exists>st sg. main_app = Inr (st, [''TypeTaskStack'']) \<and> sgs st [''TypeTaskStack'', ''AlbSecurityGroup''] = Some sg \<and>
     sg_ingress sg = [\<lparr>rl_peer = AnyIpv4, rl_protocol = TCP, rl_from = 80, rl_to = 80,
                       rl_description = ''Allow HTTP traffic from anywhere''\<rparr>] \<and>
     sg_separate_ingress sg = [] \<and> sg_egress sg = [allow_all_rule] \<and> sg_separate_egress sg = []"
  by (simp add: main_app_result stack_final_sgs alb_sg_def)

text \<open>C7: the service's group has one ingress rule, from the load balancer's group on
  port 8080 with the description of line 56, as a separate resource: the target group's
  \<open>allowTo\<close> for the same peer and port finds that resource and adds nothing; no egress
  rule is added since the group allows all outbound traffic.\<close>

theorem service_sg_rules:
  "\<exists>st sg. main_app = Inr (st, [''TypeTaskStack'']) \<and> sgs st [''TypeTaskStack'', ''ServiceSecurityGroup''] = Some sg \<and>
     sg_ingress sg = [] \<and>
     map snd (sg_separate_ingress sg) =
       [\<lparr>rl_peer = SgPeer [''TypeTaskStack'', ''AlbSecurityGroup''], rl_protocol = TCP, rl_from = 8080,
         rl_to = 8080, rl_description = ''Allow traffic from ALB''\<rparr>] \<and>
     sg_egress sg = [allow_all_rule] \<and> sg_separate_egress sg = []"
  by (simp add: main_app_result stack_final_sgs service_sg_def)

text \<open>C8: the task definition is a Fargate task in \<open>awsvpc\<close> mode whose size (256 CPU
  units, 512 MiB) is a combination Fargate accepts, its default container is the
  essential \<open>DefaultContainer\<close> logging with the prefix \<open>ecs\<close> through an execution
  role, and the target group's health check is within the load balancer's limits.\<close>

theorem task_and_health_check_valid:
  "\<exists>st td c tg. main_app = Inr (st, [''TypeTaskStack'']) \<and>
     task_defs st [''TypeTaskStack'', ''TaskDef''] = Some td \<and>
     td_compatibility td = FARGATE \<and> td_network_mode td = AWS_VPC \<and>
     fargate_size_valid (td_cpu td) (td_memory td) \<and>
     td_default_container td = Some [''TypeTaskStack'', ''TaskDef'', ''DefaultContainer''] \<and>
     td_execution_role td \<noteq> None \<and>
     containers st [''TypeTaskStack'', ''TaskDef'', ''DefaultContainer''] = Some c \<and>
     cd_essential c \<and> cd_log_stream_prefix c = Some ''ecs'' \<and>
     target_groups st [''TypeTaskStack'', ''ALB'', ''Listener'', ''ECSGroup''] = Some tg \<and>
     health_check_valid (tg_health_check tg)"
  by (simp add: main_app_result stack_final_def stack_task_def_def stack_container_def stack_target_group_def
      fargate_size_valid_def health_check_valid_def)

text \<open>C9: the private subnets of lines 21-25 need a NAT gateway: with the VPC props of
  lines 12-27 but \<open>natGateways: 0\<close>, the VPC constructor throws.\<close>

theorem no_nat_gateway_error:
  assumes "locked_paths st = []" and "[s, ''VPC''] \<notin> set (nodes st)" and "[s, ''VPC'', ''Resource''] \<notin> set (nodes st)"
    and "CHR ''/'' \<notin> set s"
  shows "new_vpc st [s] ''VPC'' (vpc_props_of_stack\<lparr>vp_nat_gateways := Some 0\<rparr>) stack_azs =
         Inl PrivateSubnetsWithoutNat"
  using assms
  by (simp add: new_vpc_def fresh_steps nb0_eq vpc_props_of_stack_def determine_nat_gateway_count_def
      stack_azs_def is_private_type_def)

theorem no_nat_gateway_error_witness:
  "new_vpc (new_app\<lparr>nodes := [[], [''TypeTaskStack'']]\<rparr>) [''TypeTaskStack''] ''VPC''
     (vpc_props_of_stack\<lparr>vp_nat_gateways := Some 0\<rparr>) stack_azs = Inl PrivateSubnetsWithoutNat"
  by (rule no_nat_gateway_error) (simp_all add: new_app_def)

text \<open>C10: the container's task definition uses \<open>awsvpc\<close>, so a port mapping of the
  deployed container can only give the container port as host port: the mapping of
  lines 67-69 with host port \<open>h\<close> is accepted exactly when \<open>h = 8080\<close>, and otherwise
  \<open>addPortMappings\<close> throws.\<close>

theorem host_port_must_match:
  "\<exists>st c. main_app = Inr (st, [''TypeTaskStack'']) \<and>
     containers st [''TypeTaskStack'', ''TaskDef'', ''DefaultContainer''] = Some c \<and>
     (\<forall>h. add_port_mappings st [''TypeTaskStack'', ''TaskDef'', ''DefaultContainer'']
             [(hd container_port_mappings)\<lparr>pm_host_port := Some h\<rparr>] =
          (if h = 8080
           then Inr (st\<lparr>containers := (containers st)([''TypeTaskStack'', ''TaskDef'', ''DefaultContainer''] \<mapsto>
                     c\<lparr>cd_port_mappings := cd_port_mappings c @ [(hd container_port_mappings)\<lparr>pm_host_port := Some h\<rparr>]\<rparr>)\<rparr>)
           else Inl (HostPortMismatch h 8080)))"
  by (simp add: main_app_result stack_final_def add_port_mappings_def check_port_mapping_def
      container_port_mappings_def stack_container_def stack_task_def_def)

text \<open>C11: the template \<open>Template.fromStack\<close> synthesizes for the deployed stack has 34
  resources: one VPC with four subnets, each with its route table, association and default
  route, one elastic IP and NAT gateway, the internet gateway and its attachment; the
  cluster, two security groups and one separate ingress rule; the task definition, its
  task and execution roles, the execution role's default policy (the log driver's grant)
  and the container's log group; the service; the load balancer, listener and target
  group.\<close>

theorem deployed_template_resources:
  "\<exists>st T. main_app = Inr (st, [''TypeTaskStack'']) \<and>
     template_from_stack st [''TypeTaskStack''] = Some T \<and> length T = 34 \<and>
     map (resource_count T)
       [''AWS::EC2::VPC'', ''AWS::EC2::Subnet'', ''AWS::EC2::RouteTable'', ''AWS::EC2::SubnetRouteTableAssociation'',
        ''AWS::EC2::Route'', ''AWS::EC2::EIP'', ''AWS::EC2::NatGateway'', ''AWS::EC2::InternetGateway'',
        ''AWS::EC2::VPCGatewayAttachment'', ''AWS::ECS::Cluster'', ''AWS::EC2::SecurityGroup'',
        ''AWS::EC2::SecurityGroupIngress'', ''AWS::ECS::TaskDefinition'', ''AWS::IAM::Role'', ''AWS::IAM::Policy'',
        ''AWS::Logs::LogGroup'', ''AWS::ECS::Service'', ''AWS::ElasticLoadBalancingV2::LoadBalancer'',
        ''AWS::ElasticLoadBalancingV2::Listener'', ''AWS::ElasticLoadBalancingV2::TargetGroup'']
     = [1, 4, 4, 4, 4, 1, 1, 1, 1, 1, 2, 1, 1, 2, 1, 1, 1, 1, 1, 1]"
proof -
  have v: "valid_stack_name ''TypeTaskStack''"
    by (simp add: valid_stack_name_def is_alpha_def is_digit_def)
  obtain T where T: "template_from_stack (stack_final ''TypeTaskStack'') [''TypeTaskStack''] = Some T"
    and m: "mset T = mset (template_of (stack_final ''TypeTaskStack''))"
    using stack_final_template [OF v] by blast
  have "length T = length (map res_type (template_of (stack_final ''TypeTaskStack'')))"
    using mset_eq_length [OF m] by simp
  moreover have "resource_count T ty = resource_count (template_of (stack_final ''TypeTaskStack'')) ty" for ty
    by (rule resource_count_mset [OF m])
  ultimately show ?thesis
    using T by (simp add: main_app_result resource_count_types stack_template_types del: length_map)
qed

end
